theory Spec2Isabelle
  imports Complex_Main "HOL-Library.AList"
begin

section \<open>Errors and tensors\<close>

text \<open>
  The Python exceptions the modelled code can raise. A computation that may raise returns
  \<open>error + 'a\<close>, with \<open>Inl\<close> for the exception; \<open>ebind\<close> sequences two such
  computations and stops at the first exception.
\<close>

datatype error =
  RuntimeError | TypeError | KeyError | IndexError | ValueError
  | ZeroDivisionError | OverflowError | AttributeError | NameError

definition ebind :: "error + 'a \<Rightarrow> ('a \<Rightarrow> error + 'b) \<Rightarrow> error + 'b" where
  "ebind m f = (case m of Inl e \<Rightarrow> Inl e | Inr v \<Rightarrow> f v)"

fun emap :: "('a \<Rightarrow> error + 'b) \<Rightarrow> 'a list \<Rightarrow> error + 'b list" where
  "emap f [] = Inr []"
| "emap f (a # as) =
     (case f a of Inl e \<Rightarrow> Inl e
      | Inr b \<Rightarrow> (case emap f as of Inl e \<Rightarrow> Inl e | Inr bs \<Rightarrow> Inr (b # bs)))"

text \<open>
  A tensor is its shape and its values in row-major order. Tensor entries are real
  numbers: the rounding of the 32-bit floats of the source is not modelled.
\<close>

record tensor =
  dims :: "nat list"
  vals :: "real list"

definition mk_tensor :: "nat list \<Rightarrow> (nat \<Rightarrow> real) \<Rightarrow> tensor" where
  "mk_tensor ds f = \<lparr>dims = ds, vals = map f [0..<prod_list ds]\<rparr>"

definition relu :: "real \<Rightarrow> real" where
  "relu v = max 0 v"

section \<open>core/nn.py: the networks\<close>

text \<open>
  A network is its two configuration attributes and its registered parameters, keyed as
  in its \<open>state_dict()\<close> (\<open>rep_net.conv1.weight\<close>, \<open>q_network_fc3.bias\<close>, ...), in
  registration order. The values a constructor draws for a fresh parameter come from
  \<open>init\<close>: the value of the parameter named \<open>k\<close> at flat index \<open>i\<close> is \<open>init k i\<close>.
\<close>

record Network =
  use_fta :: bool
  use_aux :: "string option"
  params :: "(string \<times> tensor) list"

definition param :: "Network \<Rightarrow> string \<Rightarrow> error + tensor" where
  "param net k = (case map_of (params net) k of None \<Rightarrow> Inl AttributeError | Some t \<Rightarrow> Inr t)"

definition Linear :: "(string \<Rightarrow> nat \<Rightarrow> real) \<Rightarrow> string \<Rightarrow> nat \<Rightarrow> nat \<Rightarrow> (string \<times> tensor) list" where
  "Linear init name in_features out_features =
     [(name @ ''.weight'', mk_tensor [out_features, in_features] (init (name @ ''.weight''))),
      (name @ ''.bias'', mk_tensor [out_features] (init (name @ ''.bias'')))]"

definition Conv2d :: "(string \<Rightarrow> nat \<Rightarrow> real) \<Rightarrow> string \<Rightarrow> nat \<Rightarrow> nat \<Rightarrow> nat \<Rightarrow> (string \<times> tensor) list" where
  "Conv2d init name in_channels out_channels kernel_size =
     [(name @ ''.weight'',
         mk_tensor [out_channels, in_channels, kernel_size, kernel_size] (init (name @ ''.weight''))),
      (name @ ''.bias'', mk_tensor [out_channels] (init (name @ ''.bias'')))]"

definition ConvTranspose2d :: "(string \<Rightarrow> nat \<Rightarrow> real) \<Rightarrow> string \<Rightarrow> nat \<Rightarrow> nat \<Rightarrow> nat \<Rightarrow> (string \<times> tensor) list" where
  "ConvTranspose2d init name in_channels out_channels kernel_size =
     [(name @ ''.weight'',
         mk_tensor [in_channels, out_channels, kernel_size, kernel_size] (init (name @ ''.weight''))),
      (name @ ''.bias'', mk_tensor [out_channels] (init (name @ ''.bias'')))]"

text \<open>The constructors of the five sub-networks, each under the attribute name \<open>name\<close>.\<close>

definition SFNetwork :: "(string \<Rightarrow> nat \<Rightarrow> real) \<Rightarrow> string \<Rightarrow> bool \<Rightarrow> (string \<times> tensor) list" where
  "SFNetwork init name fta =
     (if fta then Linear init (name @ ''.linear1'') 640 640 @ Linear init (name @ ''.linear2'') 640 640
      else Linear init (name @ ''.linear1'') 32 32 @ Linear init (name @ ''.linear2'') 32 32)"

definition Reward :: "(string \<Rightarrow> nat \<Rightarrow> real) \<Rightarrow> string \<Rightarrow> bool \<Rightarrow> (string \<times> tensor) list" where
  "Reward init name fta =
     (if fta then Linear init (name @ ''.linear1'') 640 1024
      else Linear init (name @ ''.linear1'') 32 1024)
     @ Linear init (name @ ''.linear2'') 1024 128
     @ Linear init (name @ ''.linear3'') 128 1"

definition InputReconstruction :: "(string \<Rightarrow> nat \<Rightarrow> real) \<Rightarrow> string \<Rightarrow> bool \<Rightarrow> (string \<times> tensor) list" where
  "InputReconstruction init name fta =
     (if fta then Linear init (name @ ''.linear'') 640 1024
      else Linear init (name @ ''.linear'') 32 1024)
     @ ConvTranspose2d init (name @ ''.convT1'') 16 32 4
     @ ConvTranspose2d init (name @ ''.convT2'') 32 3 4"

definition VirtualValueFunction :: "(string \<Rightarrow> nat \<Rightarrow> real) \<Rightarrow> string \<Rightarrow> bool \<Rightarrow> (string \<times> tensor) list" where
  "VirtualValueFunction init name fta =
     (if fta then Linear init (name @ ''.q_network_fc1'') 640 64
      else Linear init (name @ ''.q_network_fc1'') 32 64)
     @ Linear init (name @ ''.q_network_fc2'') 64 64
     @ Linear init (name @ ''.q_network_fc3'') 64 4"

definition RepresentationNetwork :: "(string \<Rightarrow> nat \<Rightarrow> real) \<Rightarrow> string \<Rightarrow> bool \<Rightarrow> (string \<times> tensor) list" where
  "RepresentationNetwork init name fta =
     Conv2d init (name @ ''.conv1'') 3 32 4
     @ Conv2d init (name @ ''.conv2'') 32 16 4
     @ Linear init (name @ ''.fc1'') (8 * 8 * 16) 32"

text \<open>
  \<open>Network.__init__\<close>. The width of the last layer of the action-value head is the
  literal 4; the constructor has no argument for the number of actions.
\<close>

definition Network_init :: "(string \<Rightarrow> nat \<Rightarrow> real) \<Rightarrow> bool \<Rightarrow> string option \<Rightarrow> Network" where
  "Network_init init fta aux =
     \<lparr>use_fta = fta, use_aux = aux,
      params =
        RepresentationNetwork init ''rep_net'' fta
        @ (if fta then Linear init ''q_network_fc1'' 640 64
           else Linear init ''q_network_fc1'' 32 64)
        @ (if aux \<noteq> Some ''no_aux'' then
             (if aux = Some ''ir'' then InputReconstruction init ''aux_network'' fta
              else if aux = Some ''reward'' then Reward init ''aux_network'' fta
              else if aux = Some ''sf'' then
                SFNetwork init ''aux_network'' fta
                @ InputReconstruction init ''next_state_rep'' fta
              else if aux = Some ''virtual-reward-1'' \<or> aux = Some ''virtual-reward-5'' then
                VirtualValueFunction init ''aux_network'' fta
              else [])
           else [])
        @ Linear init ''q_network_fc2'' 64 64
        @ Linear init ''q_network_fc3'' 64 4\<rparr>"

text \<open>
  The library operations the forward passes call and whose arithmetic nothing below
  depends on are parameters of the model: the two convolutions of torch, and the activation
  \<open>FTA\<close> of \<open>core/activations/fta.py\<close>, a file of the repository that is not among the
  sources (it is taken to register no parameter). The convolutions take the input, the
  weight, the bias, the stride and the padding.
\<close>

record torch =
  conv2d :: "tensor \<Rightarrow> tensor \<Rightarrow> tensor \<Rightarrow> nat \<Rightarrow> nat \<Rightarrow> error + tensor"
  conv_transpose2d :: "tensor \<Rightarrow> tensor \<Rightarrow> tensor \<Rightarrow> nat \<Rightarrow> nat \<Rightarrow> error + tensor"
  FTA :: "real list \<Rightarrow> real list"

text \<open>
  \<open>F.linear\<close> on one row: the input must have \<open>in_features\<close> entries, and the result has
  one entry for each row of the weight.
\<close>

definition F_linear :: "tensor \<Rightarrow> tensor \<Rightarrow> real list \<Rightarrow> error + real list" where
  "F_linear W b xs =
     (case dims W of
        [n_out, n_in] \<Rightarrow>
          if length xs = n_in \<and> dims b = [n_out]
             \<and> length (vals W) = n_out * n_in \<and> length (vals b) = n_out
          then Inr (map (\<lambda>j. (\<Sum>i\<leftarrow>[0..<n_in]. xs ! i * vals W ! (j * n_in + i)) + vals b ! j)
                      [0..<n_out])
          else Inl RuntimeError
      | _ \<Rightarrow> Inl RuntimeError)"

definition linear :: "Network \<Rightarrow> string \<Rightarrow> real list \<Rightarrow> error + real list" where
  "linear net name xs =
     ebind (param net (name @ ''.weight'')) (\<lambda>W.
     ebind (param net (name @ ''.bias'')) (\<lambda>b.
     F_linear W b xs))"

definition conv :: "torch \<Rightarrow> Network \<Rightarrow> string \<Rightarrow> nat \<Rightarrow> nat \<Rightarrow> tensor \<Rightarrow> error + tensor" where
  "conv lib net name stride padding t =
     ebind (param net (name @ ''.weight'')) (\<lambda>W.
     ebind (param net (name @ ''.bias'')) (\<lambda>b.
     conv2d lib t W b stride padding))"

definition convT :: "torch \<Rightarrow> Network \<Rightarrow> string \<Rightarrow> nat \<Rightarrow> nat \<Rightarrow> tensor \<Rightarrow> error + tensor" where
  "convT lib net name stride padding t =
     ebind (param net (name @ ''.weight'')) (\<lambda>W.
     ebind (param net (name @ ''.bias'')) (\<lambda>b.
     conv_transpose2d lib t W b stride padding))"

definition tmap :: "(real \<Rightarrow> real) \<Rightarrow> tensor \<Rightarrow> tensor" where
  "tmap f t = t\<lparr>vals := map f (vals t)\<rparr>"

text \<open>
  The forward passes, on one sample: every layer acts on each row of a batch on its own,
  so a batch is evaluated row by row. \<open>x.reshape((-1, 1024))\<close> keeps one row per sample
  exactly when a sample flattens to 1024 entries; any other size is an error of the
  model.
\<close>

definition SFNetwork_forward :: "Network \<Rightarrow> string \<Rightarrow> real list \<Rightarrow> error + real list" where
  "SFNetwork_forward net name xs =
     ebind (linear net (name @ ''.linear1'') xs) (\<lambda>h.
     linear net (name @ ''.linear2'') (map relu h))"

definition Reward_forward :: "Network \<Rightarrow> string \<Rightarrow> real list \<Rightarrow> error + real list" where
  "Reward_forward net name xs =
     ebind (linear net (name @ ''.linear1'') xs) (\<lambda>h1.
     ebind (linear net (name @ ''.linear2'') (map relu h1)) (\<lambda>h2.
     linear net (name @ ''.linear3'') (map relu h2)))"

definition InputReconstruction_forward :: "torch \<Rightarrow> Network \<Rightarrow> string \<Rightarrow> real list \<Rightarrow> error + real list" where
  "InputReconstruction_forward lib net name xs =
     ebind (linear net (name @ ''.linear'') xs) (\<lambda>h.
     ebind (convT lib net (name @ ''.convT1'') 2 2 \<lparr>dims = [16, 8, 8], vals = map relu h\<rparr>) (\<lambda>c1.
     ebind (convT lib net (name @ ''.convT2'') 1 1 (tmap relu c1)) (\<lambda>c2.
     Inr (vals (tmap relu c2)))))"

definition VirtualValueFunction_forward :: "Network \<Rightarrow> string \<Rightarrow> real list \<Rightarrow> error + real list" where
  "VirtualValueFunction_forward net name xs =
     ebind (linear net (name @ ''.q_network_fc1'') xs) (\<lambda>h1.
     ebind (linear net (name @ ''.q_network_fc2'') (map relu h1)) (\<lambda>h2.
     linear net (name @ ''.q_network_fc3'') (map relu h2)))"

definition RepresentationNetwork_forward :: "torch \<Rightarrow> Network \<Rightarrow> string \<Rightarrow> tensor \<Rightarrow> error + real list" where
  "RepresentationNetwork_forward lib net name s =
     ebind (conv lib net (name @ ''.conv1'') 1 1 (tmap (\<lambda>v. v / 255) s)) (\<lambda>c1.
     ebind (conv lib net (name @ ''.conv2'') 2 2 (tmap relu c1)) (\<lambda>c2.
     if length (vals c2) \<noteq> 1024 then Inl RuntimeError
     else
       ebind (linear net (name @ ''.fc1'') (map relu (vals c2))) (\<lambda>h.
       Inr (if use_fta net then FTA lib h else map relu h))))"

record net_return =
  out_x :: "real list"
  out_aux :: "real list option"
  out_rep :: "real list"
  out_next_rep :: "real list option"

definition aux_forward :: "torch \<Rightarrow> Network \<Rightarrow> real list \<Rightarrow> error + (real list option \<times> real list option)" where
  "aux_forward lib net r =
     (if use_aux net \<noteq> Some ''no_aux'' then
        (if use_aux net = Some ''reward'' then
           ebind (Reward_forward net ''aux_network'' r) (\<lambda>a. Inr (Some a, None))
         else if use_aux net = Some ''sf'' then
           ebind (SFNetwork_forward net ''aux_network'' r) (\<lambda>a.
           ebind (InputReconstruction_forward lib net ''next_state_rep'' r) (\<lambda>n.
           Inr (Some a, Some n)))
         else if use_aux net = Some ''ir'' then
           ebind (InputReconstruction_forward lib net ''aux_network'' r) (\<lambda>a. Inr (Some a, None))
         else if use_aux net = Some ''virtual-reward-1'' \<or> use_aux net = Some ''virtual-reward-5'' then
           ebind (VirtualValueFunction_forward net ''aux_network'' r) (\<lambda>a. Inr (Some a, None))
         else Inr (None, None))
      else Inr (None, None))"

text \<open>\<open>Network.forward\<close>: the list \<open>[x, aux, rep, next_rep]\<close>.\<close>

definition Network_forward :: "torch \<Rightarrow> Network \<Rightarrow> tensor \<Rightarrow> error + net_return" where
  "Network_forward lib net s =
     ebind (RepresentationNetwork_forward lib net ''rep_net'' s) (\<lambda>r.
     ebind (aux_forward lib net r) (\<lambda>(a, n).
     ebind (linear net ''q_network_fc1'' r) (\<lambda>h1.
     ebind (linear net ''q_network_fc2'' (map relu h1)) (\<lambda>h2.
     ebind (linear net ''q_network_fc3'' (map relu h2)) (\<lambda>q.
     Inr \<lparr>out_x = q, out_aux = a, out_rep = r, out_next_rep = n\<rparr>)))))"

section \<open>core/utils.py: Transition and ReplayMemory\<close>

text \<open>
  Modelled from the spec: \<open>core/utils.py\<close>, which declares \<open>Transition\<close> and
  \<open>ReplayMemory\<close>, is not among the sources. A transition has the six fields the
  training loop passes to \<open>push\<close>, in that order, and Python's \<open>None\<close> is \<open>None\<close>. The
  memory is a container of fixed capacity, ordered by insertion, that evicts its oldest
  entry when a push overflows it. What \<open>sample\<close> draws is an input of the model (see
  \<open>memory_sample\<close> below).
\<close>

record Transition =
  state :: tensor
  action :: nat
  next_state :: "tensor option"
  reward :: real
  next_action :: "nat option"
  virtual_reward :: "real option"

record ReplayMemory =
  capacity :: nat
  items :: "Transition list"

definition push :: "ReplayMemory \<Rightarrow> Transition \<Rightarrow> ReplayMemory" where
  "push m tr = m\<lparr>items := drop (length (items m @ [tr]) - capacity m) (items m @ [tr])\<rparr>"

section \<open>core/agent.py: the agent\<close>

text \<open>
  The configuration \<open>self.args\<close> is read and never written, so it is an argument of every
  operation. The two fields \<open>use_fta\<close> and \<open>use_aux\<close> carry the prefix \<open>arg_\<close> to keep them
  apart from the attributes of \<open>Network\<close>.
\<close>

record config =
  learning_rate :: real
  batch_size :: int
  gamma :: real
  eps_start :: real
  eps_end :: real
  eps_decay :: real
  horizon :: int
  max_episodes :: int
  consecutive_episodes :: int
  target_update :: int
  soft_target_update :: bool
  tau :: real
  arg_use_fta :: bool
  arg_use_aux :: "string option"
  aux_loss_weight :: real
  transfer :: bool
  save_ratio :: int
  save_model :: bool
  save_rewards :: bool
  plot_during_training :: bool

text \<open>
  What the agent calls outside the repository: the random number generators (each draw
  takes the generator state \<open>'g\<close> and returns the next one), the environment (state
  \<open>'e\<close>) and the optimizer (state \<open>'o\<close>). \<open>optimizer_step\<close> stands for
  \<open>zero_grad\<close>, \<open>backward\<close>, the gradient clipping and \<open>step\<close>: it receives the loss as a
  function of the policy network and returns the updated policy network. \<open>float_exp\<close> is
  the float64 value \<open>math.exp\<close> returns where it neither overflows nor is sure to
  underflow to zero (see \<open>math_exp\<close> below).
\<close>

record ('e, 'g, 'o) world =
  random_random :: "'g \<Rightarrow> real \<times> 'g"
  action_space_sample :: "'g \<Rightarrow> nat \<times> 'g"
  memory_sample :: "'g \<Rightarrow> Transition list \<Rightarrow> int \<Rightarrow> Transition list \<times> 'g"
  env_reset :: "'e \<Rightarrow> (tensor \<times> (string \<rightharpoonup> real)) \<times> 'e"
  env_step :: "'e \<Rightarrow> nat \<Rightarrow> (tensor \<times> real \<times> bool \<times> bool \<times> (string \<rightharpoonup> real)) \<times> 'e"
  action_space_n :: nat
  AdamW :: "Network \<Rightarrow> real \<Rightarrow> 'o"
  optimizer_step :: "'o \<Rightarrow> (Network \<Rightarrow> error + real) \<Rightarrow> Network \<Rightarrow> 'o \<times> Network"
  float_exp :: "real \<Rightarrow> real"

record ('e, 'g, 'o) Agent =
  env :: 'e
  rng :: 'g
  need_next :: bool
  action_space :: nat
  policy_net :: Network
  target_net :: Network
  optimizer :: 'o
  memory :: ReplayMemory
  steps_done :: nat
  reward_in_episode :: "real list"
  rewards_file :: "real list option"
  model_file :: "(string \<times> tensor) list option"

subsection \<open>state\_dict and load\_state\_dict\<close>

text \<open>
  \<open>load_state_dict\<close> is strict: the keys must be those of the network, and every tensor
  must have the shape of the parameter it replaces. It copies the values into the
  network's own parameters.
\<close>

definition state_dict :: "Network \<Rightarrow> (string \<times> tensor) list" where
  "state_dict net = params net"

definition load_state_dict :: "Network \<Rightarrow> (string \<times> tensor) list \<Rightarrow> error + Network" where
  "load_state_dict net sd =
     (if set (map fst sd) = set (map fst (params net))
         \<and> list_all (\<lambda>(k, t). map_option dims (map_of sd k) = Some (dims t)) (params net)
      then Inr (net\<lparr>params :=
                  map (\<lambda>(k, t). (k, case map_of sd k of None \<Rightarrow> t | Some v \<Rightarrow> t\<lparr>vals := vals v\<rparr>))
                    (params net)\<rparr>)
      else Inl RuntimeError)"

subsection \<open>Agent.\_\_init\_\_\<close>

text \<open>
  \<open>init_p\<close> and \<open>init_t\<close> are the values the two constructor calls draw for the policy
  and the target network.
\<close>

definition Agent_init ::
  "('e, 'g, 'o) world \<Rightarrow> config \<Rightarrow> 'e \<Rightarrow> 'g \<Rightarrow> (string \<Rightarrow> nat \<Rightarrow> real) \<Rightarrow> (string \<Rightarrow> nat \<Rightarrow> real)
     \<Rightarrow> error + ('e, 'g, 'o) Agent" where
  "Agent_init w cfg e g init_p init_t =
     (let p = Network_init init_p (arg_use_fta cfg) (arg_use_aux cfg);
          t = Network_init init_t (arg_use_fta cfg) (arg_use_aux cfg)
      in ebind (load_state_dict t (state_dict p)) (\<lambda>t'.
         Inr \<lparr>env = e, rng = g,
              need_next =
                (arg_use_aux cfg = Some ''sf'' \<or> arg_use_aux cfg = Some ''sf+reward''
                 \<or> arg_use_aux cfg = Some ''virtual-reward-1''
                 \<or> arg_use_aux cfg = Some ''virtual-reward-5''),
              action_space = action_space_n w,
              policy_net = p, target_net = t',
              optimizer = AdamW w p (learning_rate cfg),
              memory = \<lparr>capacity = 1000000, items = []\<rparr>,
              steps_done = 0, reward_in_episode = [],
              rewards_file = None, model_file = None\<rparr>))"

subsection \<open>Agent.select\_action\<close>

text \<open>
  Lines 89 to 91 compute the threshold in float64. The sums, products and quotients of
  finite values are those of the reals: rounding is not modelled. What is modelled is
  where the finite range ends, because the code behaves differently there. A magnitude
  of \<open>2^1024 - 2^970\<close> or more does not round to a finite float64: the conversion of such
  an int in \<open>-1. * self.steps_done\<close> raises \<open>OverflowError\<close>, and such a quotient is an
  infinity. The division by zero raises \<open>ZeroDivisionError\<close>. \<open>math.exp\<close> raises
  \<open>OverflowError\<close> on a finite argument above 709.782712893384, returns 0 on an argument
  of -746 or less and on minus infinity, and returns infinity on infinity; between the
  two bounds its value is \<open>float_exp\<close> of the world. A product with an infinity is an
  infinity of the sign of the product, or not a number when the other factor is 0, and a
  comparison with not a number is false.
\<close>

datatype float64 = Finite real | PlusInfinity | MinusInfinity | NaN

definition float_overflow :: real where
  "float_overflow = 2 ^ 1024 - 2 ^ 970"

definition int_to_float :: "nat \<Rightarrow> error + real" where
  "int_to_float n = (if float_overflow \<le> real n then Inl OverflowError else Inr (real n))"

definition float_div :: "real \<Rightarrow> real \<Rightarrow> error + float64" where
  "float_div x y =
     (if y = 0 then Inl ZeroDivisionError
      else if float_overflow \<le> x / y then Inr PlusInfinity
      else if x / y \<le> - float_overflow then Inr MinusInfinity
      else Inr (Finite (x / y)))"

definition math_exp :: "('e, 'g, 'o) world \<Rightarrow> float64 \<Rightarrow> error + float64" where
  "math_exp w x =
     (case x of
        Finite v \<Rightarrow>
          if 709782712893384 / 1000000000000 < v then Inl OverflowError
          else if v \<le> - 746 then Inr (Finite 0)
          else Inr (Finite (float_exp w v))
      | PlusInfinity \<Rightarrow> Inr PlusInfinity
      | MinusInfinity \<Rightarrow> Inr (Finite 0)
      | NaN \<Rightarrow> Inr NaN)"

definition float_mult :: "real \<Rightarrow> float64 \<Rightarrow> float64" where
  "float_mult c x =
     (case x of
        Finite v \<Rightarrow> Finite (c * v)
      | PlusInfinity \<Rightarrow> if 0 < c then PlusInfinity else if c < 0 then MinusInfinity else NaN
      | MinusInfinity \<Rightarrow> if 0 < c then MinusInfinity else if c < 0 then PlusInfinity else NaN
      | NaN \<Rightarrow> NaN)"

definition float_add :: "real \<Rightarrow> float64 \<Rightarrow> float64" where
  "float_add c x = (case x of Finite v \<Rightarrow> Finite (c + v) | _ \<Rightarrow> x)"

text \<open>\<open>sample > eps_threshold\<close>\<close>

definition float_greater :: "real \<Rightarrow> float64 \<Rightarrow> bool" where
  "float_greater sample x =
     (case x of
        Finite v \<Rightarrow> sample > v
      | PlusInfinity \<Rightarrow> False
      | MinusInfinity \<Rightarrow> True
      | NaN \<Rightarrow> False)"

definition eps_threshold :: "('e, 'g, 'o) world \<Rightarrow> config \<Rightarrow> nat \<Rightarrow> error + float64" where
  "eps_threshold w cfg n =
     ebind (int_to_float n) (\<lambda>m.
     ebind (float_div (- 1 * m) (eps_decay cfg)) (\<lambda>q.
     ebind (math_exp w q) (\<lambda>e.
     Inr (float_add (eps_end cfg) (float_mult (eps_start cfg - eps_end cfg) e)))))"

text \<open>
  The index \<open>.max(1)[1]\<close> returns: the first position of the largest entry. A row with
  no entry has no maximum.
\<close>

definition row_max :: "real list \<Rightarrow> error + real" where
  "row_max xs = (case xs of [] \<Rightarrow> Inl RuntimeError | v # vs \<Rightarrow> Inr (fold max vs v))"

definition argmax :: "real list \<Rightarrow> error + nat" where
  "argmax xs =
     (case row_max xs of Inl e \<Rightarrow> Inl e
      | Inr m \<Rightarrow> Inr (length (takeWhile (\<lambda>v. v \<noteq> m) xs)))"

text \<open>
  An exception of the schedule is raised after the draw and before the counter is
  touched; an exception of the forward pass is raised after it was incremented. The
  agent is returned in both cases, as the caller finds it.
\<close>

definition select_action ::
  "torch \<Rightarrow> ('e, 'g, 'o) world \<Rightarrow> config \<Rightarrow> ('e, 'g, 'o) Agent \<Rightarrow> tensor
     \<Rightarrow> (error + nat) \<times> ('e, 'g, 'o) Agent" where
  "select_action lib w cfg a s =
     (let (sample, g1) = random_random w (rng a) in
      case eps_threshold w cfg (steps_done a) of
        Inl e \<Rightarrow> (Inl e, a\<lparr>rng := g1\<rparr>)
      | Inr eps \<Rightarrow>
          let a1 = a\<lparr>rng := g1, steps_done := steps_done a + 1\<rparr>
          in if float_greater sample eps then
               (case Network_forward lib (policy_net a1) s of
                  Inl e \<Rightarrow> (Inl e, a1)
                | Inr out \<Rightarrow> (argmax (out_x out), a1))
             else
               (let (act, g2) = action_space_sample w (rng a1) in (Inr act, a1\<lparr>rng := g2\<rparr>)))"

subsection \<open>Agent.optimize\<close>

text \<open>
  The tensor operations of the optimization step. \<open>torch.cat\<close> raises on an empty list
  and on an entry that is \<open>None\<close>; \<open>gather\<close> raises on an index outside the row; a loss
  between tensors of different sizes is an error of the model (torch would first try to
  broadcast them).
\<close>

definition cat :: "'a option list \<Rightarrow> error + 'a list" where
  "cat xs =
     (if xs = [] then Inl RuntimeError
      else emap (\<lambda>v. case v of None \<Rightarrow> Inl TypeError | Some y \<Rightarrow> Inr y) xs)"

definition gather :: "real list \<times> nat \<Rightarrow> error + real" where
  "gather ri = (case ri of (row, i) \<Rightarrow> if i < length row then Inr (row ! i) else Inl RuntimeError)"

definition MSELoss :: "real list \<Rightarrow> real list \<Rightarrow> error + real" where
  "MSELoss xs ys =
     (if length xs \<noteq> length ys then Inl RuntimeError
      else Inr ((\<Sum>(p, q)\<leftarrow>zip xs ys. (p - q)\<^sup>2) / real (length xs)))"

definition MSELoss_rows :: "real list list \<Rightarrow> real list list \<Rightarrow> error + real" where
  "MSELoss_rows xs ys =
     (if map length xs \<noteq> map length ys then Inl RuntimeError
      else MSELoss (concat xs) (concat ys))"

text \<open>\<open>zs[mask] = vs\<close>: the entries of \<open>vs\<close> go, in order, to the positions the mask selects.\<close>

fun masked_assign :: "real list \<Rightarrow> bool list \<Rightarrow> real list \<Rightarrow> real list" where
  "masked_assign (z # zs) (True # ms) (v # vs) = v # masked_assign zs ms vs"
| "masked_assign (z # zs) (False # ms) vs = z # masked_assign zs ms vs"
| "masked_assign zs ms vs = zs"

text \<open>
  Lines 159 to 161: the next actions and the next states of the batch, which exist only
  when \<open>need_next\<close> holds.
\<close>

definition next_batches :: "bool \<Rightarrow> Transition list \<Rightarrow> error + (nat list \<times> tensor list) option" where
  "next_batches need transitions =
     (if need then
        ebind (cat (map next_action transitions)) (\<lambda>next_action_batch.
        ebind (cat (map next_state transitions)) (\<lambda>next_state_batch.
        Inr (Some (next_action_batch, next_state_batch))))
      else Inr None)"

text \<open>
  Lines 165 and 166: the forward pass of the policy network on the states of the batch,
  and its action values at the actions taken.
\<close>

definition state_action_batch ::
  "torch \<Rightarrow> Network \<Rightarrow> Transition list \<Rightarrow> error + (net_return list \<times> real list)" where
  "state_action_batch lib policy transitions =
     ebind (emap (Network_forward lib policy) (map state transitions)) (\<lambda>net_return.
     ebind (emap gather (zip (map out_x net_return) (map action transitions))) (\<lambda>state_action_values.
     Inr (net_return, state_action_values)))"

text \<open>
  Lines 168 to 173: the bootstrapped values. \<open>next_state_values\<close> starts as
  \<open>batch_size\<close> zeros; the rows the mask selects receive the largest action value of the
  target network at the non-final next states.
\<close>

definition expected_state_action_batch ::
  "torch \<Rightarrow> config \<Rightarrow> Network \<Rightarrow> tensor list \<Rightarrow> Transition list \<Rightarrow> error + real list" where
  "expected_state_action_batch lib cfg target non_final_next_states transitions =
     (if batch_size cfg < 0 then Inl RuntimeError
      else
        ebind (emap (\<lambda>s. ebind (Network_forward lib target s) (\<lambda>out. row_max (out_x out)))
                 non_final_next_states) (\<lambda>maxes.
        if int (length transitions) \<noteq> batch_size cfg then Inl IndexError
        else
          let next_state_values =
                masked_assign (replicate (nat (batch_size cfg)) 0)
                  (map (\<lambda>tr. next_state tr \<noteq> None) transitions) maxes
          in Inr (map (\<lambda>(v, r). v * gamma cfg + r)
                    (zip next_state_values (map reward transitions)))))"

text \<open>
  Lines 144 to 178, in the order of the source: the batch (an empty one cannot be
  unpacked), the non-final next states, the forward pass of the policy network, the
  bootstrapped values and the loss of the action values. The result keeps what the
  auxiliary losses read afterwards.
\<close>

definition td_loss ::
  "torch \<Rightarrow> config \<Rightarrow> bool \<Rightarrow> Network \<Rightarrow> Network \<Rightarrow> Transition list
     \<Rightarrow> error + (net_return list \<times> (nat list \<times> tensor list) option \<times> real)" where
  "td_loss lib cfg need policy target transitions =
     (if transitions = [] then Inl TypeError
      else
        ebind (cat (filter (\<lambda>s. s \<noteq> None) (map next_state transitions))) (\<lambda>non_final_next_states.
        ebind (next_batches need transitions) (\<lambda>nexts.
        ebind (state_action_batch lib policy transitions) (\<lambda>(net_return, state_action_values).
        ebind (expected_state_action_batch lib cfg target non_final_next_states transitions)
          (\<lambda>expected_state_action_values.
        ebind (MSELoss state_action_values expected_state_action_values) (\<lambda>l.
        Inr (net_return, nexts, l)))))))"

definition aux_rows :: "net_return list \<Rightarrow> error + real list list" where
  "aux_rows net_return =
     emap (\<lambda>out. case out_aux out of None \<Rightarrow> Inl TypeError | Some v \<Rightarrow> Inr v) net_return"

text \<open>\<open>self.target_net(next_state_batch)[1].gather(1, next_action_batch)\<close>\<close>

definition target_aux_gather :: "torch \<Rightarrow> Network \<Rightarrow> tensor list \<Rightarrow> nat list \<Rightarrow> error + real list" where
  "target_aux_gather lib target next_state_batch next_action_batch =
     ebind (emap (Network_forward lib target) next_state_batch) (\<lambda>outs.
     ebind (aux_rows outs) (\<lambda>rows.
     emap gather (zip rows next_action_batch)))"

definition ir_loss :: "config \<Rightarrow> net_return list \<Rightarrow> Transition list \<Rightarrow> real \<Rightarrow> error + real" where
  "ir_loss cfg net_return transitions l =
     ebind (aux_rows net_return) (\<lambda>aux_return.
     ebind (MSELoss_rows aux_return (map (\<lambda>tr. vals (state tr)) transitions)) (\<lambda>m.
     Inr (l + aux_loss_weight cfg * m)))"

definition reward_loss :: "config \<Rightarrow> net_return list \<Rightarrow> Transition list \<Rightarrow> real \<Rightarrow> error + real" where
  "reward_loss cfg net_return transitions l =
     ebind (aux_rows net_return) (\<lambda>aux_return.
     ebind (MSELoss_rows aux_return (map (\<lambda>tr. [reward tr]) transitions)) (\<lambda>m.
     Inr (l + m)))"

definition sf_loss ::
  "torch \<Rightarrow> config \<Rightarrow> Network \<Rightarrow> net_return list \<Rightarrow> (nat list \<times> tensor list) option \<Rightarrow> real
     \<Rightarrow> error + real" where
  "sf_loss lib cfg target net_return nexts l =
     ebind (aux_rows net_return) (\<lambda>aux_return.
     ebind (emap (\<lambda>out. case out_next_rep out of None \<Rightarrow> Inl TypeError | Some v \<Rightarrow> Inr v)
              net_return) (\<lambda>next_state_rec.
     case nexts of
       None \<Rightarrow> Inl NameError
     | Some (next_action_batch, next_state_batch) \<Rightarrow>
         ebind (target_aux_gather lib target next_state_batch next_action_batch) (\<lambda>next_state_aux_return.
         ebind (MSELoss_rows aux_return
                  (map (\<lambda>(r, g). map (\<lambda>v. v + gamma cfg * g) r)
                     (zip (map out_rep net_return) next_state_aux_return))) (\<lambda>m1.
         ebind (MSELoss_rows next_state_rec (map vals next_state_batch)) (\<lambda>m2.
         Inr (l + aux_loss_weight cfg * m1 + m2))))))"

definition vvf_loss ::
  "torch \<Rightarrow> config \<Rightarrow> Network \<Rightarrow> net_return list \<Rightarrow> (nat list \<times> tensor list) option
     \<Rightarrow> Transition list \<Rightarrow> real \<Rightarrow> error + real" where
  "vvf_loss lib cfg target net_return nexts transitions l =
     ebind (cat (map virtual_reward transitions)) (\<lambda>virtual_reward_batch.
     ebind (aux_rows net_return) (\<lambda>aux_return.
     ebind (emap gather (zip aux_return (map action transitions))) (\<lambda>action_values.
     case nexts of
       None \<Rightarrow> Inl NameError
     | Some (next_action_batch, next_state_batch) \<Rightarrow>
         ebind (target_aux_gather lib target next_state_batch next_action_batch)
           (\<lambda>next_state_virtual_action_values.
         let bootstraped_value =
               map (\<lambda>(vr, v). vr + gamma cfg * v)
                 (zip virtual_reward_batch next_state_virtual_action_values)
         in ebind (MSELoss action_values bootstraped_value) (\<lambda>m. Inr (l + m))))))"

text \<open>The loss that is backpropagated, as a function of the policy network.\<close>

definition loss ::
  "torch \<Rightarrow> config \<Rightarrow> bool \<Rightarrow> Network \<Rightarrow> Transition list \<Rightarrow> Network \<Rightarrow> error + real" where
  "loss lib cfg need target transitions policy =
     ebind (td_loss lib cfg need policy target transitions) (\<lambda>(net_return, nexts, l).
     if \<not> transfer cfg then
       if arg_use_aux cfg \<noteq> None then
         ebind (if arg_use_aux cfg = Some ''ir'' then ir_loss cfg net_return transitions l
                else Inr l) (\<lambda>l1.
         ebind (if arg_use_aux cfg = Some ''reward'' then reward_loss cfg net_return transitions l1
                else Inr l1) (\<lambda>l2.
         ebind (if arg_use_aux cfg = Some ''sf'' then sf_loss lib cfg target net_return nexts l2
                else Inr l2) (\<lambda>l3.
         if arg_use_aux cfg = Some ''virtual-reward-1'' \<or> arg_use_aux cfg = Some ''virtual-reward-5''
         then vvf_loss lib cfg target net_return nexts transitions l3
         else Inr l3)))
       else Inr l
     else Inr l)"

definition optimize ::
  "torch \<Rightarrow> ('e, 'g, 'o) world \<Rightarrow> config \<Rightarrow> ('e, 'g, 'o) Agent \<Rightarrow> error + ('e, 'g, 'o) Agent" where
  "optimize lib w cfg a =
     (if int (length (items (memory a))) < batch_size cfg then Inr a
      else
        let (transitions, g) = memory_sample w (rng a) (items (memory a)) (batch_size cfg);
            a1 = a\<lparr>rng := g\<rparr>
        in case loss lib cfg (need_next a1) (target_net a1) transitions (policy_net a1) of
             Inl e \<Rightarrow> Inl e
           | Inr l \<Rightarrow>
               (let (opt, p) =
                      optimizer_step w (optimizer a1)
                        (loss lib cfg (need_next a1) (target_net a1) transitions) (policy_net a1)
                in Inr (a1\<lparr>optimizer := opt, policy_net := p\<rparr>)))"

subsection \<open>Target synchronization\<close>

text \<open>
  The soft update of lines 310 to 314: for every key of the policy network's dictionary
  the entry of the target network's dictionary is replaced, and the dictionary is then
  loaded into the target network. Adding tensors of different shapes is an error of the
  model (torch would first try to broadcast them).
\<close>

definition tensor_scale :: "tensor \<Rightarrow> real \<Rightarrow> tensor" where
  "tensor_scale t c = t\<lparr>vals := map (\<lambda>v. v * c) (vals t)\<rparr>"

definition tensor_add :: "tensor \<Rightarrow> tensor \<Rightarrow> error + tensor" where
  "tensor_add s t =
     (if dims s = dims t \<and> length (vals s) = length (vals t)
      then Inr \<lparr>dims = dims s, vals = map (\<lambda>(p, q). p + q) (zip (vals s) (vals t))\<rparr>
      else Inl RuntimeError)"

fun soft_update_loop ::
  "real \<Rightarrow> (string \<times> tensor) list \<Rightarrow> (string \<times> tensor) list \<Rightarrow> error + (string \<times> tensor) list" where
  "soft_update_loop tau_v [] target_net_state_dict = Inr target_net_state_dict"
| "soft_update_loop tau_v ((key, p) # policy_net_state_dict) target_net_state_dict =
     (case map_of target_net_state_dict key of
        None \<Rightarrow> Inl KeyError
      | Some t \<Rightarrow>
          (case tensor_add (tensor_scale p tau_v) (tensor_scale t (1 - tau_v)) of
             Inl e \<Rightarrow> Inl e
           | Inr v \<Rightarrow>
               soft_update_loop tau_v policy_net_state_dict
                 (AList.update key v target_net_state_dict)))"

definition soft_update :: "real \<Rightarrow> Network \<Rightarrow> Network \<Rightarrow> error + Network" where
  "soft_update tau_v policy target =
     ebind (soft_update_loop tau_v (state_dict policy) (state_dict target)) (\<lambda>sd.
     load_state_dict target sd)"

text \<open>The hard update of line 344.\<close>

definition hard_update :: "Network \<Rightarrow> Network \<Rightarrow> error + Network" where
  "hard_update policy target = load_state_dict target (state_dict policy)"

subsection \<open>Agent.\_save\<close>

definition Agent_save :: "config \<Rightarrow> ('e, 'g, 'o) Agent \<Rightarrow> ('e, 'g, 'o) Agent" where
  "Agent_save cfg a =
     a\<lparr>rewards_file := (if save_rewards cfg then Some (reward_in_episode a) else rewards_file a),
       model_file := (if save_model cfg then Some (state_dict (target_net a)) else model_file a)\<rparr>"

subsection \<open>Agent.train\<close>

text \<open>
  The local variables of \<open>train\<close>. \<open>previous\<close> holds \<open>previous_state\<close>,
  \<open>previous_action\<close> and \<open>reward\<close>, which are bound together at the end of the first
  step; reading them before is a \<open>NameError\<close>. \<open>reward_sum\<close> is the local
  \<open>reward_in_episode\<close>. The plots have no effect on the agent and are left out.
\<close>

record locals =
  cur_state :: tensor
  info :: "string \<rightharpoonup> real"
  previous :: "(tensor \<times> nat \<times> real) option"
  reward_sum :: real
  consecutive :: int

text \<open>\<open>observation.transpose((2, 0, 1))\<close>: from height, width, channel to channel, height, width.\<close>

definition transpose201 :: "tensor \<Rightarrow> error + tensor" where
  "transpose201 t =
     (case dims t of
        [h, wd, c] \<Rightarrow>
          if length (vals t) = h * wd * c
          then Inr \<lparr>dims = [c, h, wd],
                    vals = map (\<lambda>i. vals t ! (((i mod (h * wd)) div wd) * wd * c + (i mod wd) * c + i div (h * wd)))
                             [0..<c * h * wd]\<rparr>
          else Inl ValueError
      | _ \<Rightarrow> Inl ValueError)"

text \<open>
  Lines 278 to 286, and again lines 319 to 325: the delayed transition is pushed with the
  next action, and with the virtual reward for the two virtual-reward tasks; one
  optimization step follows.
\<close>

definition store_delayed ::
  "torch \<Rightarrow> ('e, 'g, 'o) world \<Rightarrow> config \<Rightarrow> ('e, 'g, 'o) Agent \<Rightarrow> tensor \<Rightarrow> nat \<Rightarrow> tensor \<Rightarrow> real
     \<Rightarrow> nat \<Rightarrow> (string \<rightharpoonup> real) \<Rightarrow> error + ('e, 'g, 'o) Agent" where
  "store_delayed lib w cfg a previous_state previous_action s rew act info_d =
     (if arg_use_aux cfg = Some ''virtual-reward-1'' \<or> arg_use_aux cfg = Some ''virtual-reward-5''
      then
        (case info_d ''virtual-reward'' of
           None \<Rightarrow> Inl KeyError
         | Some vr \<Rightarrow>
             optimize lib w cfg
               (a\<lparr>memory := push (memory a)
                    \<lparr>state = previous_state, action = previous_action, next_state = Some s,
                     reward = rew, next_action = Some act, virtual_reward = Some vr\<rparr>\<rparr>))
      else
        optimize lib w cfg
          (a\<lparr>memory := push (memory a)
               \<lparr>state = previous_state, action = previous_action, next_state = Some s,
                reward = rew, next_action = Some act, virtual_reward = None\<rparr>\<rparr>))"

text \<open>
  One iteration of \<open>for t in count()\<close>, lines 273 to 335, in the four parts it is
  written in. Lines 274 to 286: the action is selected, and if \<open>need_next\<close> holds and
  this is not the first step, the transition of the previous step is stored.
\<close>

definition act_phase ::
  "torch \<Rightarrow> ('e, 'g, 'o) world \<Rightarrow> config \<Rightarrow> nat \<Rightarrow> locals \<Rightarrow> ('e, 'g, 'o) Agent
     \<Rightarrow> error + (nat \<times> ('e, 'g, 'o) Agent)" where
  "act_phase lib w cfg t v a =
     (case select_action lib w cfg a (cur_state v) of
        (Inl e, a1) \<Rightarrow> Inl e
      | (Inr act, a1) \<Rightarrow>
          if need_next a1 then
            if t > 0 then
              (case previous v of
                 None \<Rightarrow> Inl NameError
               | Some (previous_state, previous_action, rew) \<Rightarrow>
                   ebind (store_delayed lib w cfg a1 previous_state previous_action (cur_state v)
                            rew act (info v)) (\<lambda>a2.
                   Inr (act, a2)))
            else Inr (act, a1)
          else Inr (act, a1))"

text \<open>
  Lines 289 to 300: the environment step, and if \<open>need_next\<close> does not hold, the
  transition of this step is stored. The result is the next state, the reward, \<open>done\<close>,
  \<open>info\<close> and the agent.
\<close>

definition env_phase ::
  "torch \<Rightarrow> ('e, 'g, 'o) world \<Rightarrow> config \<Rightarrow> locals \<Rightarrow> nat \<Rightarrow> ('e, 'g, 'o) Agent
     \<Rightarrow> error + (tensor \<times> real \<times> bool \<times> (string \<rightharpoonup> real) \<times> ('e, 'g, 'o) Agent)" where
  "env_phase lib w cfg v act a =
     (case env_step w (env a) act of
        ((observation, rew, terminated, truncated, info'), e') \<Rightarrow>
          ebind (transpose201 observation) (\<lambda>nxt.
          if \<not> need_next a then
            ebind (optimize lib w cfg
                     (a\<lparr>env := e',
                        memory := push (memory a)
                          \<lparr>state = cur_state v, action = act, next_state = Some nxt,
                           reward = rew, next_action = None, virtual_reward = None\<rparr>\<rparr>)) (\<lambda>a1.
            Inr (nxt, rew, terminated \<or> truncated, info', a1))
          else Inr (nxt, rew, terminated \<or> truncated, info', a\<lparr>env := e'\<rparr>)))"

text \<open>Lines 309 to 314: the soft update of the target network.\<close>

definition sync_phase :: "config \<Rightarrow> ('e, 'g, 'o) Agent \<Rightarrow> error + ('e, 'g, 'o) Agent" where
  "sync_phase cfg a =
     (if soft_target_update cfg then
        ebind (soft_update (tau cfg) (policy_net a) (target_net a)) (\<lambda>tn.
        Inr (a\<lparr>target_net := tn\<rparr>))
      else Inr a)"

text \<open>
  Lines 303 to 306 and 317 to 335: the local variables are updated, and when the episode
  is over the pending transition is stored if \<open>need_next\<close> holds. The Boolean of the
  result says whether the iteration ended with \<open>break\<close>.
\<close>

definition end_phase ::
  "torch \<Rightarrow> ('e, 'g, 'o) world \<Rightarrow> config \<Rightarrow> nat \<Rightarrow> locals \<Rightarrow> nat \<Rightarrow> tensor \<Rightarrow> real \<Rightarrow> bool
     \<Rightarrow> (string \<rightharpoonup> real) \<Rightarrow> ('e, 'g, 'o) Agent \<Rightarrow> error + (bool \<times> locals \<times> ('e, 'g, 'o) Agent)" where
  "end_phase lib w cfg t v act nxt rew dn info' a =
     (let v' = \<lparr>cur_state = nxt, info = info', previous = Some (cur_state v, act, rew),
               reward_sum = reward_sum v + rew, consecutive = consecutive v\<rparr>
      in if dn \<or> int t > horizon cfg then
           ebind (if need_next a then
                    store_delayed lib w cfg a (cur_state v) act nxt rew act info'
                  else Inr a) (\<lambda>a1.
           Inr (True,
                v'\<lparr>consecutive := (if reward_sum v' = 1 then consecutive v + 1 else 0)\<rparr>,
                a1\<lparr>reward_in_episode := reward_in_episode a1 @ [reward_sum v']\<rparr>))
         else Inr (False, v', a))"

definition train_step ::
  "torch \<Rightarrow> ('e, 'g, 'o) world \<Rightarrow> config \<Rightarrow> nat \<Rightarrow> locals \<Rightarrow> ('e, 'g, 'o) Agent
     \<Rightarrow> error + (bool \<times> locals \<times> ('e, 'g, 'o) Agent)" where
  "train_step lib w cfg t v a =
     ebind (act_phase lib w cfg t v a) (\<lambda>(act, a1).
     ebind (env_phase lib w cfg v act a1) (\<lambda>(nxt, rew, dn, info', a2).
     ebind (sync_phase cfg a2) (\<lambda>a3.
     end_phase lib w cfg t v act nxt rew dn info' a3)))"

lemma train_step_continues:
  "train_step lib w cfg t v a = Inr (False, v', a') \<Longrightarrow> int t \<le> horizon cfg"
  by (auto simp: train_step_def end_phase_def ebind_def Let_def
      split: prod.splits sum.splits if_splits)

function episode_loop ::
  "torch \<Rightarrow> ('e, 'g, 'o) world \<Rightarrow> config \<Rightarrow> nat \<Rightarrow> locals \<Rightarrow> ('e, 'g, 'o) Agent
     \<Rightarrow> error + (locals \<times> ('e, 'g, 'o) Agent)" where
  "episode_loop lib w cfg t v a =
     (case train_step lib w cfg t v a of
        Inl e \<Rightarrow> Inl e
      | Inr (fin, v', a') \<Rightarrow>
          if fin then Inr (v', a') else episode_loop lib w cfg (Suc t) v' a')"
  by pat_completeness auto
termination
proof (relation "measure (\<lambda>(lib, w, cfg, t, v, a). nat (horizon cfg + 1 - int t))")
  show "wf (measure (\<lambda>(lib, w, cfg, t, v, a). nat (horizon cfg + 1 - int t)))"
    by simp
next
  fix lib :: torch and w :: "('e, 'g, 'o) world" and cfg t v and a :: "('e, 'g, 'o) Agent"
    and x2 fin y v' a'
  assume "train_step lib w cfg t v a = Inr x2" "(fin, y) = x2" "(v', a') = y" "\<not> fin"
  then have "train_step lib w cfg t v a = Inr (False, v', a')"
    by auto
  then have "int t \<le> horizon cfg"
    by (rule train_step_continues)
  then show "((lib, w, cfg, Suc t, v', a'), (lib, w, cfg, t, v, a))
      \<in> measure (\<lambda>(lib, w, cfg, t, v, a). nat (horizon cfg + 1 - int t))"
    by simp
qed

text \<open>Lines 266 to 269, then the loop over the steps.\<close>

definition episode ::
  "torch \<Rightarrow> ('e, 'g, 'o) world \<Rightarrow> config \<Rightarrow> int \<Rightarrow> ('e, 'g, 'o) Agent
     \<Rightarrow> error + (locals \<times> ('e, 'g, 'o) Agent)" where
  "episode lib w cfg c a =
     (case env_reset w (env a) of
        ((s0, info0), e') \<Rightarrow>
          ebind (transpose201 s0) (\<lambda>s.
          episode_loop lib w cfg 0
            \<lparr>cur_state = s, info = info0, previous = None, reward_sum = 0, consecutive = c\<rparr>
            (a\<lparr>env := e'\<rparr>)))"

text \<open>
  Lines 337 to 348, after the episode with index \<open>i\<close>: the Boolean of the result says
  whether the loop over the episodes ended with \<open>break\<close>.
\<close>

definition episode_end ::
  "config \<Rightarrow> nat \<Rightarrow> int \<Rightarrow> ('e, 'g, 'o) Agent \<Rightarrow> error + (bool \<times> ('e, 'g, 'o) Agent)" where
  "episode_end cfg i c a =
     (if c = consecutive_episodes cfg then Inr (True, Agent_save cfg a)
      else
        ebind (if \<not> soft_target_update cfg then
                 (if target_update cfg = 0 then Inl ZeroDivisionError
                  else if int i mod target_update cfg = 0 then
                    ebind (hard_update (policy_net a) (target_net a)) (\<lambda>tn.
                    Inr (a\<lparr>target_net := tn\<rparr>))
                  else Inr a)
               else Inr a) (\<lambda>a1.
        if save_ratio cfg = 0 then Inl ZeroDivisionError
        else Inr (False, if int i mod save_ratio cfg = 0 then Agent_save cfg a1 else a1)))"

function train_loop ::
  "torch \<Rightarrow> ('e, 'g, 'o) world \<Rightarrow> config \<Rightarrow> nat \<Rightarrow> nat \<Rightarrow> int \<Rightarrow> ('e, 'g, 'o) Agent
     \<Rightarrow> error + ('e, 'g, 'o) Agent" where
  "train_loop lib w cfg n i c a =
     (if i < n then
        (case episode lib w cfg c a of
           Inl e \<Rightarrow> Inl e
         | Inr (v, a1) \<Rightarrow>
             (case episode_end cfg i (consecutive v) a1 of
                Inl e \<Rightarrow> Inl e
              | Inr (stop, a2) \<Rightarrow>
                  if stop then Inr a2 else train_loop lib w cfg n (Suc i) (consecutive v) a2))
      else Inr a)"
  by pat_completeness auto
termination
  by (relation "measure (\<lambda>(lib, w, cfg, n, i, c, a). n - i)") auto

definition train ::
  "torch \<Rightarrow> ('e, 'g, 'o) world \<Rightarrow> config \<Rightarrow> ('e, 'g, 'o) Agent \<Rightarrow> error + ('e, 'g, 'o) Agent" where
  "train lib w cfg a = train_loop lib w cfg (nat (max_episodes cfg)) 0 0 a"

section \<open>The quantities of the specification\<close>

text \<open>
  The exploration schedule as the specification words it: a function of the step count
  over the reals, with the exact exponential.
\<close>

definition eps_schedule :: "config \<Rightarrow> nat \<Rightarrow> real" where
  "eps_schedule cfg n =
     eps_end cfg + (eps_start cfg - eps_end cfg) * exp (- 1 * real n / eps_decay cfg)"

text \<open>
  The regression target as the specification words it, for one transition: the reward
  plus \<open>gamma\<close> times the bootstrap value, which is 0 for a transition without next state
  and otherwise the largest action value of the target network at the next state.
  \<open>q_taken\<close> is the action value of the policy network at the action taken.
  \<open>evaluates\<close> says that the forward passes these quantities read return and that the
  indices are in range; where it fails the quantities are 0 by convention.
\<close>

definition bootstrap_value :: "torch \<Rightarrow> Network \<Rightarrow> Transition \<Rightarrow> real" where
  "bootstrap_value lib target tr =
     (case next_state tr of
        None \<Rightarrow> 0
      | Some s \<Rightarrow> (case Network_forward lib target s of Inl e \<Rightarrow> 0 | Inr out \<Rightarrow> Max (set (out_x out))))"

definition td_target :: "torch \<Rightarrow> config \<Rightarrow> Network \<Rightarrow> Transition \<Rightarrow> real" where
  "td_target lib cfg target tr = reward tr + gamma cfg * bootstrap_value lib target tr"

definition q_taken :: "torch \<Rightarrow> Network \<Rightarrow> Transition \<Rightarrow> real" where
  "q_taken lib policy tr =
     (case Network_forward lib policy (state tr) of Inl e \<Rightarrow> 0 | Inr out \<Rightarrow> out_x out ! action tr)"

definition evaluates :: "torch \<Rightarrow> Network \<Rightarrow> Network \<Rightarrow> Transition \<Rightarrow> bool" where
  "evaluates lib policy target tr \<longleftrightarrow>
     (case Network_forward lib policy (state tr) of
        Inl e \<Rightarrow> False | Inr out \<Rightarrow> action tr < length (out_x out))
     \<and> (case next_state tr of
          None \<Rightarrow> True
        | Some s \<Rightarrow> (case Network_forward lib target s of Inl e \<Rightarrow> False | Inr out \<Rightarrow> out_x out \<noteq> []))"

text \<open>
  The soft update as the specification words it, for one parameter: \<open>tau\<close> times the
  policy parameter plus \<open>1 - tau\<close> times the target parameter, entry by entry.
\<close>

definition soft_mix :: "real \<Rightarrow> tensor \<Rightarrow> tensor \<Rightarrow> tensor" where
  "soft_mix tau_v p t =
     \<lparr>dims = dims t, vals = map (\<lambda>(x, y). tau_v * x + (1 - tau_v) * y) (zip (vals p) (vals t))\<rparr>"

text \<open>
  Two networks of the same architecture: the same keys in the same order, none twice,
  and parameters of the same shape under every key. The two networks of an agent are
  built by the same constructor call and start so.
\<close>

definition same_shape :: "Network \<Rightarrow> Network \<Rightarrow> bool" where
  "same_shape p t \<longleftrightarrow>
     distinct (map fst (params p))
     \<and> map fst (params p) = map fst (params t)
     \<and> map (\<lambda>kt. dims (snd kt)) (params p) = map (\<lambda>kt. dims (snd kt)) (params t)
     \<and> map (\<lambda>kt. length (vals (snd kt))) (params p) = map (\<lambda>kt. length (vals (snd kt))) (params t)"

text \<open>The entries of a list that are not \<open>None\<close>.\<close>

definition somes :: "'a option list \<Rightarrow> 'a list" where
  "somes xs = concat (map (\<lambda>v. case v of None \<Rightarrow> [] | Some y \<Rightarrow> [y]) xs)"

text \<open>
  The six settings of the auxiliary task that the specification lists, as
  \<open>args.use_aux\<close> spells them.
\<close>

definition aux_variants :: "string option list" where
  "aux_variants =
     [None, Some ''ir'', Some ''reward'', Some ''sf'', Some ''virtual-reward-1'',
      Some ''virtual-reward-5'']"

text \<open>
  The virtual reward a delayed transition is stored with: the entry \<open>virtual-reward\<close>
  of the environment's \<open>info\<close> for the two virtual-reward tasks, \<open>None\<close> for the others.
\<close>

definition virtual_reward_of :: "config \<Rightarrow> (string \<rightharpoonup> real) \<Rightarrow> real option" where
  "virtual_reward_of cfg info_d =
     (if arg_use_aux cfg = Some ''virtual-reward-1'' \<or> arg_use_aux cfg = Some ''virtual-reward-5''
      then info_d ''virtual-reward'' else None)"

text \<open>
  The auxiliary regression of the virtual value function as the specification words it,
  for one transition: \<open>aux_taken\<close> is the auxiliary action value of the policy network at
  the action taken, \<open>aux_bootstrap_value\<close> the auxiliary action value of the target
  network at the next state, read at the stored next action, and \<open>virtual_target\<close> the
  virtual reward plus \<open>gamma\<close> times it. \<open>aux_evaluates\<close> says that the transition holds
  the three optional fields, that the forward passes return an auxiliary head and that
  the two indices are in range; where it fails the quantities are 0 by convention.
\<close>

definition aux_taken :: "torch \<Rightarrow> Network \<Rightarrow> Transition \<Rightarrow> real" where
  "aux_taken lib policy tr =
     (case Network_forward lib policy (state tr) of
        Inl e \<Rightarrow> 0
      | Inr out \<Rightarrow> (case out_aux out of None \<Rightarrow> 0 | Some row \<Rightarrow> row ! action tr))"

definition aux_bootstrap_value :: "torch \<Rightarrow> Network \<Rightarrow> Transition \<Rightarrow> real" where
  "aux_bootstrap_value lib target tr =
     (case next_state tr of
        None \<Rightarrow> 0
      | Some s \<Rightarrow>
          (case next_action tr of
             None \<Rightarrow> 0
           | Some na \<Rightarrow>
               (case Network_forward lib target s of
                  Inl e \<Rightarrow> 0
                | Inr out \<Rightarrow> (case out_aux out of None \<Rightarrow> 0 | Some row \<Rightarrow> row ! na))))"

definition virtual_target :: "torch \<Rightarrow> config \<Rightarrow> Network \<Rightarrow> Transition \<Rightarrow> real" where
  "virtual_target lib cfg target tr =
     (case virtual_reward tr of None \<Rightarrow> 0 | Some vr \<Rightarrow> vr)
       + gamma cfg * aux_bootstrap_value lib target tr"

definition aux_evaluates :: "torch \<Rightarrow> Network \<Rightarrow> Network \<Rightarrow> Transition \<Rightarrow> bool" where
  "aux_evaluates lib policy target tr \<longleftrightarrow>
     (case Network_forward lib policy (state tr) of
        Inl e \<Rightarrow> False
      | Inr out \<Rightarrow> (case out_aux out of None \<Rightarrow> False | Some row \<Rightarrow> action tr < length row))
     \<and> virtual_reward tr \<noteq> None
     \<and> (case next_state tr of
          None \<Rightarrow> False
        | Some s \<Rightarrow>
            (case next_action tr of
               None \<Rightarrow> False
             | Some na \<Rightarrow>
                 (case Network_forward lib target s of
                    Inl e \<Rightarrow> False
                  | Inr out \<Rightarrow> (case out_aux out of None \<Rightarrow> False | Some row \<Rightarrow> na < length row))))"

section \<open>A concrete run\<close>

text \<open>
  The inputs the closed theorems below are evaluated on: an environment with one action
  that returns reward 0 and terminates after two steps (its state is the number of steps
  since the reset), generators that always draw 0, a sampler that returns the oldest
  transitions, an optimizer whose step changes nothing, a \<open>math.exp\<close> that returns the
  exact exponential where it neither overflows nor underflows, and a configuration with the
  usual exploration schedule and a batch size of 2. The initial parameters \<open>ex_init\<close>
  are 0 but for the bias of the last layer of the two action-value heads, which is 0, 1,
  2, 3: the heads of the networks built from them return these four values at every
  state.
\<close>

definition ex_obs :: tensor where
  "ex_obs = \<lparr>dims = [1, 1, 3], vals = [0, 0, 0]\<rparr>"

definition ex_state :: tensor where
  "ex_state = \<lparr>dims = [3, 1, 1], vals = [0, 0, 0]\<rparr>"

definition ex_lib :: torch where
  "ex_lib =
     \<lparr>conv2d = (\<lambda>t W b stride padding. Inr \<lparr>dims = [16, 8, 8], vals = replicate 1024 0\<rparr>),
      conv_transpose2d = (\<lambda>t W b stride padding. Inr ex_state),
      FTA = (\<lambda>h. concat (map (replicate 20) h))\<rparr>"

definition ex_world :: "(nat, nat, unit) world" where
  "ex_world =
     \<lparr>random_random = (\<lambda>g. (0, Suc g)),
      action_space_sample = (\<lambda>g. (0, Suc g)),
      memory_sample = (\<lambda>g xs n. (take (nat n) xs, Suc g)),
      env_reset = (\<lambda>e. ((ex_obs, [''virtual-reward'' \<mapsto> 1]), 0)),
      env_step = (\<lambda>e act. ((ex_obs, 0, 2 \<le> Suc e, False, [''virtual-reward'' \<mapsto> 1]), Suc e)),
      action_space_n = 1,
      AdamW = (\<lambda>p lr. ()),
      optimizer_step = (\<lambda>opt f p. (opt, p)),
      float_exp = exp\<rparr>"

definition ex_cfg :: config where
  "ex_cfg =
     \<lparr>learning_rate = 1 / 10000, batch_size = 2, gamma = 99 / 100,
      eps_start = 9 / 10, eps_end = 1 / 20, eps_decay = 1000,
      horizon = 10, max_episodes = 5, consecutive_episodes = 3, target_update = 1,
      soft_target_update = False, tau = 1 / 10,
      arg_use_fta = False, arg_use_aux = None, aux_loss_weight = 1,
      transfer = False, save_ratio = 1, save_model = True, save_rewards = True,
      plot_during_training = False\<rparr>"

definition ex_init :: "string \<Rightarrow> nat \<Rightarrow> real" where
  "ex_init k i =
     (if k = ''q_network_fc3.bias'' \<or> k = ''aux_network.q_network_fc3.bias'' then real i else 0)"

definition ex_init' :: "string \<Rightarrow> nat \<Rightarrow> real" where
  "ex_init' k i = 1"

text \<open>The agent \<open>Agent(env, args)\<close> builds from them (lemma \<open>ex_agent_init\<close> below).\<close>

definition ex_agent :: "config \<Rightarrow> (nat, nat, unit) Agent" where
  "ex_agent cfg =
     \<lparr>env = 0, rng = 0,
      need_next =
        (arg_use_aux cfg = Some ''sf'' \<or> arg_use_aux cfg = Some ''sf+reward''
         \<or> arg_use_aux cfg = Some ''virtual-reward-1''
         \<or> arg_use_aux cfg = Some ''virtual-reward-5''),
      action_space = 1,
      policy_net = Network_init ex_init (arg_use_fta cfg) (arg_use_aux cfg),
      target_net = Network_init ex_init (arg_use_fta cfg) (arg_use_aux cfg),
      optimizer = (),
      memory = \<lparr>capacity = 1000000, items = []\<rparr>,
      steps_done = 0, reward_in_episode = [],
      rewards_file = None, model_file = None\<rparr>"

text \<open>The agent with a replay memory that holds the given transitions.\<close>

definition ex_replay :: "config \<Rightarrow> Transition list \<Rightarrow> (nat, nat, unit) Agent" where
  "ex_replay cfg trs = (ex_agent cfg)\<lparr>memory := \<lparr>capacity = 1000000, items = trs\<rparr>\<rparr>"

text \<open>The same configuration with \<open>eps_decay = 0\<close>.\<close>

definition ex_cfg_zero :: config where
  "ex_cfg_zero = ex_cfg\<lparr>eps_decay := 0\<rparr>"

text \<open>A network with one scalar parameter.\<close>

definition scalar_net :: "real \<Rightarrow> Network" where
  "scalar_net x = \<lparr>use_fta = False, use_aux = None, params = [(''theta'', \<lparr>dims = [], vals = [x]\<rparr>)]\<rparr>"


text \<open>
  The \<open>info\<close> dictionary of the environment, the local variables of \<open>train\<close> after the
  reset, and the transition every step of the run stores when no next action is needed.
\<close>

definition ex_info :: "string \<rightharpoonup> real" where
  "ex_info = [''virtual-reward'' \<mapsto> 1]"

definition ex_locals :: locals where
  "ex_locals =
     \<lparr>cur_state = ex_state, info = ex_info, previous = None, reward_sum = 0, consecutive = 0\<rparr>"

definition ex_transition :: Transition where
  "ex_transition =
     \<lparr>state = ex_state, action = 0, next_state = Some ex_state, reward = 0,
      next_action = None, virtual_reward = None\<rparr>"

text \<open>The same configuration with the soft update of the target network.\<close>

definition ex_cfg_soft :: config where
  "ex_cfg_soft = ex_cfg\<lparr>soft_target_update := True\<rparr>"

text \<open>An agent whose policy network has moved away from its target network.\<close>

definition ex_trained :: "(nat, nat, unit) Agent" where
  "ex_trained = (ex_agent ex_cfg)\<lparr>policy_net := Network_init ex_init' False None\<rparr>"

text \<open>
  The configurations of two auxiliary tasks, the second with a batch size the run does
  not reach, and the transition the second stores at every step.
\<close>

definition ex_cfg_sfr :: config where
  "ex_cfg_sfr = ex_cfg\<lparr>arg_use_aux := Some ''sf+reward''\<rparr>"

definition ex_cfg_vr :: config where
  "ex_cfg_vr = ex_cfg\<lparr>arg_use_aux := Some ''virtual-reward-1'', batch_size := 32\<rparr>"

definition ex_delayed :: Transition where
  "ex_delayed =
     \<lparr>state = ex_state, action = 0, next_state = Some ex_state, reward = 0,
      next_action = Some 0, virtual_reward = Some 1\<rparr>"

text \<open>
  The task \<open>virtual-reward-1\<close> with the batch size 2, the same for a transfer run, and a
  batch of two transitions whose stored next actions are 1 and 0.
\<close>

definition ex_cfg_transfer :: config where
  "ex_cfg_transfer = ex_cfg\<lparr>arg_use_aux := Some ''virtual-reward-1'', transfer := True\<rparr>"

definition ex_cfg_v1 :: config where
  "ex_cfg_v1 = ex_cfg\<lparr>arg_use_aux := Some ''virtual-reward-1''\<rparr>"

definition ex_batch_v1 :: "Transition list" where
  "ex_batch_v1 =
     [\<lparr>state = ex_state, action = 1, next_state = Some ex_state, reward = 1,
       next_action = Some 1, virtual_reward = Some 1\<rparr>,
      \<lparr>state = ex_state, action = 2, next_state = Some ex_state, reward = 0,
       next_action = Some 0, virtual_reward = Some 0\<rparr>]"

section \<open>Properties\<close>

subsection \<open>The fields of the concrete run\<close>

lemma ex_cfg_fields:
  "batch_size ex_cfg = 2" "horizon ex_cfg = 10" "soft_target_update ex_cfg = False"
  "arg_use_aux ex_cfg = None" "arg_use_fta ex_cfg = False" "eps_decay ex_cfg = 1000"
  "eps_end ex_cfg = 1 / 20" "eps_start ex_cfg = 9 / 10" "gamma ex_cfg = 99 / 100"
  "tau ex_cfg = 1 / 10" "transfer ex_cfg = False" "target_update ex_cfg = 1"
  "consecutive_episodes ex_cfg = 3" "save_ratio ex_cfg = 1"
  by (simp_all add: ex_cfg_def)

lemma ex_locals_fields:
  "cur_state ex_locals = ex_state" "info ex_locals = ex_info" "previous ex_locals = None"
  "reward_sum ex_locals = 0" "consecutive ex_locals = 0"
  by (simp_all add: ex_locals_def)

lemma ex_agent_fields:
  "env (ex_agent cfg) = 0" "rng (ex_agent cfg) = 0" "steps_done (ex_agent cfg) = 0"
  "memory (ex_agent cfg) = \<lparr>capacity = 1000000, items = []\<rparr>"
  "reward_in_episode (ex_agent cfg) = []"
  "policy_net (ex_agent cfg) = Network_init ex_init (arg_use_fta cfg) (arg_use_aux cfg)"
  "target_net (ex_agent cfg) = Network_init ex_init (arg_use_fta cfg) (arg_use_aux cfg)"
  "need_next (ex_agent cfg)
     = (arg_use_aux cfg = Some ''sf'' \<or> arg_use_aux cfg = Some ''sf+reward''
        \<or> arg_use_aux cfg = Some ''virtual-reward-1''
        \<or> arg_use_aux cfg = Some ''virtual-reward-5'')"
  by (simp_all add: ex_agent_def)

lemma ex_world_fields:
  "memory_sample ex_world g xs n = (take (nat n) xs, Suc g)"
  "optimizer_step ex_world opt f p = (opt, p)"
  "env_reset ex_world e = ((ex_obs, ex_info), 0)"
  "action_space_n ex_world = 1"
  by (simp_all add: ex_world_def ex_info_def)

lemma ex_replay_fields:
  "rng (ex_replay cfg trs) = 0" "items (memory (ex_replay cfg trs)) = trs"
  "optimizer (ex_replay cfg trs) = ()"
  "policy_net (ex_replay cfg trs) = Network_init ex_init (arg_use_fta cfg) (arg_use_aux cfg)"
  "target_net (ex_replay cfg trs) = Network_init ex_init (arg_use_fta cfg) (arg_use_aux cfg)"
  "need_next (ex_replay cfg trs)
     = (arg_use_aux cfg = Some ''sf'' \<or> arg_use_aux cfg = Some ''sf+reward''
        \<or> arg_use_aux cfg = Some ''virtual-reward-1''
        \<or> arg_use_aux cfg = Some ''virtual-reward-5'')"
  by (simp_all add: ex_replay_def ex_agent_def)

subsection \<open>Construction: state dictionaries of equal shape\<close>

lemmas module_defs =
  Linear_def Conv2d_def ConvTranspose2d_def SFNetwork_def Reward_def
  InputReconstruction_def VirtualValueFunction_def RepresentationNetwork_def

lemma mk_tensor_dims: "dims (mk_tensor ds f) = ds"
  by (simp add: mk_tensor_def)

lemma Network_init_keys:
  "map fst (params (Network_init i1 f u)) = map fst (params (Network_init i2 f u))"
  by (simp add: Network_init_def module_defs)

lemma Network_init_dims:
  "map (\<lambda>kt. dims (snd kt)) (params (Network_init i1 f u))
     = map (\<lambda>kt. dims (snd kt)) (params (Network_init i2 f u))"
  by (simp add: Network_init_def module_defs mk_tensor_dims)

lemma Network_init_distinct: "distinct (map fst (params (Network_init i f u)))"
proof -
  consider (ir) "u = Some ''ir''" | (rw) "u = Some ''reward''" | (sf) "u = Some ''sf''"
    | (v1) "u = Some ''virtual-reward-1''" | (v5) "u = Some ''virtual-reward-5''"
    | (other) "u \<noteq> Some ''ir''" "u \<noteq> Some ''reward''" "u \<noteq> Some ''sf''"
        "u \<noteq> Some ''virtual-reward-1''" "u \<noteq> Some ''virtual-reward-5''"
    by blast
  then show ?thesis
  proof cases
    case ir then show ?thesis by (cases f) (simp_all add: Network_init_def module_defs)
  next
    case rw then show ?thesis by (cases f) (simp_all add: Network_init_def module_defs)
  next
    case sf then show ?thesis by (cases f) (simp_all add: Network_init_def module_defs)
  next
    case v1 then show ?thesis by (cases f) (simp_all add: Network_init_def module_defs)
  next
    case v5 then show ?thesis by (cases f) (simp_all add: Network_init_def module_defs)
  next
    case other then show ?thesis by (cases f) (simp_all add: Network_init_def module_defs)
  qed
qed

lemma load_entry:
  assumes "map fst ps = map fst sd" "distinct (map fst sd)"
    "map (\<lambda>kt. dims (snd kt)) ps = map (\<lambda>kt. dims (snd kt)) sd" "n < length sd"
  shows "map_of sd (fst (ps ! n)) = Some (snd (sd ! n)) \<and> dims (snd (ps ! n)) = dims (snd (sd ! n))
    \<and> fst (ps ! n) = fst (sd ! n)"
proof -
  have len: "length ps = length sd"
    using assms(1) by (metis length_map)
  have k: "fst (ps ! n) = fst (sd ! n)"
    using assms(1,4) len by (metis nth_map)
  have d: "dims (snd (ps ! n)) = dims (snd (sd ! n))"
    using assms(3,4) len by (metis (mono_tags, lifting) nth_map)
  have "(fst (sd ! n), snd (sd ! n)) \<in> set sd"
    using assms(4) by simp
  then have "map_of sd (fst (sd ! n)) = Some (snd (sd ! n))"
    using assms(2) by (rule_tac map_of_is_SomeI)
  then show ?thesis using k d by simp
qed

lemma load_state_dict_same_shape:
  assumes "map fst (params t) = map fst sd" "distinct (map fst sd)"
    "map (\<lambda>kt. dims (snd kt)) (params t) = map (\<lambda>kt. dims (snd kt)) sd"
  shows "load_state_dict t sd = Inr (t\<lparr>params := sd\<rparr>)"
proof -
  have len: "length (params t) = length sd"
    using assms(1) by (metis length_map)
  have keys: "set (map fst sd) = set (map fst (params t))"
    using assms(1) by simp
  have ok: "list_all (\<lambda>(k, x). map_option dims (map_of sd k) = Some (dims x)) (params t)"
    unfolding list_all_length
  proof (intro allI impI)
    fix n assume "n < length (params t)"
    then have "n < length sd" using len by simp
    from load_entry [OF assms this]
    show "case params t ! n of (k, x) \<Rightarrow> map_option dims (map_of sd k) = Some (dims x)"
      by (cases "params t ! n") simp
  qed
  have "map (\<lambda>(k, x). (k, case map_of sd k of None \<Rightarrow> x | Some v \<Rightarrow> x\<lparr>vals := vals v\<rparr>)) (params t) = sd"
  proof (rule nth_equalityI)
    show "length (map (\<lambda>(k, x). (k, case map_of sd k of None \<Rightarrow> x | Some v \<Rightarrow> x\<lparr>vals := vals v\<rparr>)) (params t)) = length sd"
      using len by simp
  next
    fix n assume "n < length (map (\<lambda>(k, x). (k, case map_of sd k of None \<Rightarrow> x | Some v \<Rightarrow> x\<lparr>vals := vals v\<rparr>)) (params t))"
    then have n: "n < length sd" using len by simp
    from load_entry [OF assms n]
    show "map (\<lambda>(k, x). (k, case map_of sd k of None \<Rightarrow> x | Some v \<Rightarrow> x\<lparr>vals := vals v\<rparr>)) (params t) ! n = sd ! n"
      using n len by (cases "params t ! n"; cases "sd ! n") (simp add: tensor.equality)
  qed
  then show ?thesis
    using keys ok by (simp add: load_state_dict_def)
qed

lemma Agent_init_returns:
  "Agent_init w cfg e g init_p init_t =
     Inr \<lparr>env = e, rng = g,
          need_next =
            (arg_use_aux cfg = Some ''sf'' \<or> arg_use_aux cfg = Some ''sf+reward''
             \<or> arg_use_aux cfg = Some ''virtual-reward-1''
             \<or> arg_use_aux cfg = Some ''virtual-reward-5''),
          action_space = action_space_n w,
          policy_net = Network_init init_p (arg_use_fta cfg) (arg_use_aux cfg),
          target_net = Network_init init_p (arg_use_fta cfg) (arg_use_aux cfg),
          optimizer = AdamW w (Network_init init_p (arg_use_fta cfg) (arg_use_aux cfg)) (learning_rate cfg),
          memory = \<lparr>capacity = 1000000, items = []\<rparr>,
          steps_done = 0, reward_in_episode = [],
          rewards_file = None, model_file = None\<rparr>"
proof -
  let ?p = "Network_init init_p (arg_use_fta cfg) (arg_use_aux cfg)"
  let ?t = "Network_init init_t (arg_use_fta cfg) (arg_use_aux cfg)"
  have "load_state_dict ?t (state_dict ?p) = Inr (?t\<lparr>params := state_dict ?p\<rparr>)"
    unfolding state_dict_def
    by (rule load_state_dict_same_shape)
       (rule Network_init_keys Network_init_distinct Network_init_dims)+
  moreover have "?t\<lparr>params := state_dict ?p\<rparr> = ?p"
    by (simp add: state_dict_def Network_init_def)
  ultimately show ?thesis
    by (simp add: Agent_init_def Let_def ebind_def)
qed


lemma ex_agent_init: "Agent_init ex_world cfg 0 0 ex_init ex_init' = Inr (ex_agent cfg)"
  by (simp add: Agent_init_returns ex_agent_def ex_world_def)

lemma optimize_target_net:
  "optimize lib w cfg a = Inr a' \<Longrightarrow> target_net a' = target_net a"
  by (auto simp: optimize_def Let_def split: if_splits prod.splits sum.splits)

lemma optimize_below_batch_size:
  "int (length (items (memory a))) < batch_size cfg \<Longrightarrow> optimize lib w cfg a = Inr a"
  by (simp add: optimize_def)

text \<open>
  C10. Right after \<open>Agent.__init__\<close> the target network is the policy network, parameter
  for parameter: the constructor always returns, its policy network is the freshly
  initialised one, and the values first drawn for the target network are gone. The two
  networks are two values of the agent: an optimization step, which replaces the policy
  network, leaves the target network as it is.
\<close>

theorem Agent_init_target_equals_policy:
  "\<exists>a. Agent_init w cfg e g init_p init_t = Inr a
      \<and> policy_net a = Network_init init_p (arg_use_fta cfg) (arg_use_aux cfg)
      \<and> state_dict (target_net a) = state_dict (policy_net a)
      \<and> target_net a = policy_net a
      \<and> steps_done a = 0 \<and> items (memory a) = []
      \<and> (\<forall>a'. optimize lib w cfg a = Inr a' \<longrightarrow> state_dict (target_net a') = state_dict (target_net a))"
  by (simp add: Agent_init_returns optimize_target_net)

theorem Agent_init_target_equals_policy_witness:
  "Agent_init ex_world ex_cfg 0 0 ex_init ex_init' = Inr (ex_agent ex_cfg)
   \<and> optimize ex_lib ex_world ex_cfg (ex_agent ex_cfg) = Inr (ex_agent ex_cfg)
   \<and> state_dict (target_net (ex_agent ex_cfg)) = state_dict (Network_init ex_init False None)"
proof -
  from Agent_init_target_equals_policy [of ex_world ex_cfg 0 0 ex_init ex_init' ex_lib]
  have "state_dict (target_net (ex_agent ex_cfg)) = state_dict (policy_net (ex_agent ex_cfg))"
    by (simp add: ex_agent_init)
  moreover have "optimize ex_lib ex_world ex_cfg (ex_agent ex_cfg) = Inr (ex_agent ex_cfg)"
    by (rule optimize_below_batch_size) (simp add: ex_agent_def ex_cfg_def)
  ultimately show ?thesis
    by (simp add: ex_agent_init) (simp add: ex_agent_def ex_cfg_def)
qed

subsection \<open>The optimization step below the batch size\<close>

text \<open>
  C9. When the replay memory holds fewer transitions than \<open>batch_size\<close>, \<open>optimize\<close>
  returns at once and without an exception, and the agent it leaves is the agent it
  found: in particular every parameter of the policy network and of the target network
  is unchanged.
\<close>

theorem optimize_noop_below_batch_size:
  "int (length (items (memory a))) < batch_size cfg \<Longrightarrow>
     optimize lib w cfg a = Inr a
     \<and> (\<forall>a'. optimize lib w cfg a = Inr a' \<longrightarrow>
          state_dict (policy_net a') = state_dict (policy_net a)
          \<and> state_dict (target_net a') = state_dict (target_net a))"
  by (simp add: optimize_def)

theorem optimize_noop_below_batch_size_witness:
  "int (length (items (memory (ex_agent ex_cfg)))) < batch_size ex_cfg
   \<and> optimize ex_lib ex_world ex_cfg (ex_agent ex_cfg) = Inr (ex_agent ex_cfg)"
proof -
  have small: "int (length (items (memory (ex_agent ex_cfg)))) < batch_size ex_cfg"
    by (simp add: ex_agent_def ex_cfg_def)
  from optimize_noop_below_batch_size [OF small] show ?thesis
    using small by simp
qed

subsection \<open>The exploration schedule\<close>

lemma exp_ratio: "exp (- 1 * real n / d) = exp (- 1 / d) ^ n"
proof -
  have "exp (- 1 * real n / d) = exp (real n * (- 1 / d))" by simp
  also have "\<dots> = exp (- 1 / d) ^ n" by (rule exp_of_nat_mult)
  finally show ?thesis .
qed

lemma eps_schedule_power:
  "eps_schedule cfg n = eps_end cfg + (eps_start cfg - eps_end cfg) * exp (- 1 / eps_decay cfg) ^ n"
  unfolding eps_schedule_def exp_ratio ..

lemma eps_schedule_decreasing:
  assumes "eps_end cfg < eps_start cfg" "0 < eps_decay cfg" "m < n"
  shows "eps_schedule cfg n < eps_schedule cfg m"
proof -
  let ?x = "exp (- 1 / eps_decay cfg)"
  have "0 < ?x" by simp
  moreover have "?x < 1" using assms(2) by simp
  ultimately have "?x ^ n < ?x ^ m"
    using assms(3) by (simp add: power_strict_decreasing)
  then have "(eps_start cfg - eps_end cfg) * ?x ^ n < (eps_start cfg - eps_end cfg) * ?x ^ m"
    using assms(1) by simp
  then show ?thesis
    using assms(2) by (simp add: eps_schedule_power)
qed

lemma eps_schedule_limit:
  assumes "0 < eps_decay cfg"
  shows "(\<lambda>n. eps_schedule cfg n) \<longlonglongrightarrow> eps_end cfg"
proof -
  let ?x = "exp (- 1 / eps_decay cfg)"
  have "(\<lambda>n. ?x ^ n) \<longlonglongrightarrow> 0"
    by (rule LIMSEQ_realpow_zero) (use assms in simp_all)
  then have "(\<lambda>n. (eps_start cfg - eps_end cfg) * ?x ^ n)
      \<longlonglongrightarrow> (eps_start cfg - eps_end cfg) * 0"
    by (rule tendsto_mult_left)
  then have "(\<lambda>n. eps_end cfg + (eps_start cfg - eps_end cfg) * ?x ^ n)
      \<longlonglongrightarrow> eps_end cfg + (eps_start cfg - eps_end cfg) * 0"
    by (rule tendsto_add [OF tendsto_const])
  then show ?thesis
    using assms by (simp add: eps_schedule_power)
qed

lemma float_overflow_large: "746 < float_overflow"
  by (simp add: float_overflow_def)

lemma eps_threshold_positive_decay:
  assumes "0 < eps_decay cfg" "real n < float_overflow"
  shows "eps_threshold w cfg n
    = Inr (Finite (eps_end cfg + (eps_start cfg - eps_end cfg)
                     * (if 746 * eps_decay cfg \<le> real n then 0
                        else float_exp w (- real n / eps_decay cfg))))"
proof -
  let ?q = "- real n / eps_decay cfg"
  have q: "?q \<le> 0"
    using assms(1) by (simp add: field_simps)
  have conv: "int_to_float n = Inr (real n)"
    using assms(2) by (simp add: int_to_float_def)
  have under: "?q \<le> - 746 \<longleftrightarrow> 746 * eps_decay cfg \<le> real n"
    using assms(1) by (simp add: field_simps)
  have pos: "\<not> float_overflow \<le> ?q"
    using q float_overflow_large by linarith
  have small: "\<not> 709782712893384 / 1000000000000 < ?q"
    using q by linarith
  have e: "ebind (float_div (- real n) (eps_decay cfg)) (math_exp w)
      = Inr (Finite (if 746 * eps_decay cfg \<le> real n then 0 else float_exp w ?q))"
  proof (cases "?q \<le> - float_overflow")
    case True
    then have "?q \<le> - 746"
      using float_overflow_large by linarith
    with under have "746 * eps_decay cfg \<le> real n" by simp
    moreover have "float_div (- real n) (eps_decay cfg) = Inr MinusInfinity"
      using assms(1) pos True by (simp add: float_div_def)
    ultimately show ?thesis
      by (simp add: ebind_def math_exp_def)
  next
    case False
    have div: "float_div (- real n) (eps_decay cfg) = Inr (Finite ?q)"
      using assms(1) pos False by (simp add: float_div_def)
    show ?thesis
      unfolding div using small under by (simp add: ebind_def math_exp_def)
  qed
  have "eps_threshold w cfg n
      = ebind (ebind (float_div (- real n) (eps_decay cfg)) (math_exp w)) (\<lambda>e.
          Inr (float_add (eps_end cfg) (float_mult (eps_start cfg - eps_end cfg) e)))"
    by (simp add: eps_threshold_def conv ebind_def split: sum.splits)
  then show ?thesis
    unfolding e by (simp add: ebind_def float_mult_def float_add_def)
qed

lemma eps_threshold_zero_decay:
  assumes "eps_decay cfg = 0" "real n < float_overflow"
  shows "eps_threshold w cfg n = Inl ZeroDivisionError"
  using assms by (simp add: eps_threshold_def int_to_float_def float_div_def ebind_def)

lemma select_action_raises:
  "eps_threshold w cfg (steps_done a) = Inl e \<Longrightarrow>
     select_action lib w cfg a s = (Inl e, a\<lparr>rng := snd (random_random w (rng a))\<rparr>)"
  by (simp add: select_action_def case_prod_beta)

lemma select_action_steps:
  "eps_threshold w cfg (steps_done a) = Inr t \<Longrightarrow>
     steps_done (snd (select_action lib w cfg a s)) = steps_done a + 1"
  by (simp add: select_action_def Let_def case_prod_beta split: sum.splits)

lemma select_action_explores:
  "eps_threshold w cfg (steps_done a) = Inr t \<Longrightarrow>
   \<not> float_greater (fst (random_random w (rng a))) t \<Longrightarrow>
     select_action lib w cfg a s =
       (Inr (fst (action_space_sample w (snd (random_random w (rng a))))),
        a\<lparr>rng := snd (action_space_sample w (snd (random_random w (rng a)))),
          steps_done := steps_done a + 1\<rparr>)"
  by (simp add: select_action_def Let_def case_prod_beta)

lemma select_action_exploits:
  "eps_threshold w cfg (steps_done a) = Inr t \<Longrightarrow>
   float_greater (fst (random_random w (rng a))) t \<Longrightarrow>
     fst (select_action lib w cfg a s)
       = ebind (Network_forward lib (policy_net a) s) (\<lambda>out. argmax (out_x out))"
  by (simp add: select_action_def Let_def ebind_def case_prod_beta split: sum.splits)

text \<open>
  C6, as amended. A call of \<open>select_action\<close> that computes the threshold compares the
  draw with it, increments \<open>steps_done\<close> by exactly 1 whichever branch it takes, also
  when the forward pass of the greedy branch raises; a call on which the computation of
  the threshold raises returns the exception and leaves \<open>steps_done\<close> as it was. For
  \<open>eps_decay > 0\<close> (and a step count in the float64 range) the computation does not
  raise, and the threshold is \<open>eps_end + (eps_start - eps_end) * e\<close>, where \<open>e\<close> is the
  value of \<open>math.exp\<close> at \<open>- steps_done / eps_decay\<close>, which is 0 from
  \<open>steps_done = 746 * eps_decay\<close> on: there the threshold is \<open>eps_end\<close> exactly. For
  \<open>eps_decay = 0\<close> it raises \<open>ZeroDivisionError\<close>. Where \<open>math.exp\<close> returns the exact
  exponential the threshold is the schedule of the specification, which over the reals,
  for \<open>eps_start > eps_end\<close> and \<open>eps_decay > 0\<close>, is strictly decreasing in the step
  count, is \<open>eps_start\<close> at 0 and converges to \<open>eps_end\<close>.
\<close>

theorem select_action_eps_threshold:
  "(eps_threshold w cfg (steps_done a) = Inr t \<longrightarrow>
      steps_done (snd (select_action lib w cfg a s)) = steps_done a + 1
      \<and> (\<not> float_greater (fst (random_random w (rng a))) t \<longrightarrow>
           fst (select_action lib w cfg a s)
             = Inr (fst (action_space_sample w (snd (random_random w (rng a))))))
      \<and> (float_greater (fst (random_random w (rng a))) t \<longrightarrow>
           fst (select_action lib w cfg a s)
             = ebind (Network_forward lib (policy_net a) s) (\<lambda>out. argmax (out_x out))))
   \<and> (eps_threshold w cfg (steps_done a) = Inl e \<longrightarrow>
        fst (select_action lib w cfg a s) = Inl e
        \<and> steps_done (snd (select_action lib w cfg a s)) = steps_done a)
   \<and> (0 < eps_decay cfg \<and> real n < float_overflow \<longrightarrow>
        eps_threshold w cfg n
          = Inr (Finite (eps_end cfg + (eps_start cfg - eps_end cfg)
                           * (if 746 * eps_decay cfg \<le> real n then 0
                              else float_exp w (- real n / eps_decay cfg)))))
   \<and> (0 < eps_decay cfg \<and> real n < float_overflow \<and> 746 * eps_decay cfg \<le> real n \<longrightarrow>
        eps_threshold w cfg n = Inr (Finite (eps_end cfg)))
   \<and> (0 < eps_decay cfg \<and> real n < float_overflow \<and> real n < 746 * eps_decay cfg
        \<and> float_exp w (- real n / eps_decay cfg) = exp (- real n / eps_decay cfg) \<longrightarrow>
        eps_threshold w cfg n = Inr (Finite (eps_schedule cfg n)))
   \<and> (eps_decay cfg = 0 \<and> real n < float_overflow \<longrightarrow>
        eps_threshold w cfg n = Inl ZeroDivisionError)
   \<and> eps_schedule cfg n
        = eps_end cfg + (eps_start cfg - eps_end cfg) * exp (- real n / eps_decay cfg)
   \<and> (eps_end cfg < eps_start cfg \<and> 0 < eps_decay cfg \<longrightarrow>
        (\<forall>i j. i < j \<longrightarrow> eps_schedule cfg j < eps_schedule cfg i)
        \<and> eps_schedule cfg 0 = eps_start cfg
        \<and> (\<lambda>k. eps_schedule cfg k) \<longlonglongrightarrow> eps_end cfg)"
proof (intro conjI impI allI)
  assume "eps_threshold w cfg (steps_done a) = Inr t"
  then show "steps_done (snd (select_action lib w cfg a s)) = steps_done a + 1"
    by (rule select_action_steps)
next
  assume "eps_threshold w cfg (steps_done a) = Inr t"
    "\<not> float_greater (fst (random_random w (rng a))) t"
  then show "fst (select_action lib w cfg a s)
      = Inr (fst (action_space_sample w (snd (random_random w (rng a)))))"
    by (simp add: select_action_explores)
next
  assume "eps_threshold w cfg (steps_done a) = Inr t"
    "float_greater (fst (random_random w (rng a))) t"
  then show "fst (select_action lib w cfg a s)
      = ebind (Network_forward lib (policy_net a) s) (\<lambda>out. argmax (out_x out))"
    by (rule select_action_exploits)
next
  assume "eps_threshold w cfg (steps_done a) = Inl e"
  then show "fst (select_action lib w cfg a s) = Inl e"
    and "steps_done (snd (select_action lib w cfg a s)) = steps_done a"
    by (simp_all add: select_action_raises)
next
  assume "0 < eps_decay cfg \<and> real n < float_overflow"
  then show "eps_threshold w cfg n
      = Inr (Finite (eps_end cfg + (eps_start cfg - eps_end cfg)
                       * (if 746 * eps_decay cfg \<le> real n then 0
                          else float_exp w (- real n / eps_decay cfg))))"
    by (simp add: eps_threshold_positive_decay)
next
  assume "0 < eps_decay cfg \<and> real n < float_overflow \<and> 746 * eps_decay cfg \<le> real n"
  then show "eps_threshold w cfg n = Inr (Finite (eps_end cfg))"
    by (simp add: eps_threshold_positive_decay)
next
  assume "0 < eps_decay cfg \<and> real n < float_overflow \<and> real n < 746 * eps_decay cfg
      \<and> float_exp w (- real n / eps_decay cfg) = exp (- real n / eps_decay cfg)"
  then show "eps_threshold w cfg n = Inr (Finite (eps_schedule cfg n))"
    by (simp add: eps_threshold_positive_decay eps_schedule_def)
next
  assume "eps_decay cfg = 0 \<and> real n < float_overflow"
  then show "eps_threshold w cfg n = Inl ZeroDivisionError"
    by (simp add: eps_threshold_zero_decay)
next
  show "eps_schedule cfg n
      = eps_end cfg + (eps_start cfg - eps_end cfg) * exp (- real n / eps_decay cfg)"
    by (simp add: eps_schedule_def)
next
  fix i j :: nat
  assume "eps_end cfg < eps_start cfg \<and> 0 < eps_decay cfg" "i < j"
  then show "eps_schedule cfg j < eps_schedule cfg i"
    by (simp add: eps_schedule_decreasing)
next
  show "eps_schedule cfg 0 = eps_start cfg"
    by (simp add: eps_schedule_def)
next
  assume "eps_end cfg < eps_start cfg \<and> 0 < eps_decay cfg"
  then show "(\<lambda>k. eps_schedule cfg k) \<longlonglongrightarrow> eps_end cfg"
    by (simp add: eps_schedule_limit)
qed


text \<open>
  With the configuration of the run the first call computes the threshold \<open>0.9\<close>, draws 0,
  explores and counts one step; at 746000 steps the threshold is \<open>eps_end\<close>; with
  \<open>eps_decay = 0\<close> the call raises and counts nothing.
\<close>

theorem select_action_eps_threshold_witness:
  "eps_end ex_cfg < eps_start ex_cfg \<and> 0 < eps_decay ex_cfg
   \<and> eps_threshold ex_world ex_cfg 0 = Inr (Finite (9 / 10))
   \<and> eps_schedule ex_cfg 0 = 9 / 10
   \<and> eps_schedule ex_cfg 1000 < eps_schedule ex_cfg 0
   \<and> eps_schedule ex_cfg 1000 = 1 / 20 + 17 / 20 * exp (- 1)
   \<and> eps_threshold ex_world ex_cfg 1000 = Inr (Finite (eps_schedule ex_cfg 1000))
   \<and> (\<lambda>n. eps_schedule ex_cfg n) \<longlonglongrightarrow> 1 / 20
   \<and> eps_threshold ex_world ex_cfg 746000 = Inr (Finite (1 / 20))
   \<and> select_action ex_lib ex_world ex_cfg (ex_agent ex_cfg) ex_state
       = (Inr 0, (ex_agent ex_cfg)\<lparr>rng := 2, steps_done := 1\<rparr>)
   \<and> eps_decay ex_cfg_zero = 0
   \<and> eps_threshold ex_world ex_cfg_zero 0 = Inl ZeroDivisionError
   \<and> fst (select_action ex_lib ex_world ex_cfg_zero (ex_agent ex_cfg_zero) ex_state)
       = Inl ZeroDivisionError
   \<and> steps_done (snd (select_action ex_lib ex_world ex_cfg_zero (ex_agent ex_cfg_zero) ex_state)) = 0"
proof -
  have cfg: "eps_end ex_cfg < eps_start ex_cfg \<and> 0 < eps_decay ex_cfg"
    "eps_decay ex_cfg = 1000" "eps_end ex_cfg = 1 / 20" "eps_start ex_cfg = 9 / 10"
    "eps_decay ex_cfg_zero = 0"
    by (simp_all add: ex_cfg_def ex_cfg_zero_def)
  have big: "real (0 :: nat) < float_overflow" "real (1000 :: nat) < float_overflow"
    "real (746000 :: nat) < float_overflow"
    by (simp_all add: float_overflow_def)
  have ex: "float_exp ex_world = exp"
    by (simp add: ex_world_def)
  have st: "steps_done (ex_agent ex_cfg) = 0" "steps_done (ex_agent ex_cfg_zero) = 0"
    by (simp_all add: ex_agent_def)
  note at0 = select_action_eps_threshold
    [of ex_world ex_cfg "ex_agent ex_cfg" "Finite (9 / 10)" ex_lib ex_state _ 0]
  note at1000 = select_action_eps_threshold
    [of ex_world ex_cfg "ex_agent ex_cfg" "Finite (9 / 10)" ex_lib ex_state _ 1000]
  note at746000 = select_action_eps_threshold
    [of ex_world ex_cfg "ex_agent ex_cfg" "Finite (9 / 10)" ex_lib ex_state _ 746000]
  note zero = select_action_eps_threshold
    [of ex_world ex_cfg_zero "ex_agent ex_cfg_zero" _ ex_lib ex_state ZeroDivisionError 0]
  have thr0: "eps_threshold ex_world ex_cfg 0 = Inr (Finite (9 / 10))"
    using at0 cfg big(1) by (simp add: ex)
  have s0: "eps_schedule ex_cfg 0 = 9 / 10"
    using at0 cfg by simp
  have mono: "\<forall>i j. i < j \<longrightarrow> eps_schedule ex_cfg j < eps_schedule ex_cfg i"
    using at0 cfg(1) by blast
  have less: "eps_schedule ex_cfg 1000 < eps_schedule ex_cfg 0"
    using mono [rule_format, of 0 1000] by simp
  have val: "eps_schedule ex_cfg 1000 = 1 / 20 + 17 / 20 * exp (- 1)"
    using at1000 cfg by simp
  have thr1000: "eps_threshold ex_world ex_cfg 1000 = Inr (Finite (eps_schedule ex_cfg 1000))"
    using at1000 cfg big(2) by (simp add: ex)
  have lim: "(\<lambda>n. eps_schedule ex_cfg n) \<longlonglongrightarrow> 1 / 20"
    using at0 cfg by simp
  have under: "eps_threshold ex_world ex_cfg 746000 = Inr (Finite (1 / 20))"
    using at746000 cfg big(3) by simp
  have draw: "\<not> float_greater (fst (random_random ex_world (rng (ex_agent ex_cfg)))) (Finite (9 / 10))"
    by (simp add: float_greater_def ex_world_def)
  have sel: "select_action ex_lib ex_world ex_cfg (ex_agent ex_cfg) ex_state
      = (Inr 0, (ex_agent ex_cfg)\<lparr>rng := 2, steps_done := 1\<rparr>)"
    using select_action_explores [of ex_world ex_cfg "ex_agent ex_cfg" "Finite (9 / 10)" ex_lib ex_state]
      thr0 draw
    by (simp add: st) (simp add: ex_world_def ex_agent_def)
  have thrz: "eps_threshold ex_world ex_cfg_zero 0 = Inl ZeroDivisionError"
    using zero cfg(5) big(1) by simp
  with zero have raise: "fst (select_action ex_lib ex_world ex_cfg_zero (ex_agent ex_cfg_zero) ex_state)
       = Inl ZeroDivisionError"
    "steps_done (snd (select_action ex_lib ex_world ex_cfg_zero (ex_agent ex_cfg_zero) ex_state)) = 0"
    by (simp_all add: st)
  from cfg thr0 s0 less val thr1000 lim under sel thrz raise show ?thesis
    by simp
qed

text \<open>
  C6 as stated fails on the code in two ways. The computed threshold is not strictly
  decreasing: with \<open>eps_start = 0.9 > eps_end = 0.05\<close> and \<open>eps_decay = 1000 > 0\<close> it is
  \<open>eps_end\<close> at 746000 steps and at 746001 steps, because \<open>math.exp\<close> returns 0 there. And
  \<open>steps_done\<close> is not incremented on every call: with \<open>eps_decay = 0\<close> the call raises
  \<open>ZeroDivisionError\<close> before the increment.
\<close>

theorem select_action_eps_threshold_counterexample:
  "eps_end ex_cfg < eps_start ex_cfg \<and> 0 < eps_decay ex_cfg
   \<and> eps_threshold ex_world ex_cfg 746000 = Inr (Finite (1 / 20))
   \<and> eps_threshold ex_world ex_cfg 746001 = Inr (Finite (1 / 20))
   \<and> eps_decay ex_cfg_zero = 0
   \<and> select_action ex_lib ex_world ex_cfg_zero (ex_agent ex_cfg_zero) ex_state
       = (Inl ZeroDivisionError, (ex_agent ex_cfg_zero)\<lparr>rng := 1\<rparr>)
   \<and> steps_done ((ex_agent ex_cfg_zero)\<lparr>rng := 1\<rparr>) = steps_done (ex_agent ex_cfg_zero)"
proof -
  have big: "real (746000 :: nat) < float_overflow" "real (746001 :: nat) < float_overflow"
    "real (0 :: nat) < float_overflow"
    by (simp_all add: float_overflow_def)
  have cfg: "0 < eps_decay ex_cfg" "eps_decay ex_cfg_zero = 0"
    by (simp_all add: ex_cfg_def ex_cfg_zero_def)
  have a: "eps_threshold ex_world ex_cfg 746000 = Inr (Finite (1 / 20))"
    using eps_threshold_positive_decay [OF cfg(1) big(1), of ex_world] by (simp add: ex_cfg_def)
  have b: "eps_threshold ex_world ex_cfg 746001 = Inr (Finite (1 / 20))"
    using eps_threshold_positive_decay [OF cfg(1) big(2), of ex_world] by (simp add: ex_cfg_def)
  have "eps_threshold ex_world ex_cfg_zero (steps_done (ex_agent ex_cfg_zero)) = Inl ZeroDivisionError"
    using eps_threshold_zero_decay [OF cfg(2) big(3), of ex_world] by (simp add: ex_agent_def)
  from select_action_raises [OF this, of ex_lib ex_state]
  have c: "select_action ex_lib ex_world ex_cfg_zero (ex_agent ex_cfg_zero) ex_state
       = (Inl ZeroDivisionError, (ex_agent ex_cfg_zero)\<lparr>rng := 1\<rparr>)"
    by (simp add: ex_world_def ex_agent_def)
  from a b c cfg show ?thesis
    by (simp add: ex_cfg_def)
qed


subsection \<open>Sequencing\<close>

lemma ebind_Inr_iff: "ebind m f = Inr y \<longleftrightarrow> (\<exists>v. m = Inr v \<and> f v = Inr y)"
  by (cases m) (simp_all add: ebind_def)

lemma ebindE:
  assumes "ebind m f = Inr y"
  obtains u where "m = Inr u" "f u = Inr y"
  using assms by (cases m) (simp_all add: ebind_def)

subsection \<open>The action-value head\<close>

lemma F_linear_dims: "F_linear W b xs = Inr ys \<Longrightarrow> dims W = [length ys, length xs]"
  by (auto simp: F_linear_def split: list.splits if_splits)

lemma F_linear_mk_tensor:
  assumes "length xs = n_in"
  shows "F_linear (mk_tensor [n_out, n_in] f) (mk_tensor [n_out] g) xs
    = Inr (map (\<lambda>j. (\<Sum>i\<leftarrow>[0..<n_in]. xs ! i * f (j * n_in + i)) + g j) [0..<n_out])"
proof -
  have idx: "j * n_in + i < n_out * n_in" if "j < n_out" "i < n_in" for i j
  proof -
    have "j * n_in + i < j * n_in + n_in" using that(2) by simp
    also have "\<dots> = Suc j * n_in" by simp
    also have "\<dots> \<le> n_out * n_in" using that(1) by (intro mult_le_mono1) simp
    finally show ?thesis .
  qed
  have row: "map (\<lambda>i. xs ! i * map f [0..<n_out * n_in] ! (j * n_in + i)) [0..<n_in]
      = map (\<lambda>i. xs ! i * f (j * n_in + i)) [0..<n_in]" if "j < n_out" for j
    by (rule map_cong) (use idx [OF that] in simp_all)
  have "map (\<lambda>j. (\<Sum>i\<leftarrow>[0..<n_in]. xs ! i * map f [0..<n_out * n_in] ! (j * n_in + i))
                 + map g [0..<n_out] ! j) [0..<n_out]
      = map (\<lambda>j. (\<Sum>i\<leftarrow>[0..<n_in]. xs ! i * f (j * n_in + i)) + g j) [0..<n_out]"
    by (rule map_cong) (simp_all add: row)
  then show ?thesis
    using assms by (simp add: F_linear_def mk_tensor_def)
qed

lemma use_aux_cases [case_names ir rw sf v1 v5 other]:
  obtains "u = Some ''ir''" | "u = Some ''reward''" | "u = Some ''sf''"
    | "u = Some ''virtual-reward-1''" | "u = Some ''virtual-reward-5''"
    | "u \<noteq> Some ''ir''" "u \<noteq> Some ''reward''" "u \<noteq> Some ''sf''"
      "u \<noteq> Some ''virtual-reward-1''" "u \<noteq> Some ''virtual-reward-5''"
  by blast

lemma param_q_network_fc3:
  "param (Network_init i f u) ''q_network_fc3.weight''
     = Inr (mk_tensor [4, 64] (i ''q_network_fc3.weight''))"
  "param (Network_init i f u) ''q_network_fc3.bias''
     = Inr (mk_tensor [4] (i ''q_network_fc3.bias''))"
  by (cases u rule: use_aux_cases; cases f; simp add: param_def Network_init_def module_defs)+

lemma linear_q_network_fc3_length:
  "linear (Network_init i f u) ''q_network_fc3'' xs = Inr q \<Longrightarrow> length q = 4"
proof -
  assume "linear (Network_init i f u) ''q_network_fc3'' xs = Inr q"
  then have "F_linear (mk_tensor [4, 64] (i ''q_network_fc3.weight''))
      (mk_tensor [4] (i ''q_network_fc3.bias'')) xs = Inr q"
    by (simp add: linear_def param_q_network_fc3 ebind_def)
  then have "dims (mk_tensor [4, 64] (i ''q_network_fc3.weight'')) = [length q, length xs]"
    by (rule F_linear_dims)
  then show ?thesis
    by (simp add: mk_tensor_def)
qed

lemma Network_forward_out_x:
  "Network_forward lib net s = Inr out \<Longrightarrow>
     \<exists>xs. linear net ''q_network_fc3'' xs = Inr (out_x out)"
  by (auto simp: Network_forward_def ebind_Inr_iff)

lemma Network_forward_length:
  "Network_forward lib (Network_init i f u) s = Inr out \<Longrightarrow> length (out_x out) = 4"
  using Network_forward_out_x linear_q_network_fc3_length by blast

lemma F_linear_ex_init:
  "length xs = n_in \<Longrightarrow> k \<noteq> ''q_network_fc3.bias'' \<Longrightarrow> k \<noteq> ''aux_network.q_network_fc3.bias'' \<Longrightarrow>
     F_linear (mk_tensor [n_out, n_in] (ex_init k)) (mk_tensor [n_out] (ex_init k')) xs
       = Inr (map (ex_init k') [0..<n_out])"
  by (simp add: F_linear_mk_tensor ex_init_def map_replicate_const sum_list_replicate)

lemma ex_init_zero:
  "k \<noteq> ''q_network_fc3.bias'' \<Longrightarrow> k \<noteq> ''aux_network.q_network_fc3.bias'' \<Longrightarrow>
     map (ex_init k) [0..<n] = replicate n 0"
proof -
  assume "k \<noteq> ''q_network_fc3.bias''" "k \<noteq> ''aux_network.q_network_fc3.bias''"
  then have "ex_init k = (\<lambda>i. 0)"
    by (simp add: fun_eq_iff ex_init_def)
  then show ?thesis
    by (simp add: map_replicate_const)
qed

lemma ex_init_bias: "map (ex_init ''q_network_fc3.bias'') [0..<4] = [0, 1, 2, 3]"
  by (simp add: ex_init_def upt_rec)

lemma ex_params:
  "param (Network_init i False None) ''rep_net.conv1.weight''
     = Inr (mk_tensor [32, 3, 4, 4] (i ''rep_net.conv1.weight''))"
  "param (Network_init i False None) ''rep_net.conv1.bias''
     = Inr (mk_tensor [32] (i ''rep_net.conv1.bias''))"
  "param (Network_init i False None) ''rep_net.conv2.weight''
     = Inr (mk_tensor [16, 32, 4, 4] (i ''rep_net.conv2.weight''))"
  "param (Network_init i False None) ''rep_net.conv2.bias''
     = Inr (mk_tensor [16] (i ''rep_net.conv2.bias''))"
  "param (Network_init i False None) ''rep_net.fc1.weight''
     = Inr (mk_tensor [32, 1024] (i ''rep_net.fc1.weight''))"
  "param (Network_init i False None) ''rep_net.fc1.bias''
     = Inr (mk_tensor [32] (i ''rep_net.fc1.bias''))"
  "param (Network_init i False None) ''q_network_fc1.weight''
     = Inr (mk_tensor [64, 32] (i ''q_network_fc1.weight''))"
  "param (Network_init i False None) ''q_network_fc1.bias''
     = Inr (mk_tensor [64] (i ''q_network_fc1.bias''))"
  "param (Network_init i False None) ''q_network_fc2.weight''
     = Inr (mk_tensor [64, 64] (i ''q_network_fc2.weight''))"
  "param (Network_init i False None) ''q_network_fc2.bias''
     = Inr (mk_tensor [64] (i ''q_network_fc2.bias''))"
  by (simp_all add: param_def Network_init_def module_defs)

lemma Network_init_attrs:
  "use_fta (Network_init i f u) = f" "use_aux (Network_init i f u) = u"
  by (simp_all add: Network_init_def)

lemma ex_rep_forward:
  "RepresentationNetwork_forward ex_lib (Network_init ex_init False None) ''rep_net'' s
     = Inr (replicate 32 0)"
  by (simp add: RepresentationNetwork_forward_def conv_def linear_def ebind_def ex_params
      ex_lib_def F_linear_ex_init ex_init_zero relu_def Network_init_attrs)

lemma ex_forward:
  "Network_forward ex_lib (Network_init ex_init False None) s
     = Inr \<lparr>out_x = [0, 1, 2, 3], out_aux = None, out_rep = replicate 32 0, out_next_rep = None\<rparr>"
  by (simp add: Network_forward_def ex_rep_forward aux_forward_def linear_def ebind_def
      ex_params param_q_network_fc3 F_linear_ex_init ex_init_zero ex_init_bias relu_def
      Network_init_attrs)


text \<open>
  C5, as amended. The action-value head of a network built by \<open>Network.__init__\<close>
  returns four values at every state at which the forward pass returns, whatever the
  configuration and whatever number of actions the environment reports: the width is
  the literal 4 of the constructor, and \<open>Agent.__init__\<close> stores
  \<open>env.action_space.n\<close> without passing it to the networks.
\<close>

theorem Network_forward_four_action_values:
  "(Network_forward lib (Network_init i f u) s = Inr out \<longrightarrow> length (out_x out) = 4)
   \<and> (Agent_init w cfg e g init_p init_t = Inr a
        \<and> (Network_forward lib (policy_net a) s = Inr out
            \<or> Network_forward lib (target_net a) s = Inr out)
        \<longrightarrow> length (out_x out) = 4 \<and> action_space a = action_space_n w)"
  by (auto simp: Agent_init_returns Network_forward_length)

theorem Network_forward_four_action_values_witness:
  "Agent_init ex_world ex_cfg 0 0 ex_init ex_init' = Inr (ex_agent ex_cfg)
   \<and> Network_forward ex_lib (policy_net (ex_agent ex_cfg)) ex_state
       = Inr \<lparr>out_x = [0, 1, 2, 3], out_aux = None, out_rep = replicate 32 0, out_next_rep = None\<rparr>
   \<and> length [0, 1, 2, 3 :: real] = 4
   \<and> action_space (ex_agent ex_cfg) = action_space_n ex_world"
proof -
  have fw: "Network_forward ex_lib (policy_net (ex_agent ex_cfg)) ex_state
      = Inr \<lparr>out_x = [0, 1, 2, 3], out_aux = None, out_rep = replicate 32 0, out_next_rep = None\<rparr>"
    by (simp add: ex_agent_def ex_cfg_def ex_forward)
  from Network_forward_four_action_values
    [of ex_lib ex_init False None ex_state _ ex_world ex_cfg 0 0 ex_init ex_init' "ex_agent ex_cfg"]
    fw ex_agent_init [of ex_cfg]
  show ?thesis by simp
qed

text \<open>
  C5 as stated fails on the environment with one action: the agent built for it has
  \<open>action_space = 1\<close>, and its policy network returns four action values.
\<close>

theorem Network_forward_action_space_counterexample:
  "Agent_init ex_world ex_cfg 0 0 ex_init ex_init' = Inr (ex_agent ex_cfg)
   \<and> action_space_n ex_world = 1
   \<and> action_space (ex_agent ex_cfg) = 1
   \<and> Network_forward ex_lib (policy_net (ex_agent ex_cfg)) ex_state
       = Inr \<lparr>out_x = [0, 1, 2, 3], out_aux = None, out_rep = replicate 32 0, out_next_rep = None\<rparr>
   \<and> length [0, 1, 2, 3 :: real] \<noteq> action_space (ex_agent ex_cfg)"
  by (simp add: ex_agent_init) (simp add: ex_agent_def ex_cfg_def ex_world_def ex_forward)

subsection \<open>The loss of the action values\<close>

lemma emap_Inr_iff: "emap f xs = Inr ys \<longleftrightarrow> list_all2 (\<lambda>x y. f x = Inr y) xs ys"
proof (induction xs arbitrary: ys)
  case Nil
  show ?case by auto
next
  case (Cons x xs)
  show ?case
    by (cases ys) (auto simp: Cons.IH [symmetric] split: sum.splits)
qed

lemma emap_length: "emap f xs = Inr ys \<Longrightarrow> length ys = length xs"
  by (simp add: emap_Inr_iff list_all2_lengthD)

lemma emap_nth: "emap f xs = Inr ys \<Longrightarrow> n < length xs \<Longrightarrow> f (xs ! n) = Inr (ys ! n)"
  by (auto simp: emap_Inr_iff dest: list_all2_nthD)

lemma emap_filter_somes:
  "emap (\<lambda>v. case v of None \<Rightarrow> Inl TypeError | Some y \<Rightarrow> Inr y) (filter (\<lambda>s. s \<noteq> None) xs)
     = Inr (somes xs)"
  by (induction xs) (auto simp: somes_def simp del: not_None_eq)

lemma cat_filter_Inr:
  "cat (filter (\<lambda>s. s \<noteq> None) xs) = Inr ys \<Longrightarrow> ys = somes xs"
  by (simp add: cat_def emap_filter_somes del: not_None_eq split: if_splits)

lemma masked_assign_batch:
  "list_all2 (\<lambda>s m. g s = Inr m) (somes (map next_state trs)) maxes \<Longrightarrow>
     masked_assign (replicate (length trs) 0) (map (\<lambda>tr. next_state tr \<noteq> None) trs) maxes
       = map (\<lambda>tr. case next_state tr of None \<Rightarrow> 0
                   | Some s \<Rightarrow> (case g s of Inl e \<Rightarrow> 0 | Inr m \<Rightarrow> m)) trs"
proof (induction trs arbitrary: maxes)
  case Nil
  then show ?case by simp
next
  case (Cons tr trs)
  show ?case
  proof (cases "next_state tr")
    case None
    with Cons.prems have "list_all2 (\<lambda>s m. g s = Inr m) (somes (map next_state trs)) maxes"
      by (simp add: somes_def)
    with None show ?thesis
      by (simp add: Cons.IH del: not_None_eq)
  next
    case (Some s)
    with Cons.prems obtain m ms where ms: "maxes = m # ms" "g s = Inr m"
      "list_all2 (\<lambda>s m. g s = Inr m) (somes (map next_state trs)) ms"
      by (auto simp: somes_def list_all2_Cons1)
    with Some show ?thesis
      by (simp add: Cons.IH del: not_None_eq)
  qed
qed

lemma zip_map_same: "zip (map f xs) (map g xs) = map (\<lambda>x. (f x, g x)) xs"
  by (induction xs) simp_all

lemma MSELoss_map:
  "MSELoss (map f xs) (map g xs) = Inr ((\<Sum>x\<leftarrow>xs. (f x - g x)\<^sup>2) / real (length xs))"
  by (simp add: MSELoss_def zip_map_same comp_def)

lemma row_max_Max: "row_max xs = Inr m \<Longrightarrow> m = Max (set xs) \<and> xs \<noteq> []"
  by (cases xs) (auto simp: row_max_def Max.set_eq_fold [symmetric])


lemma somes_member: "Some s \<in> set xs \<Longrightarrow> s \<in> set (somes xs)"
  by (auto simp: somes_def)

lemma list_all2_left: "list_all2 P xs ys \<Longrightarrow> x \<in> set xs \<Longrightarrow> \<exists>y. P x y"
  by (auto simp: list_all2_conv_all_nth in_set_conv_nth)

lemma expected_state_action_batch_eq:
  assumes "expected_state_action_batch lib cfg target (somes (map next_state trs)) trs = Inr ex"
  shows "int (length trs) = batch_size cfg \<and> ex = map (td_target lib cfg target) trs
    \<and> list_all (\<lambda>tr. case next_state tr of None \<Rightarrow> True
          | Some s \<Rightarrow> (case Network_forward lib target s of
              Inl e \<Rightarrow> False | Inr out \<Rightarrow> out_x out \<noteq> [])) trs"
proof -
  let ?g = "\<lambda>s. ebind (Network_forward lib target s) (\<lambda>out. row_max (out_x out))"
  from assms obtain maxes where
    len: "int (length trs) = batch_size cfg"
    and mx: "emap ?g (somes (map next_state trs)) = Inr maxes"
    and ex: "ex = map (\<lambda>(v, r). v * gamma cfg + r)
               (zip (masked_assign (replicate (nat (batch_size cfg)) 0)
                       (map (\<lambda>tr. next_state tr \<noteq> None) trs) maxes)
                  (map reward trs))"
    unfolding expected_state_action_batch_def Let_def
    by (simp add: ebind_Inr_iff del: not_None_eq split: if_splits)
  have all2: "list_all2 (\<lambda>s m. ?g s = Inr m) (somes (map next_state trs)) maxes"
    using mx by (simp add: emap_Inr_iff)
  have nxt: "\<exists>out. Network_forward lib target s = Inr out \<and> out_x out \<noteq> []
        \<and> ?g s = Inr (Max (set (out_x out)))"
    if "tr \<in> set trs" "next_state tr = Some s" for tr s
  proof -
    have "Some s \<in> set (map next_state trs)"
      using that by force
    then have "s \<in> set (somes (map next_state trs))"
      by (rule somes_member)
    with all2 obtain m where "?g s = Inr m"
      by (blast dest: list_all2_left)
    then obtain out where out: "Network_forward lib target s = Inr out" "row_max (out_x out) = Inr m"
      by (auto simp: ebind_Inr_iff)
    from row_max_Max [OF out(2)] out show ?thesis
      by (simp add: ebind_def)
  qed
  have boot: "(case next_state tr of None \<Rightarrow> 0
               | Some s \<Rightarrow> (case ?g s of Inl e \<Rightarrow> 0 | Inr m \<Rightarrow> m)) = bootstrap_value lib target tr"
    if "tr \<in> set trs" for tr
  proof (cases "next_state tr")
    case None
    then show ?thesis by (simp add: bootstrap_value_def)
  next
    case (Some s)
    from nxt [OF that Some] obtain out where "Network_forward lib target s = Inr out"
      "?g s = Inr (Max (set (out_x out)))" by blast
    with Some show ?thesis
      by (simp add: bootstrap_value_def)
  qed
  have "nat (batch_size cfg) = length trs"
    using len by simp
  then have "masked_assign (replicate (nat (batch_size cfg)) 0)
        (map (\<lambda>tr. next_state tr \<noteq> None) trs) maxes
      = map (\<lambda>tr. case next_state tr of None \<Rightarrow> 0
                  | Some s \<Rightarrow> (case ?g s of Inl e \<Rightarrow> 0 | Inr m \<Rightarrow> m)) trs"
    using masked_assign_batch [OF all2] by simp
  also have "\<dots> = map (bootstrap_value lib target) trs"
    by (rule map_cong) (simp_all add: boot)
  finally have "ex = map (\<lambda>tr. bootstrap_value lib target tr * gamma cfg + reward tr) trs"
    unfolding ex by (simp add: zip_map_same comp_def)
  also have "\<dots> = map (td_target lib cfg target) trs"
    by (simp add: td_target_def mult.commute add.commute)
  finally have "ex = map (td_target lib cfg target) trs" .
  moreover have "case next_state tr of None \<Rightarrow> True
        | Some s \<Rightarrow> (case Network_forward lib target s of Inl e \<Rightarrow> False | Inr out \<Rightarrow> out_x out \<noteq> [])"
    if "tr \<in> set trs" for tr
  proof (cases "next_state tr")
    case None
    then show ?thesis by simp
  next
    case (Some s)
    from nxt [OF that Some] Some show ?thesis by auto
  qed
  ultimately show ?thesis
    using len by (simp add: list_all_iff)
qed

lemma state_action_batch_eq:
  assumes "state_action_batch lib policy trs = Inr (net_return, sav)"
  shows "sav = map (q_taken lib policy) trs
    \<and> list_all (\<lambda>tr. case Network_forward lib policy (state tr) of
          Inl e \<Rightarrow> False | Inr out \<Rightarrow> action tr < length (out_x out)) trs"
proof -
  from assms have fw: "emap (Network_forward lib policy) (map state trs) = Inr net_return"
    and ga: "emap gather (zip (map out_x net_return) (map action trs)) = Inr sav"
    by (simp_all add: state_action_batch_def ebind_Inr_iff)
  have lens: "length net_return = length trs" "length sav = length trs"
    using emap_length [OF fw] emap_length [OF ga] by simp_all
  have pol: "Network_forward lib policy (state (trs ! n)) = Inr (net_return ! n)
      \<and> action (trs ! n) < length (out_x (net_return ! n))
      \<and> sav ! n = out_x (net_return ! n) ! action (trs ! n)" if "n < length trs" for n
  proof -
    have "Network_forward lib policy (map state trs ! n) = Inr (net_return ! n)"
      using emap_nth [OF fw] that by simp
    moreover have "gather (zip (map out_x net_return) (map action trs) ! n) = Inr (sav ! n)"
      using emap_nth [OF ga] that lens by simp
    ultimately show ?thesis
      using that lens by (auto simp: gather_def split: if_splits)
  qed
  have "sav = map (q_taken lib policy) trs"
  proof (rule nth_equalityI)
    show "length sav = length (map (q_taken lib policy) trs)"
      using lens by simp
  next
    fix n assume "n < length sav"
    then have n: "n < length trs" using lens by simp
    from pol [OF n] n show "sav ! n = map (q_taken lib policy) trs ! n"
      by (simp add: q_taken_def)
  qed
  moreover have "case Network_forward lib policy (state tr) of
        Inl e \<Rightarrow> False | Inr out \<Rightarrow> action tr < length (out_x out)" if "tr \<in> set trs" for tr
  proof -
    from that obtain n where n: "n < length trs" "tr = trs ! n"
      by (auto simp: in_set_conv_nth)
    from pol [OF n(1)] n(2) show ?thesis by simp
  qed
  ultimately show ?thesis
    by (simp add: list_all_iff)
qed

text \<open>
  What a completed pass through lines 144 to 178 returns: the loss of the action values,
  the outputs of the policy network on the batch and the next actions and next states.
\<close>

lemma td_loss_Inr:
  assumes "td_loss lib cfg need policy target trs = Inr (net_return, nexts, l)"
  shows "int (length trs) = batch_size cfg \<and> trs \<noteq> []
    \<and> list_all (evaluates lib policy target) trs
    \<and> l = (\<Sum>tr\<leftarrow>trs. (q_taken lib policy tr - td_target lib cfg target tr)\<^sup>2) / real (length trs)
    \<and> next_batches need trs = Inr nexts
    \<and> emap (Network_forward lib policy) (map state trs) = Inr net_return"
proof -
  from assms have ne: "trs \<noteq> []"
    by (cases "trs = []") (simp_all add: td_loss_def)
  with assms obtain nf sav ex where
    nf: "cat (filter (\<lambda>s. s \<noteq> None) (map next_state trs)) = Inr nf"
    and nb: "next_batches need trs = Inr nexts"
    and sa: "state_action_batch lib policy trs = Inr (net_return, sav)"
    and ex: "expected_state_action_batch lib cfg target nf trs = Inr ex"
    and ms: "MSELoss sav ex = Inr l"
    unfolding td_loss_def
    by (simp add: ebind_Inr_iff del: not_None_eq) blast
  have "nf = somes (map next_state trs)"
    using nf by (rule cat_filter_Inr)
  with ex have ex': "int (length trs) = batch_size cfg" "ex = map (td_target lib cfg target) trs"
    "list_all (\<lambda>tr. case next_state tr of None \<Rightarrow> True
          | Some s \<Rightarrow> (case Network_forward lib target s of
              Inl e \<Rightarrow> False | Inr out \<Rightarrow> out_x out \<noteq> [])) trs"
    using expected_state_action_batch_eq by blast+
  from state_action_batch_eq [OF sa] have sa': "sav = map (q_taken lib policy) trs"
    "list_all (\<lambda>tr. case Network_forward lib policy (state tr) of
          Inl e \<Rightarrow> False | Inr out \<Rightarrow> action tr < length (out_x out)) trs"
    by blast+
  from ms have "l = (\<Sum>tr\<leftarrow>trs. (q_taken lib policy tr - td_target lib cfg target tr)\<^sup>2)
      / real (length trs)"
    unfolding sa'(1) ex'(2) by (simp add: MSELoss_map)
  moreover have "list_all (evaluates lib policy target) trs"
    using sa'(2) ex'(3) by (simp add: list_all_iff evaluates_def)
  moreover have "emap (Network_forward lib policy) (map state trs) = Inr net_return"
    using sa by (simp add: state_action_batch_def ebind_Inr_iff)
  ultimately show ?thesis
    using ne ex'(1) nb by simp
qed

lemma optimize_runs:
  assumes "batch_size cfg \<le> int (length (items (memory a)))"
    and "optimize lib w cfg a = Inr a'"
    and "trs = fst (memory_sample w (rng a) (items (memory a)) (batch_size cfg))"
  shows "\<exists>r. loss lib cfg (need_next a) (target_net a) trs (policy_net a) = Inr r
    \<and> rng a' = snd (memory_sample w (rng a) (items (memory a)) (batch_size cfg))
    \<and> optimizer a'
        = fst (optimizer_step w (optimizer a) (loss lib cfg (need_next a) (target_net a) trs)
                 (policy_net a))
    \<and> policy_net a'
        = snd (optimizer_step w (optimizer a) (loss lib cfg (need_next a) (target_net a) trs)
                 (policy_net a))
    \<and> target_net a' = target_net a \<and> memory a' = memory a"
proof -
  obtain g where smp: "memory_sample w (rng a) (items (memory a)) (batch_size cfg) = (trs, g)"
    using assms(3) by (cases "memory_sample w (rng a) (items (memory a)) (batch_size cfg)") simp
  have run: "\<not> int (length (items (memory a))) < batch_size cfg"
    using assms(1) by simp
  show ?thesis
  proof (cases "loss lib cfg (need_next a) (target_net a) trs (policy_net a)")
    case (Inl e)
    with assms(2) run smp show ?thesis
      by (simp add: optimize_def)
  next
    case (Inr r)
    with assms(2) run smp show ?thesis
      by (auto simp: optimize_def case_prod_beta)
  qed
qed

lemma optimize_raises:
  assumes "batch_size cfg \<le> int (length (items (memory a)))"
    and "loss lib cfg (need_next a) (target_net a)
           (fst (memory_sample w (rng a) (items (memory a)) (batch_size cfg))) (policy_net a) = Inl e"
  shows "optimize lib w cfg a = Inl e"
  using assms by (simp add: optimize_def case_prod_beta)

lemma loss_td_loss:
  assumes "loss lib cfg need target trs policy = Inr r"
  shows "\<exists>net_return nexts l. td_loss lib cfg need policy target trs = Inr (net_return, nexts, l)
    \<and> (transfer cfg \<or> arg_use_aux cfg = None \<longrightarrow> r = l)"
proof -
  from assms obtain res where td: "td_loss lib cfg need policy target trs = Inr res"
    unfolding loss_def by (elim ebindE)
  obtain net_return nexts l where res: "res = (net_return, nexts, l)"
    by (cases res)
  have "r = l" if "transfer cfg \<or> arg_use_aux cfg = None"
  proof (cases "transfer cfg")
    case True
    from assms td res show ?thesis
      by (simp add: loss_def ebind_def True)
  next
    case False
    with that have none: "arg_use_aux cfg = None" by simp
    from assms td res show ?thesis
      by (simp add: loss_def ebind_def False none)
  qed
  with td res show ?thesis by auto
qed







subsection \<open>The auxiliary loss of the virtual value function\<close>

lemma cat_Inr: "cat xs = Inr ys \<Longrightarrow> xs = map Some ys"
proof -
  assume "cat xs = Inr ys"
  then have "list_all2 (\<lambda>x y. (case x of None \<Rightarrow> Inl TypeError | Some z \<Rightarrow> Inr z) = Inr y) xs ys"
    by (simp add: cat_def emap_Inr_iff split: if_splits)
  then have "list_all2 (\<lambda>x y. x = Some y) xs ys"
    by (rule list_all2_mono) (simp split: option.splits)
  then show ?thesis
    by (induction rule: list_all2_induct) simp_all
qed

lemma aux_rows_nth:
  "aux_rows outs = Inr rows \<Longrightarrow> n < length outs \<Longrightarrow> out_aux (outs ! n) = Some (rows ! n)"
proof -
  assume a: "aux_rows outs = Inr rows" "n < length outs"
  then have "(case out_aux (outs ! n) of None \<Rightarrow> Inl TypeError | Some v \<Rightarrow> Inr v) = Inr (rows ! n)"
    unfolding aux_rows_def by (rule emap_nth)
  then show ?thesis
    by (simp split: option.splits)
qed

lemma gather_Inr: "gather (row, i) = Inr v \<Longrightarrow> i < length row \<and> v = row ! i"
  by (auto simp: gather_def split: if_splits)

lemma vvf_loss_Inr:
  assumes fw: "emap (Network_forward lib policy) (map state trs) = Inr net_return"
    and nb: "next_batches need trs = Inr nexts"
    and vv: "vvf_loss lib cfg target net_return nexts trs l = Inr r"
  shows "need \<and> list_all (aux_evaluates lib policy target) trs
    \<and> r = l + (\<Sum>tr\<leftarrow>trs. (aux_taken lib policy tr - virtual_target lib cfg target tr)\<^sup>2)
               / real (length trs)"
proof -
  from vv obtain vrb rows avs where
    vr: "cat (map virtual_reward trs) = Inr vrb"
    and ar: "aux_rows net_return = Inr rows"
    and ga: "emap gather (zip rows (map action trs)) = Inr avs"
    and rest: "(case nexts of
       None \<Rightarrow> Inl NameError
     | Some (next_action_batch, next_state_batch) \<Rightarrow>
         ebind (target_aux_gather lib target next_state_batch next_action_batch)
           (\<lambda>next_state_virtual_action_values.
         let bootstraped_value =
               map (\<lambda>(vr, v). vr + gamma cfg * v)
                 (zip vrb next_state_virtual_action_values)
         in ebind (MSELoss avs bootstraped_value) (\<lambda>m. Inr (l + m)))) = Inr r"
    unfolding vvf_loss_def by (simp add: ebind_Inr_iff) blast
  from rest obtain nab nsb where nexts: "nexts = Some (nab, nsb)"
    by (cases nexts) auto
  with rest obtain nv m where
    tg: "target_aux_gather lib target nsb nab = Inr nv"
    and ms: "MSELoss avs (map (\<lambda>(vr, v). vr + gamma cfg * v) (zip vrb nv)) = Inr m"
    and r: "r = l + m"
    by (auto simp: ebind_Inr_iff Let_def)
  from nb nexts have need: need
    and na: "cat (map next_action trs) = Inr nab"
    and ns: "cat (map next_state trs) = Inr nsb"
    by (auto simp: next_batches_def ebind_Inr_iff split: if_splits)
  from tg obtain outs trows where
    tf: "emap (Network_forward lib target) nsb = Inr outs"
    and tr: "aux_rows outs = Inr trows"
    and tgs: "emap gather (zip trows nab) = Inr nv"
    by (auto simp: target_aux_gather_def ebind_Inr_iff)
  note vr' = cat_Inr [OF vr] and na' = cat_Inr [OF na] and ns' = cat_Inr [OF ns]
  have lens: "length net_return = length trs" "length rows = length trs" "length avs = length trs"
    "length vrb = length trs" "length nab = length trs" "length nsb = length trs"
    "length outs = length trs" "length trows = length trs" "length nv = length trs"
  proof -
    show a: "length net_return = length trs"
      using emap_length [OF fw] by simp
    show b: "length rows = length trs"
      using emap_length [OF ar [unfolded aux_rows_def]] a by simp
    show "length avs = length trs"
      using emap_length [OF ga] b by simp
    show "length vrb = length trs"
      using vr' by (metis length_map)
    show c: "length nab = length trs"
      using na' by (metis length_map)
    show d: "length nsb = length trs"
      using ns' by (metis length_map)
    show e: "length outs = length trs"
      using emap_length [OF tf] d by simp
    show f: "length trows = length trs"
      using emap_length [OF tr [unfolded aux_rows_def]] e by simp
    show "length nv = length trs"
      using emap_length [OF tgs] f c by simp
  qed
  have el: "Network_forward lib policy (state (trs ! n)) = Inr (net_return ! n)
      \<and> out_aux (net_return ! n) = Some (rows ! n)
      \<and> action (trs ! n) < length (rows ! n)
      \<and> avs ! n = rows ! n ! action (trs ! n)
      \<and> virtual_reward (trs ! n) = Some (vrb ! n)
      \<and> next_action (trs ! n) = Some (nab ! n)
      \<and> next_state (trs ! n) = Some (nsb ! n)
      \<and> Network_forward lib target (nsb ! n) = Inr (outs ! n)
      \<and> out_aux (outs ! n) = Some (trows ! n)
      \<and> nab ! n < length (trows ! n)
      \<and> nv ! n = trows ! n ! (nab ! n)" if n: "n < length trs" for n
  proof -
    have "Network_forward lib policy (map state trs ! n) = Inr (net_return ! n)"
      using emap_nth [OF fw] n by simp
    then have 1: "Network_forward lib policy (state (trs ! n)) = Inr (net_return ! n)"
      using n by simp
    have 2: "out_aux (net_return ! n) = Some (rows ! n)"
      using aux_rows_nth [OF ar] n lens by simp
    have "gather (zip rows (map action trs) ! n) = Inr (avs ! n)"
      using emap_nth [OF ga] n lens by simp
    then have "gather (rows ! n, action (trs ! n)) = Inr (avs ! n)"
      using n lens by simp
    then have 3: "action (trs ! n) < length (rows ! n)" "avs ! n = rows ! n ! action (trs ! n)"
      using gather_Inr by blast+
    have "map virtual_reward trs ! n = map Some vrb ! n"
      "map next_action trs ! n = map Some nab ! n"
      "map next_state trs ! n = map Some nsb ! n"
      using vr' na' ns' by simp_all
    then have 4: "virtual_reward (trs ! n) = Some (vrb ! n)"
      "next_action (trs ! n) = Some (nab ! n)" "next_state (trs ! n) = Some (nsb ! n)"
      using n lens by simp_all
    have 5: "Network_forward lib target (nsb ! n) = Inr (outs ! n)"
      using emap_nth [OF tf] n lens by simp
    have 6: "out_aux (outs ! n) = Some (trows ! n)"
      using aux_rows_nth [OF tr] n lens by simp
    have "gather (zip trows nab ! n) = Inr (nv ! n)"
      using emap_nth [OF tgs] n lens by simp
    then have "gather (trows ! n, nab ! n) = Inr (nv ! n)"
      using n lens by simp
    then have 7: "nab ! n < length (trows ! n)" "nv ! n = trows ! n ! (nab ! n)"
      using gather_Inr by blast+
    from 1 2 3 4 5 6 7 show ?thesis by simp
  qed
  have avs: "avs = map (aux_taken lib policy) trs"
  proof (rule nth_equalityI)
    show "length avs = length (map (aux_taken lib policy) trs)"
      using lens by simp
  next
    fix n assume "n < length avs"
    then have n: "n < length trs" using lens by simp
    from el [OF n] n show "avs ! n = map (aux_taken lib policy) trs ! n"
      by (simp add: aux_taken_def)
  qed
  have bs: "map (\<lambda>(vr, v). vr + gamma cfg * v) (zip vrb nv) = map (virtual_target lib cfg target) trs"
  proof (rule nth_equalityI)
    show "length (map (\<lambda>(vr, v). vr + gamma cfg * v) (zip vrb nv))
        = length (map (virtual_target lib cfg target) trs)"
      using lens by simp
  next
    fix n assume "n < length (map (\<lambda>(vr, v). vr + gamma cfg * v) (zip vrb nv))"
    then have n: "n < length trs" using lens by simp
    from el [OF n] n lens
    show "map (\<lambda>(vr, v). vr + gamma cfg * v) (zip vrb nv) ! n
        = map (virtual_target lib cfg target) trs ! n"
      by (simp add: virtual_target_def aux_bootstrap_value_def)
  qed
  have "aux_evaluates lib policy target tr" if "tr \<in> set trs" for tr
  proof -
    from that obtain n where n: "n < length trs" "tr = trs ! n"
      by (auto simp: in_set_conv_nth)
    from el [OF n(1)] n(2) show ?thesis
      by (simp add: aux_evaluates_def)
  qed
  moreover from ms have "m = (\<Sum>tr\<leftarrow>trs. (aux_taken lib policy tr - virtual_target lib cfg target tr)\<^sup>2)
      / real (length trs)"
    unfolding avs bs by (simp add: MSELoss_map)
  ultimately show ?thesis
    using need r by (simp add: list_all_iff)
qed

lemma loss_vvf:
  assumes "loss lib cfg need target trs policy = Inr r" "\<not> transfer cfg"
    "arg_use_aux cfg = Some ''virtual-reward-1'' \<or> arg_use_aux cfg = Some ''virtual-reward-5''"
  shows "\<exists>net_return nexts l. td_loss lib cfg need policy target trs = Inr (net_return, nexts, l)
    \<and> vvf_loss lib cfg target net_return nexts trs l = Inr r"
  using assms unfolding loss_def
  by (auto simp: ebind_Inr_iff)

lemma loss_vvf_Inr:
  assumes "loss lib cfg need target trs policy = Inr r"
    "arg_use_aux cfg = Some ''virtual-reward-1'' \<or> arg_use_aux cfg = Some ''virtual-reward-5''"
  shows "int (length trs) = batch_size cfg \<and> trs \<noteq> []
    \<and> list_all (evaluates lib policy target) trs
    \<and> (transfer cfg \<longrightarrow>
         r = (\<Sum>tr\<leftarrow>trs. (q_taken lib policy tr - td_target lib cfg target tr)\<^sup>2) / real (length trs))
    \<and> (\<not> transfer cfg \<longrightarrow>
         need \<and> list_all (aux_evaluates lib policy target) trs
         \<and> r = (\<Sum>tr\<leftarrow>trs. (q_taken lib policy tr - td_target lib cfg target tr)\<^sup>2) / real (length trs)
             + (\<Sum>tr\<leftarrow>trs. (aux_taken lib policy tr - virtual_target lib cfg target tr)\<^sup>2)
                 / real (length trs))"
proof (cases "transfer cfg")
  case True
  from loss_td_loss [OF assms(1)] True obtain net_return nexts where
    "td_loss lib cfg need policy target trs = Inr (net_return, nexts, r)"
    by blast
  from td_loss_Inr [OF this] True show ?thesis
    by simp
next
  case False
  from loss_vvf [OF assms(1) False assms(2)] obtain net_return nexts l where
    td: "td_loss lib cfg need policy target trs = Inr (net_return, nexts, l)"
    and vv: "vvf_loss lib cfg target net_return nexts trs l = Inr r"
    by blast
  note a = td_loss_Inr [OF td]
  from a have fw: "emap (Network_forward lib policy) (map state trs) = Inr net_return"
    and nb: "next_batches need trs = Inr nexts"
    by blast+
  note b = vvf_loss_Inr [OF fw nb vv]
  from a b False show ?thesis
    by simp
qed

text \<open>
  C3. An optimization step for the task \<open>virtual-reward-1\<close> or \<open>virtual-reward-5\<close>, on a
  memory that holds at least \<open>batch_size\<close> transitions, returns only if the loss of the
  sampled batch is computed, and it hands this loss to the optimizer. The first term of
  the loss is the batch mean of the squared difference between the policy network's
  action value at the action taken and \<open>reward + gamma * b\<close>, where \<open>b\<close> is 0 for a
  transition without next state and the largest action value of the target network at
  the next state otherwise; this target does not depend on the stored next action. On
  a transfer run that is the whole loss. Otherwise the agent reads the next actions,
  every transition of the batch holds a next state, a next action and a virtual reward,
  and a second term is added: the batch mean of the squared difference between the
  policy network's auxiliary action value at the action taken and
  \<open>virtual_reward + gamma * v\<close>, where \<open>v\<close> is the auxiliary action value of the target
  network at the next state, read at the stored next action.
\<close>

theorem vvf_loss_gathers_next_action:
  assumes "batch_size cfg \<le> int (length (items (memory a)))"
    and "optimize lib w cfg a = Inr a'"
    and "trs = fst (memory_sample w (rng a) (items (memory a)) (batch_size cfg))"
    and "arg_use_aux cfg = Some ''virtual-reward-1'' \<or> arg_use_aux cfg = Some ''virtual-reward-5''"
  shows "(\<exists>r. loss lib cfg (need_next a) (target_net a) trs (policy_net a) = Inr r
      \<and> (transfer cfg \<longrightarrow>
           r = (\<Sum>tr\<leftarrow>trs. (q_taken lib (policy_net a) tr - td_target lib cfg (target_net a) tr)\<^sup>2)
                 / real (length trs))
      \<and> (\<not> transfer cfg \<longrightarrow>
           need_next a \<and> list_all (aux_evaluates lib (policy_net a) (target_net a)) trs
           \<and> r = (\<Sum>tr\<leftarrow>trs. (q_taken lib (policy_net a) tr - td_target lib cfg (target_net a) tr)\<^sup>2)
                   / real (length trs)
               + (\<Sum>tr\<leftarrow>trs. (aux_taken lib (policy_net a) tr
                              - virtual_target lib cfg (target_net a) tr)\<^sup>2)
                   / real (length trs)))
    \<and> int (length trs) = batch_size cfg \<and> trs \<noteq> []
    \<and> list_all (evaluates lib (policy_net a) (target_net a)) trs
    \<and> policy_net a'
        = snd (optimizer_step w (optimizer a) (loss lib cfg (need_next a) (target_net a) trs)
                 (policy_net a))
    \<and> td_target lib cfg (target_net a) (tr\<lparr>next_action := na\<rparr>) = td_target lib cfg (target_net a) tr"
proof -
  from optimize_runs [OF assms(1-3)] obtain r where
    r: "loss lib cfg (need_next a) (target_net a) trs (policy_net a) = Inr r"
    and a': "policy_net a'
        = snd (optimizer_step w (optimizer a) (loss lib cfg (need_next a) (target_net a) trs)
                 (policy_net a))"
    by blast
  note b = loss_vvf_Inr [OF r assms(4)]
  have "td_target lib cfg (target_net a) (tr\<lparr>next_action := na\<rparr>) = td_target lib cfg (target_net a) tr"
    by (simp add: td_target_def bootstrap_value_def)
  with r a' b show ?thesis
    by blast
qed

lemma ex_params_v1:
  "param (Network_init i False (Some ''virtual-reward-1'')) ''rep_net.conv1.weight''
     = Inr (mk_tensor [32, 3, 4, 4] (i ''rep_net.conv1.weight''))"
  "param (Network_init i False (Some ''virtual-reward-1'')) ''rep_net.conv1.bias''
     = Inr (mk_tensor [32] (i ''rep_net.conv1.bias''))"
  "param (Network_init i False (Some ''virtual-reward-1'')) ''rep_net.conv2.weight''
     = Inr (mk_tensor [16, 32, 4, 4] (i ''rep_net.conv2.weight''))"
  "param (Network_init i False (Some ''virtual-reward-1'')) ''rep_net.conv2.bias''
     = Inr (mk_tensor [16] (i ''rep_net.conv2.bias''))"
  "param (Network_init i False (Some ''virtual-reward-1'')) ''rep_net.fc1.weight''
     = Inr (mk_tensor [32, 1024] (i ''rep_net.fc1.weight''))"
  "param (Network_init i False (Some ''virtual-reward-1'')) ''rep_net.fc1.bias''
     = Inr (mk_tensor [32] (i ''rep_net.fc1.bias''))"
  "param (Network_init i False (Some ''virtual-reward-1'')) ''q_network_fc1.weight''
     = Inr (mk_tensor [64, 32] (i ''q_network_fc1.weight''))"
  "param (Network_init i False (Some ''virtual-reward-1'')) ''q_network_fc1.bias''
     = Inr (mk_tensor [64] (i ''q_network_fc1.bias''))"
  "param (Network_init i False (Some ''virtual-reward-1'')) ''q_network_fc2.weight''
     = Inr (mk_tensor [64, 64] (i ''q_network_fc2.weight''))"
  "param (Network_init i False (Some ''virtual-reward-1'')) ''q_network_fc2.bias''
     = Inr (mk_tensor [64] (i ''q_network_fc2.bias''))"
  "param (Network_init i False (Some ''virtual-reward-1'')) ''aux_network.q_network_fc1.weight''
     = Inr (mk_tensor [64, 32] (i ''aux_network.q_network_fc1.weight''))"
  "param (Network_init i False (Some ''virtual-reward-1'')) ''aux_network.q_network_fc1.bias''
     = Inr (mk_tensor [64] (i ''aux_network.q_network_fc1.bias''))"
  "param (Network_init i False (Some ''virtual-reward-1'')) ''aux_network.q_network_fc2.weight''
     = Inr (mk_tensor [64, 64] (i ''aux_network.q_network_fc2.weight''))"
  "param (Network_init i False (Some ''virtual-reward-1'')) ''aux_network.q_network_fc2.bias''
     = Inr (mk_tensor [64] (i ''aux_network.q_network_fc2.bias''))"
  "param (Network_init i False (Some ''virtual-reward-1'')) ''aux_network.q_network_fc3.weight''
     = Inr (mk_tensor [4, 64] (i ''aux_network.q_network_fc3.weight''))"
  "param (Network_init i False (Some ''virtual-reward-1'')) ''aux_network.q_network_fc3.bias''
     = Inr (mk_tensor [4] (i ''aux_network.q_network_fc3.bias''))"
  by (simp_all add: param_def Network_init_def module_defs VirtualValueFunction_def)

lemma ex_init_aux_bias: "map (ex_init ''aux_network.q_network_fc3.bias'') [0..<4] = [0, 1, 2, 3]"
  by (simp add: ex_init_def upt_rec)

lemma ex_rep_forward_v1:
  "RepresentationNetwork_forward ex_lib (Network_init ex_init False (Some ''virtual-reward-1''))
     ''rep_net'' s = Inr (replicate 32 0)"
  by (simp add: RepresentationNetwork_forward_def conv_def linear_def ebind_def ex_params_v1
      ex_lib_def F_linear_ex_init ex_init_zero relu_def Network_init_attrs)

lemma ex_aux_forward_v1:
  "aux_forward ex_lib (Network_init ex_init False (Some ''virtual-reward-1'')) (replicate 32 0)
     = Inr (Some [0, 1, 2, 3], None)"
  by (simp add: aux_forward_def VirtualValueFunction_forward_def linear_def ebind_def
      ex_params_v1 F_linear_ex_init ex_init_zero ex_init_aux_bias relu_def Network_init_attrs)

lemma ex_forward_v1:
  "Network_forward ex_lib (Network_init ex_init False (Some ''virtual-reward-1'')) s
     = Inr \<lparr>out_x = [0, 1, 2, 3], out_aux = Some [0, 1, 2, 3], out_rep = replicate 32 0,
            out_next_rep = None\<rparr>"
  by (simp add: Network_forward_def ex_rep_forward_v1 ex_aux_forward_v1 linear_def ebind_def
      ex_params_v1 param_q_network_fc3 F_linear_ex_init ex_init_zero ex_init_bias relu_def)

lemma ex_cfg_v1_fields:
  "batch_size ex_cfg_v1 = 2" "gamma ex_cfg_v1 = 99 / 100" "transfer ex_cfg_v1 = False"
  "arg_use_aux ex_cfg_v1 = Some ''virtual-reward-1''" "arg_use_fta ex_cfg_v1 = False"
  by (simp_all add: ex_cfg_v1_def ex_cfg_def)

lemma ex_cfg_transfer_fields:
  "batch_size ex_cfg_transfer = 2" "gamma ex_cfg_transfer = 99 / 100"
  "transfer ex_cfg_transfer = True"
  "arg_use_aux ex_cfg_transfer = Some ''virtual-reward-1''" "arg_use_fta ex_cfg_transfer = False"
  by (simp_all add: ex_cfg_transfer_def ex_cfg_def)

lemma ex_td_loss_v1:
  assumes "batch_size cfg = 2" "gamma cfg = 99 / 100"
  shows "td_loss ex_lib cfg True (Network_init ex_init False (Some ''virtual-reward-1''))
     (Network_init ex_init False (Some ''virtual-reward-1'')) ex_batch_v1
     = Inr ([\<lparr>out_x = [0, 1, 2, 3], out_aux = Some [0, 1, 2, 3], out_rep = replicate 32 0,
              out_next_rep = None\<rparr>,
             \<lparr>out_x = [0, 1, 2, 3], out_aux = Some [0, 1, 2, 3], out_rep = replicate 32 0,
              out_next_rep = None\<rparr>],
            Some ([Suc 0, 0], [ex_state, ex_state]),
            ((1 - 397 / 100)\<^sup>2 + (2 - 297 / 100)\<^sup>2) / 2)"
  by (simp add: td_loss_def ex_batch_v1_def cat_def next_batches_def state_action_batch_def
      expected_state_action_batch_def ebind_def ex_forward_v1 gather_def row_max_def
      MSELoss_def assms Let_def eval_nat_numeral)

lemma ex_vvf_loss_v1:
  assumes "gamma cfg = 99 / 100"
  shows "vvf_loss ex_lib cfg (Network_init ex_init False (Some ''virtual-reward-1''))
     [\<lparr>out_x = [0, 1, 2, 3], out_aux = Some [0, 1, 2, 3], out_rep = replicate 32 0,
       out_next_rep = None\<rparr>,
      \<lparr>out_x = [0, 1, 2, 3], out_aux = Some [0, 1, 2, 3], out_rep = replicate 32 0,
       out_next_rep = None\<rparr>]
     (Some ([Suc 0, 0], [ex_state, ex_state])) ex_batch_v1 l
     = Inr (l + ((1 - 199 / 100)\<^sup>2 + (2 - 0)\<^sup>2) / 2)"
  by (simp add: vvf_loss_def ex_batch_v1_def cat_def aux_rows_def target_aux_gather_def ebind_def
      ex_forward_v1 gather_def MSELoss_def assms Let_def eval_nat_numeral)

lemma ex_loss_v1:
  "loss ex_lib ex_cfg_v1 True (Network_init ex_init False (Some ''virtual-reward-1'')) ex_batch_v1
     (Network_init ex_init False (Some ''virtual-reward-1''))
     = Inr (((1 - 397 / 100)\<^sup>2 + (2 - 297 / 100)\<^sup>2) / 2 + ((1 - 199 / 100)\<^sup>2 + (2 - 0)\<^sup>2) / 2)"
  by (simp add: loss_def ex_td_loss_v1 ex_vvf_loss_v1 ebind_def ex_cfg_v1_fields)

lemma ex_loss_transfer:
  "loss ex_lib ex_cfg_transfer True (Network_init ex_init False (Some ''virtual-reward-1''))
     ex_batch_v1 (Network_init ex_init False (Some ''virtual-reward-1''))
     = Inr (((1 - 397 / 100)\<^sup>2 + (2 - 297 / 100)\<^sup>2) / 2)"
  by (simp add: loss_def ex_td_loss_v1 ebind_def ex_cfg_transfer_fields)

lemma ex_optimize_v1:
  assumes cfg: "batch_size cfg = 2" "arg_use_fta cfg = False"
      "arg_use_aux cfg = Some ''virtual-reward-1''"
    and l: "loss ex_lib cfg True (Network_init ex_init False (Some ''virtual-reward-1''))
      ex_batch_v1 (Network_init ex_init False (Some ''virtual-reward-1'')) = Inr r"
  shows "optimize ex_lib ex_world cfg (ex_replay cfg ex_batch_v1)
     = Inr ((ex_replay cfg ex_batch_v1)\<lparr>rng := Suc 0\<rparr>)"
proof -
  have len: "length ex_batch_v1 = 2"
    by (simp add: ex_batch_v1_def)
  have smp: "memory_sample ex_world 0 ex_batch_v1 2 = (ex_batch_v1, Suc 0)"
    by (simp add: ex_world_fields ex_batch_v1_def)
  have same: "(ex_replay cfg ex_batch_v1)\<lparr>rng := Suc 0, optimizer := (),
        policy_net := Network_init ex_init False (Some ''virtual-reward-1'')\<rparr>
      = (ex_replay cfg ex_batch_v1)\<lparr>rng := Suc 0\<rparr>"
    by (simp add: ex_replay_def ex_agent_def cfg)
  show ?thesis
    unfolding optimize_def
    by (simp add: len smp Let_def ex_replay_fields cfg l ex_world_fields(2) same)
qed

text \<open>
  On the memory that holds \<open>ex_batch_v1\<close> the step samples both transitions and returns.
  Both heads of the target network return 0, 1, 2, 3 at the next state. The auxiliary
  targets are \<open>1 + gamma * 1\<close> and \<open>0 + gamma * 0\<close>, the values at the stored next actions 1
  and 0; the primary targets are \<open>1 + gamma * 3\<close> and \<open>0 + gamma * 3\<close>, the largest value.
  On the transfer run the loss is the first term alone.
\<close>

theorem vvf_loss_gathers_next_action_witness:
  "batch_size ex_cfg_v1 \<le> int (length (items (memory (ex_replay ex_cfg_v1 ex_batch_v1))))
   \<and> optimize ex_lib ex_world ex_cfg_v1 (ex_replay ex_cfg_v1 ex_batch_v1)
       = Inr ((ex_replay ex_cfg_v1 ex_batch_v1)\<lparr>rng := Suc 0\<rparr>)
   \<and> fst (memory_sample ex_world (rng (ex_replay ex_cfg_v1 ex_batch_v1))
            (items (memory (ex_replay ex_cfg_v1 ex_batch_v1))) (batch_size ex_cfg_v1)) = ex_batch_v1
   \<and> \<not> transfer ex_cfg_v1 \<and> arg_use_aux ex_cfg_v1 = Some ''virtual-reward-1''
   \<and> need_next (ex_replay ex_cfg_v1 ex_batch_v1)
   \<and> loss ex_lib ex_cfg_v1 True (Network_init ex_init False (Some ''virtual-reward-1'')) ex_batch_v1
        (Network_init ex_init False (Some ''virtual-reward-1''))
       = Inr (((1 - 397 / 100)\<^sup>2 + (2 - 297 / 100)\<^sup>2) / 2 + ((1 - 199 / 100)\<^sup>2 + (2 - 0)\<^sup>2) / 2)
   \<and> map (q_taken ex_lib (Network_init ex_init False (Some ''virtual-reward-1''))) ex_batch_v1 = [1, 2]
   \<and> map (td_target ex_lib ex_cfg_v1 (Network_init ex_init False (Some ''virtual-reward-1'')))
        ex_batch_v1 = [397 / 100, 297 / 100]
   \<and> map (aux_taken ex_lib (Network_init ex_init False (Some ''virtual-reward-1''))) ex_batch_v1
        = [1, 2]
   \<and> map (virtual_target ex_lib ex_cfg_v1 (Network_init ex_init False (Some ''virtual-reward-1'')))
        ex_batch_v1 = [199 / 100, 0]
   \<and> map next_action ex_batch_v1 = [Some 1, Some 0]
   \<and> list_all (aux_evaluates ex_lib (Network_init ex_init False (Some ''virtual-reward-1''))
        (Network_init ex_init False (Some ''virtual-reward-1''))) ex_batch_v1
   \<and> transfer ex_cfg_transfer \<and> arg_use_aux ex_cfg_transfer = Some ''virtual-reward-1''
   \<and> optimize ex_lib ex_world ex_cfg_transfer (ex_replay ex_cfg_transfer ex_batch_v1)
       = Inr ((ex_replay ex_cfg_transfer ex_batch_v1)\<lparr>rng := Suc 0\<rparr>)
   \<and> loss ex_lib ex_cfg_transfer True (Network_init ex_init False (Some ''virtual-reward-1''))
        ex_batch_v1 (Network_init ex_init False (Some ''virtual-reward-1''))
       = Inr (((1 - 397 / 100)\<^sup>2 + (2 - 297 / 100)\<^sup>2) / 2)"
proof -
  let ?n = "Network_init ex_init False (Some ''virtual-reward-1'')"
  have len: "batch_size ex_cfg_v1 \<le> int (length (items (memory (ex_replay ex_cfg_v1 ex_batch_v1))))"
    "batch_size ex_cfg_transfer
       \<le> int (length (items (memory (ex_replay ex_cfg_transfer ex_batch_v1))))"
    by (simp_all add: ex_replay_fields ex_cfg_v1_fields ex_cfg_transfer_fields ex_batch_v1_def)
  have smp: "ex_batch_v1 = fst (memory_sample ex_world (rng (ex_replay ex_cfg_v1 ex_batch_v1))
      (items (memory (ex_replay ex_cfg_v1 ex_batch_v1))) (batch_size ex_cfg_v1))"
    "ex_batch_v1 = fst (memory_sample ex_world (rng (ex_replay ex_cfg_transfer ex_batch_v1))
      (items (memory (ex_replay ex_cfg_transfer ex_batch_v1))) (batch_size ex_cfg_transfer))"
    by (simp_all add: ex_replay_fields ex_cfg_v1_fields ex_cfg_transfer_fields ex_world_fields
        ex_batch_v1_def)
  have opt: "optimize ex_lib ex_world ex_cfg_v1 (ex_replay ex_cfg_v1 ex_batch_v1)
       = Inr ((ex_replay ex_cfg_v1 ex_batch_v1)\<lparr>rng := Suc 0\<rparr>)"
    by (rule ex_optimize_v1 [OF _ _ _ ex_loss_v1]) (simp_all add: ex_cfg_v1_fields)
  have opt': "optimize ex_lib ex_world ex_cfg_transfer (ex_replay ex_cfg_transfer ex_batch_v1)
       = Inr ((ex_replay ex_cfg_transfer ex_batch_v1)\<lparr>rng := Suc 0\<rparr>)"
    by (rule ex_optimize_v1 [OF _ _ _ ex_loss_transfer]) (simp_all add: ex_cfg_transfer_fields)
  have q: "map (q_taken ex_lib ?n) ex_batch_v1 = [1, 2]"
    by (simp add: q_taken_def ex_batch_v1_def ex_forward_v1)
  have t: "map (td_target ex_lib ex_cfg_v1 ?n) ex_batch_v1 = [397 / 100, 297 / 100]"
    by (simp add: td_target_def bootstrap_value_def ex_batch_v1_def ex_forward_v1 ex_cfg_v1_fields)
  have a: "map (aux_taken ex_lib ?n) ex_batch_v1 = [1, 2]"
    by (simp add: aux_taken_def ex_batch_v1_def ex_forward_v1)
  have v: "map (virtual_target ex_lib ex_cfg_v1 ?n) ex_batch_v1 = [199 / 100, 0]"
    by (simp add: virtual_target_def aux_bootstrap_value_def ex_batch_v1_def ex_forward_v1
        ex_cfg_v1_fields)
  have n: "map next_action ex_batch_v1 = [Some 1, Some 0]"
    by (simp add: ex_batch_v1_def)
  have var: "arg_use_aux ex_cfg_v1 = Some ''virtual-reward-1''
      \<or> arg_use_aux ex_cfg_v1 = Some ''virtual-reward-5''"
    "arg_use_aux ex_cfg_transfer = Some ''virtual-reward-1''
      \<or> arg_use_aux ex_cfg_transfer = Some ''virtual-reward-5''"
    by (simp_all add: ex_cfg_v1_fields ex_cfg_transfer_fields)
  from vvf_loss_gathers_next_action [OF len(1) opt smp(1) var(1)]
  have run: "need_next (ex_replay ex_cfg_v1 ex_batch_v1)
      \<and> list_all (aux_evaluates ex_lib ?n ?n) ex_batch_v1"
    by (auto simp: ex_replay_fields ex_cfg_v1_fields)
  from vvf_loss_gathers_next_action [OF len(2) opt' smp(2) var(2)]
  have "transfer ex_cfg_transfer"
    by (simp add: ex_cfg_transfer_fields)
  with run len smp [symmetric] opt opt' q t a v n ex_loss_v1 ex_loss_transfer show ?thesis
    by (simp add: ex_cfg_v1_fields ex_cfg_transfer_fields)
qed


subsection \<open>The two updates of the target network\<close>

lemma same_shape_entry:
  assumes "same_shape p t" "(k, pv) \<in> set (params p)"
  shows "\<exists>tv. map_of (params t) k = Some tv \<and> (k, tv) \<in> set (params t)
    \<and> dims tv = dims pv \<and> length (vals tv) = length (vals pv)"
proof -
  from assms(2) obtain n where n: "n < length (params p)" "params p ! n = (k, pv)"
    by (auto simp: in_set_conv_nth)
  have keys: "map fst (params p) = map fst (params t)" and dp: "distinct (map fst (params p))"
    and ds: "map (\<lambda>kt. dims (snd kt)) (params p) = map (\<lambda>kt. dims (snd kt)) (params t)"
    and ls: "map (\<lambda>kt. length (vals (snd kt))) (params p) = map (\<lambda>kt. length (vals (snd kt))) (params t)"
    using assms(1) unfolding same_shape_def by blast+
  have dist: "distinct (map fst (params t))"
    using dp keys by simp
  have len: "length (params t) = length (params p)"
    using keys by (metis length_map)
  have "fst (params t ! n) = fst (params p ! n)"
    using keys n(1) len by (metis nth_map)
  moreover have "dims (snd (params t ! n)) = dims (snd (params p ! n))"
    using ds n(1) len by (metis (mono_tags, lifting) nth_map)
  moreover have "length (vals (snd (params t ! n))) = length (vals (snd (params p ! n)))"
    using ls n(1) len by (metis (mono_tags, lifting) nth_map)
  moreover have "params t ! n \<in> set (params t)"
    using n(1) len by simp
  ultimately have "(k, snd (params t ! n)) \<in> set (params t)"
    "dims (snd (params t ! n)) = dims pv" "length (vals (snd (params t ! n))) = length (vals pv)"
    using n(2) by (auto simp: prod_eq_iff)
  moreover from this(1) dist have "map_of (params t) k = Some (snd (params t ! n))"
    by (simp add: map_of_is_SomeI)
  ultimately show ?thesis by blast
qed

lemma tensor_add_soft_mix:
  assumes "dims t = dims p" "length (vals t) = length (vals p)"
  shows "tensor_add (tensor_scale p tau_v) (tensor_scale t (1 - tau_v)) = Inr (soft_mix tau_v p t)"
proof -
  have "map (\<lambda>(x, y). x + y) (zip (map (\<lambda>v. v * tau_v) (vals p)) (map (\<lambda>v. v * (1 - tau_v)) (vals t)))
      = map (\<lambda>(x, y). tau_v * x + (1 - tau_v) * y) (zip (vals p) (vals t))"
    by (simp add: zip_map1 zip_map2 case_prod_beta mult.commute)
  then show ?thesis
    using assms by (simp add: tensor_add_def tensor_scale_def soft_mix_def)
qed

lemma soft_update_loop_Inr:
  assumes "distinct (map fst psd)"
    and "\<And>k p. (k, p) \<in> set psd \<Longrightarrow>
           \<exists>t. map_of tsd k = Some t \<and> dims t = dims p \<and> length (vals t) = length (vals p)"
  shows "\<exists>r. soft_update_loop tau_v psd tsd = Inr r \<and> map fst r = map fst tsd
    \<and> (\<forall>k. map_of r k = (case map_of psd k of
                None \<Rightarrow> map_of tsd k
              | Some p \<Rightarrow> map_option (soft_mix tau_v p) (map_of tsd k)))"
  using assms
proof (induction psd arbitrary: tsd)
  case Nil
  then show ?case by simp
next
  case (Cons kp psd)
  obtain key p where kp: "kp = (key, p)" by (cases kp)
  from Cons.prems(2) [of key p] kp obtain t where
    t: "map_of tsd key = Some t" "dims t = dims p" "length (vals t) = length (vals p)"
    by auto
  let ?tsd = "AList.update key (soft_mix tau_v p t) tsd"
  have fresh: "key \<notin> fst ` set psd" and dist: "distinct (map fst psd)"
    using Cons.prems(1) kp by simp_all
  have pre: "\<exists>t'. map_of ?tsd k = Some t' \<and> dims t' = dims q \<and> length (vals t') = length (vals q)"
    if "(k, q) \<in> set psd" for k q
  proof -
    have "k \<noteq> key" using that fresh by force
    then have "map_of ?tsd k = map_of tsd k"
      by (simp add: update_conv')
    with Cons.prems(2) [of k q] that show ?thesis by simp
  qed
  from Cons.IH [OF dist pre] obtain r where
    r: "soft_update_loop tau_v psd ?tsd = Inr r" "map fst r = map fst ?tsd"
    "\<forall>k. map_of r k = (case map_of psd k of
                None \<Rightarrow> map_of ?tsd k
              | Some q \<Rightarrow> map_option (soft_mix tau_v q) (map_of ?tsd k))"
    by blast
  have run: "soft_update_loop tau_v (kp # psd) tsd = Inr r"
    using kp t r(1) by (simp add: tensor_add_soft_mix)
  have "key \<in> fst ` set tsd"
    using t(1) by (metis domI dom_map_of_conv_image_fst)
  then have keys: "map fst r = map fst tsd"
    using r(2) by (simp add: update_keys)
  have none: "map_of psd key = None"
    using fresh by (simp add: map_of_eq_None_iff)
  have "map_of r k = (case map_of (kp # psd) k of
                None \<Rightarrow> map_of tsd k
              | Some q \<Rightarrow> map_option (soft_mix tau_v q) (map_of tsd k))" for k
  proof (cases "k = key")
    case True
    with r(3) none t(1) kp show ?thesis
      by (simp add: update_conv')
  next
    case False
    with r(3) kp show ?thesis
      by (simp add: update_conv' split: option.splits)
  qed
  with run keys show ?case by blast
qed

lemma map_of_map_keyed:
  "map_of (map (\<lambda>(k, v). (k, f k v)) xs) k = map_option (f k) (map_of xs k)"
  by (induction xs) auto

lemma soft_mix_dims: "dims (soft_mix tau_v p t) = dims t"
  by (simp add: soft_mix_def)

lemma soft_mix_length:
  "length (vals p) = length (vals t) \<Longrightarrow> length (vals (soft_mix tau_v p t)) = length (vals t)"
  by (simp add: soft_mix_def)

lemma map_keyed_eq:
  assumes "\<And>k v. (k, v) \<in> set xs \<Longrightarrow> g (f k v) = g v"
  shows "map (\<lambda>kt. g (snd kt)) (map (\<lambda>(k, v). (k, f k v)) xs) = map (\<lambda>kt. g (snd kt)) xs"
  using assms by (induction xs) auto

lemma soft_update_same_shape:
  assumes "same_shape policy target"
  shows "\<exists>target'. soft_update tau_v policy target = Inr target'
    \<and> same_shape policy target'
    \<and> map fst (state_dict target') = map fst (state_dict target)
    \<and> (\<forall>k p t. map_of (state_dict policy) k = Some p \<longrightarrow> map_of (state_dict target) k = Some t
          \<longrightarrow> map_of (state_dict target') k = Some (soft_mix tau_v p t))"
proof -
  have keys: "map fst (params policy) = map fst (params target)"
    and dp: "distinct (map fst (params policy))"
    and ds: "map (\<lambda>kt. dims (snd kt)) (params policy) = map (\<lambda>kt. dims (snd kt)) (params target)"
    and ls: "map (\<lambda>kt. length (vals (snd kt))) (params policy)
               = map (\<lambda>kt. length (vals (snd kt))) (params target)"
    using assms unfolding same_shape_def by blast+
  have dt: "distinct (map fst (params target))"
    using dp keys by simp
  have "\<exists>t. map_of (params target) k = Some t \<and> dims t = dims p \<and> length (vals t) = length (vals p)"
    if "(k, p) \<in> set (params policy)" for k p
    using same_shape_entry [OF assms that] by blast
  from soft_update_loop_Inr [OF dp this, of tau_v] obtain r where
    r: "soft_update_loop tau_v (params policy) (params target) = Inr r"
    "map fst r = map fst (params target)"
    "\<forall>k. map_of r k = (case map_of (params policy) k of
                None \<Rightarrow> map_of (params target) k
              | Some p \<Rightarrow> map_option (soft_mix tau_v p) (map_of (params target) k))"
    by blast
  \<comment> \<open>what the dictionary holds under the key of a parameter of the target network\<close>
  have entry: "\<exists>p. map_of (params policy) k = Some p \<and> map_of r k = Some (soft_mix tau_v p t)
      \<and> length (vals p) = length (vals t)"
    if "(k, t) \<in> set (params target)" for k t
  proof -
    have t: "map_of (params target) k = Some t"
      using that dt by (simp add: map_of_is_SomeI)
    have "k \<in> fst ` set (params policy)"
      using that keys by (metis fst_conv image_eqI list.set_map)
    then obtain p where p: "(k, p) \<in> set (params policy)" by auto
    then have mp: "map_of (params policy) k = Some p"
      using dp by (simp add: map_of_is_SomeI)
    from same_shape_entry [OF assms p] t have "length (vals p) = length (vals t)"
      by auto
    with r(3) mp t show ?thesis by simp
  qed
  let ?f = "\<lambda>k t. case map_of r k of None \<Rightarrow> t | Some v \<Rightarrow> t\<lparr>vals := vals v\<rparr>"
  have ok: "list_all (\<lambda>(k, t). map_option dims (map_of r k) = Some (dims t)) (params target)"
    unfolding list_all_iff using entry by (fastforce simp: soft_mix_dims)
  have load: "load_state_dict target r = Inr (target\<lparr>params := map (\<lambda>(k, t). (k, ?f k t)) (params target)\<rparr>)"
    using ok r(2) by (simp add: load_state_dict_def)
  let ?t' = "target\<lparr>params := map (\<lambda>(k, t). (k, ?f k t)) (params target)\<rparr>"
  have run: "soft_update tau_v policy target = Inr ?t'"
    using r(1) load by (simp add: soft_update_def state_dict_def ebind_def)
  have keys': "map fst (params ?t') = map fst (params target)"
    by (simp add: comp_def case_prod_beta)
  have dims': "map (\<lambda>kt. dims (snd kt)) (params ?t') = map (\<lambda>kt. dims (snd kt)) (params target)"
    using map_keyed_eq [of "params target" dims ?f] entry
    by (fastforce split: option.splits)
  have lens': "map (\<lambda>kt. length (vals (snd kt))) (params ?t')
      = map (\<lambda>kt. length (vals (snd kt))) (params target)"
    using map_keyed_eq [of "params target" "\<lambda>t. length (vals t)" ?f] entry
    by (fastforce simp: soft_mix_length split: option.splits)
  have shape: "same_shape policy ?t'"
    unfolding same_shape_def using dp keys ds ls keys' dims' lens' by simp
  have "map_of (params ?t') k = Some (soft_mix tau_v p t)"
    if "map_of (params policy) k = Some p" "map_of (params target) k = Some t" for k p t
  proof -
    have "(k, t) \<in> set (params target)"
      using that(2) by (rule map_of_SomeD)
    from entry [OF this] that(1) have "map_of r k = Some (soft_mix tau_v p t)"
      by simp
    then show ?thesis
      using that(2) by (simp add: map_of_map_keyed soft_mix_def)
  qed
  with run shape keys' show ?thesis
    by (simp add: state_dict_def)
qed

lemma same_shape_Network_init: "same_shape (Network_init i1 f u) (Network_init i2 f u)"
proof -
  have "map (\<lambda>kt. length (vals (snd kt))) (params (Network_init i1 f u))
      = map (\<lambda>kt. length (vals (snd kt))) (params (Network_init i2 f u))"
    by (simp add: Network_init_def module_defs mk_tensor_def)
  then show ?thesis
    unfolding same_shape_def
    using Network_init_distinct [of i1 f u] Network_init_keys [of i1 f u i2]
      Network_init_dims [of i1 f u i2]
    by blast
qed

lemma hard_update_same_shape:
  assumes "same_shape policy target"
  shows "hard_update policy target = Inr (target\<lparr>params := params policy\<rparr>)"
proof -
  have "map fst (params target) = map fst (params policy)"
    "distinct (map fst (params policy))"
    "map (\<lambda>kt. dims (snd kt)) (params target) = map (\<lambda>kt. dims (snd kt)) (params policy)"
    using assms unfolding same_shape_def by metis+
  then show ?thesis
    unfolding hard_update_def state_dict_def by (rule load_state_dict_same_shape)
qed

lemma load_state_dict_lookup:
  assumes "load_state_dict net sd = Inr net'"
  shows "map_of (params net') k = map_of sd k"
proof -
  let ?f = "\<lambda>k t. case map_of sd k of None \<Rightarrow> t | Some v \<Rightarrow> t\<lparr>vals := vals v\<rparr>"
  from assms have keys: "set (map fst sd) = set (map fst (params net))"
    and ok: "list_all (\<lambda>(k, t). map_option dims (map_of sd k) = Some (dims t)) (params net)"
    and res: "params net' = map (\<lambda>(k, t). (k, ?f k t)) (params net)"
    by (auto simp: load_state_dict_def split: if_splits)
  show ?thesis
  proof (cases "map_of (params net) k")
    case None
    then have "k \<notin> set (map fst sd)"
      using keys by (simp add: map_of_eq_None_iff)
    then have "map_of sd k = None"
      by (simp add: map_of_eq_None_iff)
    with None res show ?thesis
      by (simp add: map_of_map_keyed)
  next
    case (Some t)
    then have "(k, t) \<in> set (params net)"
      by (rule map_of_SomeD)
    with ok obtain v where v: "map_of sd k = Some v" "dims v = dims t"
      by (auto simp: list_all_iff)
    then have "t\<lparr>vals := vals v\<rparr> = v"
      by (simp add: tensor.equality)
    with Some res v show ?thesis
      by (simp add: map_of_map_keyed)
  qed
qed

subsection \<open>The phases of a step of the training loop\<close>

lemma optimize_frame:
  "optimize lib w cfg a = Inr a' \<Longrightarrow>
     memory a' = memory a \<and> target_net a' = target_net a \<and> need_next a' = need_next a"
  by (auto simp: optimize_def Let_def split: if_splits prod.splits sum.splits)

lemma store_delayed_frame:
  assumes "store_delayed lib w cfg a ps pa s r act info_d = Inr a'"
  shows "target_net a' = target_net a \<and> need_next a' = need_next a
    \<and> memory a' = push (memory a)
          \<lparr>state = ps, action = pa, next_state = Some s, reward = r, next_action = Some act,
           virtual_reward = virtual_reward_of cfg info_d\<rparr>"
proof (cases "arg_use_aux cfg = Some ''virtual-reward-1'' \<or> arg_use_aux cfg = Some ''virtual-reward-5''")
  case True
  with assms obtain vr where vr: "info_d ''virtual-reward'' = Some vr"
    by (cases "info_d ''virtual-reward''") (simp_all add: store_delayed_def)
  with assms True have "optimize lib w cfg
      (a\<lparr>memory := push (memory a)
            \<lparr>state = ps, action = pa, next_state = Some s, reward = r, next_action = Some act,
             virtual_reward = Some vr\<rparr>\<rparr>) = Inr a'"
    by (simp add: store_delayed_def)
  from optimize_frame [OF this] True vr show ?thesis
    by (simp add: virtual_reward_of_def)
next
  case False
  with assms have "optimize lib w cfg
      (a\<lparr>memory := push (memory a)
            \<lparr>state = ps, action = pa, next_state = Some s, reward = r, next_action = Some act,
             virtual_reward = None\<rparr>\<rparr>) = Inr a'"
    by (simp add: store_delayed_def)
  from optimize_frame [OF this] False show ?thesis
    by (simp add: virtual_reward_of_def)
qed

lemma select_action_frame:
  "select_action lib w cfg a s = (r, a') \<Longrightarrow>
     memory a' = memory a \<and> target_net a' = target_net a \<and> need_next a' = need_next a"
  by (auto simp: select_action_def Let_def split: if_splits prod.splits sum.splits)

lemma act_phase_select_action:
  assumes "act_phase lib w cfg t v a = Inr (act, a')"
  shows "\<exists>a1. select_action lib w cfg a (cur_state v) = (Inr act, a1) \<and> memory a1 = memory a
    \<and> (if need_next a \<and> 0 < t
        then \<exists>ps pa pr. previous v = Some (ps, pa, pr)
               \<and> store_delayed lib w cfg a1 ps pa (cur_state v) pr act (info v) = Inr a'
        else a' = a1)"
proof -
  obtain r a1 where sel: "select_action lib w cfg a (cur_state v) = (r, a1)"
    by (cases "select_action lib w cfg a (cur_state v)")
  from select_action_frame [OF sel] have fr: "memory a1 = memory a" "need_next a1 = need_next a"
    by simp_all
  from assms sel have r: "r = Inr act"
    by (cases r) (auto simp: act_phase_def ebind_Inr_iff split: if_splits option.splits)
  show ?thesis
  proof (cases "need_next a \<and> 0 < t")
    case False
    with assms sel r fr have "a' = a1"
      by (auto simp: act_phase_def)
    with sel r fr False show ?thesis by auto
  next
    case True
    with assms sel r fr obtain ps pa pr where pv: "previous v = Some (ps, pa, pr)"
      by (cases "previous v") (auto simp: act_phase_def)
    with assms sel r fr True have
      "store_delayed lib w cfg a1 ps pa (cur_state v) pr act (info v) = Inr a'"
      by (simp add: act_phase_def ebind_Inr_iff)
    with sel r fr pv True show ?thesis by auto
  qed
qed

lemma act_phase_frame:
  assumes "act_phase lib w cfg t v a = Inr (act, a')"
  shows "target_net a' = target_net a \<and> need_next a' = need_next a
    \<and> (\<not> (need_next a \<and> 0 < t) \<longrightarrow> memory a' = memory a)
    \<and> (need_next a \<and> 0 < t \<longrightarrow>
         (\<exists>ps pa pr. previous v = Some (ps, pa, pr)
            \<and> memory a' = push (memory a)
                 \<lparr>state = ps, action = pa, next_state = Some (cur_state v), reward = pr,
                  next_action = Some act, virtual_reward = virtual_reward_of cfg (info v)\<rparr>))"
proof -
  obtain r a1 where sel: "select_action lib w cfg a (cur_state v) = (r, a1)"
    by (cases "select_action lib w cfg a (cur_state v)")
  from select_action_frame [OF sel] have fr: "memory a1 = memory a" "target_net a1 = target_net a"
    "need_next a1 = need_next a" by simp_all
  from assms sel have r: "r = Inr act"
    by (cases r) (auto simp: act_phase_def ebind_Inr_iff split: if_splits option.splits)
  show ?thesis
  proof (cases "need_next a \<and> 0 < t")
    case False
    with assms sel r fr have "a' = a1"
      by (auto simp: act_phase_def)
    with fr False show ?thesis by blast
  next
    case True
    with assms sel r fr obtain ps pa pr where pv: "previous v = Some (ps, pa, pr)"
      by (cases "previous v") (auto simp: act_phase_def)
    with assms sel r fr True have
      "store_delayed lib w cfg a1 ps pa (cur_state v) pr act (info v) = Inr a'"
      by (simp add: act_phase_def ebind_Inr_iff)
    from store_delayed_frame [OF this] fr pv True show ?thesis
      by simp
  qed
qed

lemma env_phase_frame:
  assumes "env_phase lib w cfg v act a = Inr (nxt, rew, dn, info', a')"
  shows "target_net a' = target_net a \<and> need_next a' = need_next a
    \<and> (need_next a \<longrightarrow> memory a' = memory a)
    \<and> (\<not> need_next a \<longrightarrow>
         memory a' = push (memory a)
           \<lparr>state = cur_state v, action = act, next_state = Some nxt, reward = rew,
            next_action = None, virtual_reward = None\<rparr>)"
proof -
  obtain observation rw terminated truncated inf e' where
    st: "env_step w (env a) act = ((observation, rw, terminated, truncated, inf), e')"
    by (metis prod.exhaust)
  from assms st obtain nx where nx: "transpose201 observation = Inr nx"
    by (auto simp: env_phase_def ebind_Inr_iff)
  show ?thesis
  proof (cases "need_next a")
    case True
    with assms st nx show ?thesis
      by (auto simp: env_phase_def ebind_def)
  next
    case False
    with assms st nx have
      "ebind (optimize lib w cfg
              (a\<lparr>env := e',
                 memory := push (memory a)
                   \<lparr>state = cur_state v, action = act, next_state = Some nx, reward = rw,
                    next_action = None, virtual_reward = None\<rparr>\<rparr>))
         (\<lambda>a1. Inr (nx, rw, terminated \<or> truncated, inf, a1)) = Inr (nxt, rew, dn, info', a')"
      by (simp add: env_phase_def ebind_def)
    then obtain a1 where
      opt: "optimize lib w cfg
              (a\<lparr>env := e',
                 memory := push (memory a)
                   \<lparr>state = cur_state v, action = act, next_state = Some nx, reward = rw,
                    next_action = None, virtual_reward = None\<rparr>\<rparr>) = Inr a1"
      and res: "nxt = nx" "rew = rw" "a' = a1"
      by (elim ebindE) simp
    from optimize_frame [OF opt] res False show ?thesis
      by simp
  qed
qed

lemma sync_phase_frame:
  assumes "sync_phase cfg a = Inr a'"
  shows "memory a' = memory a \<and> need_next a' = need_next a \<and> policy_net a' = policy_net a
    \<and> (soft_target_update cfg \<longrightarrow>
          soft_update (tau cfg) (policy_net a) (target_net a) = Inr (target_net a'))
    \<and> (\<not> soft_target_update cfg \<longrightarrow> target_net a' = target_net a)"
  using assms by (auto simp: sync_phase_def ebind_Inr_iff split: if_splits)

lemma end_phase_frame:
  assumes "end_phase lib w cfg t v act nxt rew dn info' a = Inr (fin, v', a')"
  shows "fin = (dn \<or> horizon cfg < int t)
    \<and> target_net a' = target_net a \<and> need_next a' = need_next a
    \<and> cur_state v' = nxt \<and> info v' = info' \<and> previous v' = Some (cur_state v, act, rew)
    \<and> (\<not> (fin \<and> need_next a) \<longrightarrow> memory a' = memory a)
    \<and> (fin \<and> need_next a \<longrightarrow>
         memory a' = push (memory a)
           \<lparr>state = cur_state v, action = act, next_state = Some nxt, reward = rew,
            next_action = Some act, virtual_reward = virtual_reward_of cfg info'\<rparr>)"
proof (cases "dn \<or> horizon cfg < int t")
  case False
  with assms show ?thesis
    by (auto simp: end_phase_def Let_def)
next
  case True
  show ?thesis
  proof (cases "need_next a")
    case False
    with assms True show ?thesis
      by (auto simp: end_phase_def Let_def ebind_def)
  next
    case need: True
    with assms True obtain a1 where
      sd: "store_delayed lib w cfg a (cur_state v) act nxt rew act info' = Inr a1"
      and res: "fin" "a' = a1\<lparr>reward_in_episode := reward_in_episode a1 @ [reward_sum v + rew]\<rparr>"
        "cur_state v' = nxt" "info v' = info'" "previous v' = Some (cur_state v, act, rew)"
      by (auto simp: end_phase_def Let_def ebind_Inr_iff)
    from store_delayed_frame [OF sd] res need True show ?thesis
      by simp
  qed
qed

lemma train_step_phases:
  assumes "train_step lib w cfg t v a = Inr (fin, v', a')"
  shows "\<exists>act a1 nxt rew dn info' a2 a3.
      act_phase lib w cfg t v a = Inr (act, a1)
      \<and> env_phase lib w cfg v act a1 = Inr (nxt, rew, dn, info', a2)
      \<and> sync_phase cfg a2 = Inr a3
      \<and> end_phase lib w cfg t v act nxt rew dn info' a3 = Inr (fin, v', a')"
  using assms unfolding train_step_def
  by (simp add: ebind_Inr_iff split: prod.splits)

lemma train_step_target_net:
  assumes "train_step lib w cfg n v a = Inr (fin, v', a')"
  shows "\<exists>act a1 nxt rew dn info' a2.
      act_phase lib w cfg n v a = Inr (act, a1)
      \<and> env_phase lib w cfg v act a1 = Inr (nxt, rew, dn, info', a2)
      \<and> (soft_target_update cfg \<longrightarrow>
            soft_update (tau cfg) (policy_net a2) (target_net a) = Inr (target_net a'))
      \<and> (\<not> soft_target_update cfg \<longrightarrow> target_net a' = target_net a)"
proof -
  from train_step_phases [OF assms] obtain act a1 nxt rew dn info' a2 a3 where
    ph: "act_phase lib w cfg n v a = Inr (act, a1)"
    "env_phase lib w cfg v act a1 = Inr (nxt, rew, dn, info', a2)"
    "sync_phase cfg a2 = Inr a3"
    "end_phase lib w cfg n v act nxt rew dn info' a3 = Inr (fin, v', a')"
    by blast
  from act_phase_frame [OF ph(1)] env_phase_frame [OF ph(2)]
  have "target_net a2 = target_net a" by simp
  moreover from end_phase_frame [OF ph(4)] have "target_net a' = target_net a3" by simp
  ultimately show ?thesis
    using sync_phase_frame [OF ph(3)] ph(1,2) by auto
qed

lemma episode_end_target_net:
  assumes "\<not> soft_target_update cfg" "episode_end cfg i c a = Inr (stop, a')"
  shows "stop = (c = consecutive_episodes cfg)
    \<and> (stop \<longrightarrow> target_net a' = target_net a)
    \<and> (\<not> stop \<longrightarrow> target_update cfg \<noteq> 0
          \<and> (if int i mod target_update cfg = 0
              then hard_update (policy_net a) (target_net a) = Inr (target_net a')
              else target_net a' = target_net a))"
  using assms
  by (auto simp: episode_end_def ebind_def Agent_save_def split: if_splits sum.splits)

lemma train_step_memory:
  assumes "train_step lib w cfg n v a = Inr (fin, v', a')"
  shows "need_next a' = need_next a
    \<and> (\<exists>act sel a1 nxt rew dn info' a2 a3.
         select_action lib w cfg a (cur_state v) = (Inr act, sel) \<and> memory sel = memory a
         \<and> act_phase lib w cfg n v a = Inr (act, a1)
         \<and> env_phase lib w cfg v act a1 = Inr (nxt, rew, dn, info', a2)
         \<and> sync_phase cfg a2 = Inr a3
         \<and> end_phase lib w cfg n v act nxt rew dn info' a3 = Inr (fin, v', a')
         \<and> fin = (dn \<or> horizon cfg < int n)
         \<and> previous v' = Some (cur_state v, act, rew) \<and> cur_state v' = nxt \<and> info v' = info'
         \<and> (\<not> need_next a \<longrightarrow>
              memory a1 = memory a
              \<and> memory a2 = push (memory a)
                    \<lparr>state = cur_state v, action = act, next_state = Some nxt,
                     reward = rew, next_action = None, virtual_reward = None\<rparr>
              \<and> memory a' = memory a2)
         \<and> (need_next a \<longrightarrow>
              (if 0 < n
               then \<exists>ps pa pr. previous v = Some (ps, pa, pr)
                      \<and> store_delayed lib w cfg sel ps pa (cur_state v) pr act (info v) = Inr a1
                      \<and> memory a1 = push (memory a)
                            \<lparr>state = ps, action = pa, next_state = Some (cur_state v),
                             reward = pr, next_action = Some act,
                             virtual_reward = virtual_reward_of cfg (info v)\<rparr>
               else memory a1 = memory a)
              \<and> memory a2 = memory a1 \<and> memory a3 = memory a1
              \<and> memory a'
                  = (if fin
                     then push (memory a1)
                            \<lparr>state = cur_state v, action = act, next_state = Some nxt,
                             reward = rew, next_action = Some act,
                             virtual_reward = virtual_reward_of cfg info'\<rparr>
                     else memory a1)))"
proof -
  from train_step_phases [OF assms] obtain act a1 nxt rew dn info' a2 a3 where
    ph: "act_phase lib w cfg n v a = Inr (act, a1)"
    "env_phase lib w cfg v act a1 = Inr (nxt, rew, dn, info', a2)"
    "sync_phase cfg a2 = Inr a3"
    "end_phase lib w cfg n v act nxt rew dn info' a3 = Inr (fin, v', a')"
    by blast
  from act_phase_select_action [OF ph(1)] obtain sel where
    sel: "select_action lib w cfg a (cur_state v) = (Inr act, sel)" "memory sel = memory a"
    and del: "if need_next a \<and> 0 < n
        then \<exists>ps pa pr. previous v = Some (ps, pa, pr)
               \<and> store_delayed lib w cfg sel ps pa (cur_state v) pr act (info v) = Inr a1
        else a1 = sel"
    by blast
  note f1 = act_phase_frame [OF ph(1)]
  note f2 = env_phase_frame [OF ph(2)]
  note f3 = sync_phase_frame [OF ph(3)]
  note f4 = end_phase_frame [OF ph(4)]
  have need: "need_next a1 = need_next a" "need_next a2 = need_next a" "need_next a3 = need_next a"
    "need_next a' = need_next a"
    using f1 f2 f3 f4 by simp_all
  have loc: "previous v' = Some (cur_state v, act, rew)" "cur_state v' = nxt" "info v' = info'"
    "fin = (dn \<or> horizon cfg < int n)"
    using f4 by simp_all
  have now: "memory a1 = memory a
      \<and> memory a2 = push (memory a)
            \<lparr>state = cur_state v, action = act, next_state = Some nxt,
             reward = rew, next_action = None, virtual_reward = None\<rparr>
      \<and> memory a' = memory a2" if "\<not> need_next a"
  proof -
    have "memory a1 = memory a" using f1 that by simp
    moreover have "memory a2 = push (memory a1)
        \<lparr>state = cur_state v, action = act, next_state = Some nxt,
         reward = rew, next_action = None, virtual_reward = None\<rparr>"
      using f2 need that by simp
    moreover have "memory a' = memory a2"
      using f3 f4 need that by simp
    ultimately show ?thesis by simp
  qed
  have later: "(if 0 < n
               then \<exists>ps pa pr. previous v = Some (ps, pa, pr)
                      \<and> store_delayed lib w cfg sel ps pa (cur_state v) pr act (info v) = Inr a1
                      \<and> memory a1 = push (memory a)
                            \<lparr>state = ps, action = pa, next_state = Some (cur_state v),
                             reward = pr, next_action = Some act,
                             virtual_reward = virtual_reward_of cfg (info v)\<rparr>
               else memory a1 = memory a)
              \<and> memory a2 = memory a1 \<and> memory a3 = memory a1
              \<and> memory a'
                  = (if fin
                     then push (memory a1)
                            \<lparr>state = cur_state v, action = act, next_state = Some nxt,
                             reward = rew, next_action = Some act,
                             virtual_reward = virtual_reward_of cfg info'\<rparr>
                     else memory a1)" if nd: "need_next a"
  proof -
    have m1: "if 0 < n
        then \<exists>ps pa pr. previous v = Some (ps, pa, pr)
               \<and> store_delayed lib w cfg sel ps pa (cur_state v) pr act (info v) = Inr a1
               \<and> memory a1 = push (memory a)
                     \<lparr>state = ps, action = pa, next_state = Some (cur_state v),
                      reward = pr, next_action = Some act,
                      virtual_reward = virtual_reward_of cfg (info v)\<rparr>
        else memory a1 = memory a"
    proof (cases "0 < n")
      case True
      with del nd obtain ps pa pr where
        pv: "previous v = Some (ps, pa, pr)"
        "store_delayed lib w cfg sel ps pa (cur_state v) pr act (info v) = Inr a1"
        by auto
      from store_delayed_frame [OF pv(2)] sel(2) pv True show ?thesis
        by simp
    next
      case False
      with f1 show ?thesis by simp
    qed
    have m2: "memory a2 = memory a1" "memory a3 = memory a1"
      using f2 f3 need nd by simp_all
    then have "memory a' = (if fin
        then push (memory a1)
               \<lparr>state = cur_state v, action = act, next_state = Some nxt,
                reward = rew, next_action = Some act,
                virtual_reward = virtual_reward_of cfg info'\<rparr>
        else memory a1)"
      using f4 need nd by simp
    with m1 m2 show ?thesis by simp
  qed
  from need(4) ph sel loc now later show ?thesis
    by blast
qed


subsection \<open>The concrete run, step by step\<close>

lemma ex_select_action:
  assumes "0 < eps_decay cfg" "0 \<le> eps_end cfg" "eps_end cfg \<le> eps_start cfg"
    "real (steps_done a) < float_overflow"
  shows "select_action lib ex_world cfg a s
    = (Inr 0, a\<lparr>rng := Suc (Suc (rng a)), steps_done := steps_done a + 1\<rparr>)"
proof -
  let ?v = "if 746 * eps_decay cfg \<le> real (steps_done a) then 0
            else float_exp ex_world (- real (steps_done a) / eps_decay cfg)"
  have thr: "eps_threshold ex_world cfg (steps_done a)
      = Inr (Finite (eps_end cfg + (eps_start cfg - eps_end cfg) * ?v))"
    using assms(1,4) by (rule eps_threshold_positive_decay)
  have "0 \<le> ?v"
    by (simp add: ex_world_def)
  then have "0 \<le> (eps_start cfg - eps_end cfg) * ?v"
    using assms(3) by (intro mult_nonneg_nonneg) simp_all
  with assms(2) have "\<not> float_greater (fst (random_random ex_world (rng a)))
      (Finite (eps_end cfg + (eps_start cfg - eps_end cfg) * ?v))"
    by (simp add: float_greater_def ex_world_def)
  from select_action_explores [OF thr this] show ?thesis
    by (simp add: ex_world_def)
qed

lemma float_overflow_steps: "0 < float_overflow" "1 < float_overflow"
  using float_overflow_large by simp_all

lemma ex_transpose: "transpose201 ex_obs = Inr ex_state"
  by (simp add: transpose201_def ex_obs_def ex_state_def upt_rec)

lemma ex_env_step:
  "env_step ex_world e act = ((ex_obs, 0, 2 \<le> Suc e, False, ex_info), Suc e)"
  by (simp add: ex_world_def ex_info_def)

lemma ex_step0:
  "train_step ex_lib ex_world ex_cfg 0 ex_locals (ex_agent ex_cfg)
     = Inr (False,
            \<lparr>cur_state = ex_state, info = ex_info, previous = Some (ex_state, 0, 0),
             reward_sum = 0, consecutive = 0\<rparr>,
            (ex_agent ex_cfg)\<lparr>env := Suc 0, rng := 2,
               memory := \<lparr>capacity = 1000000, items = [ex_transition]\<rparr>, steps_done := Suc 0\<rparr>)"
proof -
  have act: "act_phase ex_lib ex_world ex_cfg 0 ex_locals (ex_agent ex_cfg)
      = Inr (0, (ex_agent ex_cfg)\<lparr>rng := 2, steps_done := Suc 0\<rparr>)"
    by (simp add: act_phase_def ex_select_action float_overflow_steps ex_cfg_fields ex_agent_fields)
  have env: "env_phase ex_lib ex_world ex_cfg ex_locals 0 ((ex_agent ex_cfg)\<lparr>rng := 2, steps_done := Suc 0\<rparr>)
      = Inr (ex_state, 0, False, ex_info,
             (ex_agent ex_cfg)\<lparr>env := Suc 0, rng := 2,
               memory := \<lparr>capacity = 1000000, items = [ex_transition]\<rparr>, steps_done := Suc 0\<rparr>)"
    by (simp add: env_phase_def ex_env_step ex_transpose ebind_def optimize_def push_def
        ex_agent_fields ex_cfg_fields ex_locals_fields ex_transition_def)
  show ?thesis
    by (simp add: train_step_def act env ebind_def sync_phase_def end_phase_def Let_def
        ex_locals_fields ex_cfg_fields ex_agent_fields)
qed

lemma ex_td_loss_terminal:
  "td_loss ex_lib ex_cfg False (Network_init ex_init False None) (Network_init ex_init False None)
     [ex_transition, ex_transition]
     = Inr ([\<lparr>out_x = [0, 1, 2, 3], out_aux = None, out_rep = replicate 32 0, out_next_rep = None\<rparr>,
             \<lparr>out_x = [0, 1, 2, 3], out_aux = None, out_rep = replicate 32 0, out_next_rep = None\<rparr>],
            None, 88209 / 10000)"
  by (simp add: td_loss_def ex_transition_def cat_def next_batches_def state_action_batch_def
      expected_state_action_batch_def ebind_def ex_forward gather_def row_max_def
      MSELoss_def ex_cfg_fields Let_def eval_nat_numeral power2_eq_square)

lemma ex_loss_terminal:
  "loss ex_lib ex_cfg False (Network_init ex_init False None) [ex_transition, ex_transition]
     (Network_init ex_init False None) = Inr (88209 / 10000)"
  by (simp add: loss_def ex_td_loss_terminal ebind_def ex_cfg_fields)

lemma ex_step1:
  "train_step ex_lib ex_world ex_cfg (Suc 0)
     \<lparr>cur_state = ex_state, info = ex_info, previous = Some (ex_state, 0, 0),
      reward_sum = 0, consecutive = 0\<rparr>
     ((ex_agent ex_cfg)\<lparr>env := Suc 0, rng := 2,
        memory := \<lparr>capacity = 1000000, items = [ex_transition]\<rparr>, steps_done := Suc 0\<rparr>)
     = Inr (True,
            \<lparr>cur_state = ex_state, info = ex_info, previous = Some (ex_state, 0, 0),
             reward_sum = 0, consecutive = 0\<rparr>,
            (ex_agent ex_cfg)\<lparr>env := 2, rng := 5,
               memory := \<lparr>capacity = 1000000, items = [ex_transition, ex_transition]\<rparr>,
               steps_done := 2, reward_in_episode := [0]\<rparr>)"
proof -
  let ?v = "\<lparr>cur_state = ex_state, info = ex_info, previous = Some (ex_state, 0, 0),
      reward_sum = 0, consecutive = 0\<rparr>"
  let ?a = "(ex_agent ex_cfg)\<lparr>env := Suc 0, rng := 2,
        memory := \<lparr>capacity = 1000000, items = [ex_transition]\<rparr>, steps_done := Suc 0\<rparr>"
  let ?b = "(ex_agent ex_cfg)\<lparr>env := Suc 0,
        memory := \<lparr>capacity = 1000000, items = [ex_transition]\<rparr>, rng := 4, steps_done := 2\<rparr>"
  have act: "act_phase ex_lib ex_world ex_cfg (Suc 0) ?v ?a = Inr (0, ?b)"
    by (simp add: act_phase_def ex_select_action float_overflow_steps ex_cfg_fields ex_agent_fields)
  have env: "env_phase ex_lib ex_world ex_cfg ?v 0 ?b
      = Inr (ex_state, 0, True, ex_info,
             (ex_agent ex_cfg)\<lparr>env := 2, rng := 5,
               memory := \<lparr>capacity = 1000000, items = [ex_transition, ex_transition]\<rparr>,
               steps_done := 2\<rparr>)"
    by (simp add: env_phase_def ex_env_step ex_transpose ebind_def optimize_def push_def
        ex_agent_fields ex_cfg_fields ex_transition_def [symmetric] ex_world_fields
        ex_loss_terminal)
  show ?thesis
    by (simp add: train_step_def act env ebind_def sync_phase_def end_phase_def Let_def
        ex_cfg_fields ex_agent_fields)
qed

lemma ex_episode:
  "episode ex_lib ex_world ex_cfg 0 (ex_agent ex_cfg)
     = Inr (\<lparr>cur_state = ex_state, info = ex_info, previous = Some (ex_state, 0, 0),
             reward_sum = 0, consecutive = 0\<rparr>,
            (ex_agent ex_cfg)\<lparr>env := 2, rng := 5,
               memory := \<lparr>capacity = 1000000, items = [ex_transition, ex_transition]\<rparr>,
               steps_done := 2, reward_in_episode := [0]\<rparr>)"
proof -
  have reset: "env_reset ex_world (env (ex_agent ex_cfg)) = ((ex_obs, ex_info), 0)"
    by (simp add: ex_world_fields)
  have same: "(ex_agent ex_cfg)\<lparr>env := 0\<rparr> = ex_agent ex_cfg"
    by (simp add: ex_agent_def)
  show ?thesis
    unfolding episode_def reset
    apply (simp add: ex_transpose ebind_def same ex_locals_def [symmetric])
    apply (subst episode_loop.simps)
    apply (simp add: ex_step0)
    apply (subst episode_loop.simps)
    apply (simp add: ex_step1)
    done
qed

lemma ex_cfg_soft_fields:
  "batch_size ex_cfg_soft = 2" "horizon ex_cfg_soft = 10" "soft_target_update ex_cfg_soft = True"
  "arg_use_aux ex_cfg_soft = None" "arg_use_fta ex_cfg_soft = False" "eps_decay ex_cfg_soft = 1000"
  "eps_end ex_cfg_soft = 1 / 20" "eps_start ex_cfg_soft = 9 / 10" "tau ex_cfg_soft = 1 / 10"
  by (simp_all add: ex_cfg_soft_def ex_cfg_def)

lemma ex_step0_soft:
  "\<exists>tn. soft_update (1 / 10) (Network_init ex_init False None) (Network_init ex_init False None) = Inr tn
      \<and> train_step ex_lib ex_world ex_cfg_soft 0 ex_locals (ex_agent ex_cfg_soft)
     = Inr (False,
            \<lparr>cur_state = ex_state, info = ex_info, previous = Some (ex_state, 0, 0),
             reward_sum = 0, consecutive = 0\<rparr>,
            (ex_agent ex_cfg_soft)\<lparr>env := Suc 0, rng := 2, target_net := tn,
               memory := \<lparr>capacity = 1000000, items = [ex_transition]\<rparr>, steps_done := Suc 0\<rparr>)"
proof -
  have act: "act_phase ex_lib ex_world ex_cfg_soft 0 ex_locals (ex_agent ex_cfg_soft)
      = Inr (0, (ex_agent ex_cfg_soft)\<lparr>rng := 2, steps_done := Suc 0\<rparr>)"
    by (simp add: act_phase_def ex_select_action float_overflow_steps ex_cfg_soft_fields ex_agent_fields)
  have env: "env_phase ex_lib ex_world ex_cfg_soft ex_locals 0
        ((ex_agent ex_cfg_soft)\<lparr>rng := 2, steps_done := Suc 0\<rparr>)
      = Inr (ex_state, 0, False, ex_info,
             (ex_agent ex_cfg_soft)\<lparr>env := Suc 0, rng := 2,
               memory := \<lparr>capacity = 1000000, items = [ex_transition]\<rparr>, steps_done := Suc 0\<rparr>)"
    by (simp add: env_phase_def ex_env_step ex_transpose ebind_def optimize_def push_def
        ex_agent_fields ex_cfg_soft_fields ex_locals_fields ex_transition_def)
  have "same_shape (Network_init ex_init False None) (Network_init ex_init False None)"
    by (rule same_shape_Network_init)
  from soft_update_same_shape [OF this]
  obtain tn where tn: "soft_update (1 / 10) (Network_init ex_init False None)
      (Network_init ex_init False None) = Inr tn"
    by blast
  have "train_step ex_lib ex_world ex_cfg_soft 0 ex_locals (ex_agent ex_cfg_soft)
     = Inr (False,
            \<lparr>cur_state = ex_state, info = ex_info, previous = Some (ex_state, 0, 0),
             reward_sum = 0, consecutive = 0\<rparr>,
            (ex_agent ex_cfg_soft)\<lparr>env := Suc 0, rng := 2, target_net := tn,
               memory := \<lparr>capacity = 1000000, items = [ex_transition]\<rparr>, steps_done := Suc 0\<rparr>)"
    by (simp add: train_step_def act env ebind_def sync_phase_def end_phase_def Let_def
        ex_locals_fields ex_cfg_soft_fields ex_agent_fields tn)
  with tn show ?thesis by blast
qed

lemma ex_trained_differs:
  "state_dict (target_net ex_trained) \<noteq> state_dict (policy_net ex_trained)"
proof
  assume "state_dict (target_net ex_trained) = state_dict (policy_net ex_trained)"
  then have "params (Network_init ex_init False None) = params (Network_init ex_init' False None)"
    by (simp add: state_dict_def ex_trained_def ex_agent_fields ex_cfg_fields)
  then have "param (Network_init ex_init False None) ''q_network_fc3.bias''
      = param (Network_init ex_init' False None) ''q_network_fc3.bias''"
    by (simp add: param_def)
  then have "map (ex_init ''q_network_fc3.bias'') [0..<4] = map (ex_init' ''q_network_fc3.bias'') [0..<4]"
    by (simp add: param_q_network_fc3 mk_tensor_def)
  then show False
    by (simp add: ex_init_def ex_init'_def upt_rec)
qed

lemma ex_trained_shape: "same_shape (policy_net ex_trained) (target_net ex_trained)"
  by (simp add: ex_trained_def ex_agent_fields ex_cfg_fields same_shape_Network_init)

lemma ex_episode_end_streak:
  "episode_end ex_cfg 2 3 ex_trained = Inr (True, Agent_save ex_cfg ex_trained)"
  by (simp add: episode_end_def ex_cfg_fields)

lemma ex_episode_end_sync:
  "episode_end ex_cfg 0 0 ex_trained
     = Inr (False, Agent_save ex_cfg
              (ex_trained\<lparr>target_net := (target_net ex_trained)\<lparr>params := params (policy_net ex_trained)\<rparr>\<rparr>))"
  by (simp add: episode_end_def ex_cfg_fields hard_update_same_shape [OF ex_trained_shape] ebind_def)

lemma ex_step0_need_next:
  assumes "0 < eps_decay cfg" "0 \<le> eps_end cfg" "eps_end cfg \<le> eps_start cfg"
    "need_next (ex_agent cfg)" "\<not> soft_target_update cfg" "0 \<le> horizon cfg"
  shows "train_step ex_lib ex_world cfg 0 ex_locals (ex_agent cfg)
     = Inr (False,
            \<lparr>cur_state = ex_state, info = ex_info, previous = Some (ex_state, 0, 0),
             reward_sum = 0, consecutive = 0\<rparr>,
            (ex_agent cfg)\<lparr>env := Suc 0, rng := 2, steps_done := Suc 0\<rparr>)"
proof -
  have act: "act_phase ex_lib ex_world cfg 0 ex_locals (ex_agent cfg)
      = Inr (0, (ex_agent cfg)\<lparr>rng := 2, steps_done := Suc 0\<rparr>)"
    using assms(1-3) by (simp add: act_phase_def ex_select_action float_overflow_steps ex_agent_fields)
  have env: "env_phase ex_lib ex_world cfg ex_locals 0 ((ex_agent cfg)\<lparr>rng := 2, steps_done := Suc 0\<rparr>)
      = Inr (ex_state, 0, False, ex_info,
             (ex_agent cfg)\<lparr>env := Suc 0, rng := 2, steps_done := Suc 0\<rparr>)"
    using assms(4) by (simp add: env_phase_def ex_env_step ex_transpose ebind_def ex_agent_fields(1))
  show ?thesis
    using assms(5,6)
    by (simp add: train_step_def act env ebind_def sync_phase_def end_phase_def Let_def
        ex_locals_fields)
qed

lemma ex_cfg_vr_fields:
  "batch_size ex_cfg_vr = 32" "horizon ex_cfg_vr = 10" "soft_target_update ex_cfg_vr = False"
  "arg_use_aux ex_cfg_vr = Some ''virtual-reward-1''" "arg_use_fta ex_cfg_vr = False"
  "eps_decay ex_cfg_vr = 1000" "eps_end ex_cfg_vr = 1 / 20" "eps_start ex_cfg_vr = 9 / 10"
  by (simp_all add: ex_cfg_vr_def ex_cfg_def)

lemma ex_cfg_sfr_fields:
  "batch_size ex_cfg_sfr = 2" "horizon ex_cfg_sfr = 10" "soft_target_update ex_cfg_sfr = False"
  "arg_use_aux ex_cfg_sfr = Some ''sf+reward''" "arg_use_fta ex_cfg_sfr = False"
  "eps_decay ex_cfg_sfr = 1000" "eps_end ex_cfg_sfr = 1 / 20" "eps_start ex_cfg_sfr = 9 / 10"
  by (simp_all add: ex_cfg_sfr_def ex_cfg_def)

lemma ex_step1_vr:
  "train_step ex_lib ex_world ex_cfg_vr (Suc 0)
     \<lparr>cur_state = ex_state, info = ex_info, previous = Some (ex_state, 0, 0),
      reward_sum = 0, consecutive = 0\<rparr>
     ((ex_agent ex_cfg_vr)\<lparr>env := Suc 0, rng := 2, steps_done := Suc 0\<rparr>)
     = Inr (True,
            \<lparr>cur_state = ex_state, info = ex_info, previous = Some (ex_state, 0, 0),
             reward_sum = 0, consecutive = 0\<rparr>,
            (ex_agent ex_cfg_vr)\<lparr>env := 2, rng := 4,
               memory := \<lparr>capacity = 1000000, items = [ex_delayed, ex_delayed]\<rparr>,
               steps_done := 2, reward_in_episode := [0]\<rparr>)"
proof -
  let ?v = "\<lparr>cur_state = ex_state, info = ex_info, previous = Some (ex_state, 0, 0),
      reward_sum = 0, consecutive = 0\<rparr>"
  let ?a = "(ex_agent ex_cfg_vr)\<lparr>env := Suc 0, rng := 2, steps_done := Suc 0\<rparr>"
  let ?b = "(ex_agent ex_cfg_vr)\<lparr>env := Suc 0, rng := 4,
        memory := \<lparr>capacity = 1000000, items = [ex_delayed]\<rparr>, steps_done := 2\<rparr>"
  have act: "act_phase ex_lib ex_world ex_cfg_vr (Suc 0) ?v ?a = Inr (0, ?b)"
    by (simp add: act_phase_def ex_select_action float_overflow_steps ex_cfg_vr_fields ex_agent_fields
        store_delayed_def ex_info_def optimize_def push_def ebind_def ex_delayed_def)
  let ?c = "(ex_agent ex_cfg_vr)\<lparr>env := 2, rng := 4,
        memory := \<lparr>capacity = 1000000, items = [ex_delayed]\<rparr>, steps_done := 2\<rparr>"
  have env: "env_phase ex_lib ex_world ex_cfg_vr ?v 0 ?b = Inr (ex_state, 0, True, ex_info, ?c)"
    by (simp add: env_phase_def ex_env_step ex_transpose ebind_def ex_agent_fields
        ex_cfg_vr_fields)
  have fin: "end_phase ex_lib ex_world ex_cfg_vr (Suc 0) ?v 0 ex_state 0 True ex_info ?c
      = Inr (True, ?v,
            (ex_agent ex_cfg_vr)\<lparr>env := 2, rng := 4,
               memory := \<lparr>capacity = 1000000, items = [ex_delayed, ex_delayed]\<rparr>,
               steps_done := 2, reward_in_episode := [0]\<rparr>)"
    by (simp add: end_phase_def Let_def ex_cfg_vr_fields ex_agent_fields
        store_delayed_def ex_info_def optimize_def push_def ebind_def ex_delayed_def)
  show ?thesis
    by (simp add: train_step_def act env fin ebind_def sync_phase_def ex_cfg_vr_fields)
qed

subsection \<open>What the training loop stores, and when\<close>

text \<open>
  C1. The training loop never stores a transition without next state. In the run of
  one episode on the environment that terminates at its second step, both transitions in
  memory hold the observation that followed them as \<open>next_state\<close>, the second one although
  its environment step returned \<open>terminated = True\<close>; its regression target is
  \<open>0 + gamma * 3\<close> where a terminal transition has the target 0. With the task
  \<open>virtual-reward-1\<close> the transition flushed when the episode ends holds its next state as
  well. The mask \<open>s is not None\<close> of \<open>Agent.optimize\<close> therefore selects every transition
  the loop has stored.
\<close>

theorem episode_stores_terminal_next_state:
  "episode ex_lib ex_world ex_cfg 0 (ex_agent ex_cfg)
     = Inr (\<lparr>cur_state = ex_state, info = ex_info, previous = Some (ex_state, 0, 0),
             reward_sum = 0, consecutive = 0\<rparr>,
            (ex_agent ex_cfg)\<lparr>env := 2, rng := 5,
               memory := \<lparr>capacity = 1000000, items = [ex_transition, ex_transition]\<rparr>,
               steps_done := 2, reward_in_episode := [0]\<rparr>)
   \<and> env_step ex_world (Suc 0) 0 = ((ex_obs, 0, True, False, ex_info), 2)
   \<and> next_state ex_transition = Some ex_state
   \<and> reward ex_transition = 0
   \<and> td_target ex_lib ex_cfg (Network_init ex_init False None) ex_transition = 297 / 100
   \<and> train_step ex_lib ex_world ex_cfg_vr (Suc 0)
         \<lparr>cur_state = ex_state, info = ex_info, previous = Some (ex_state, 0, 0),
          reward_sum = 0, consecutive = 0\<rparr>
         ((ex_agent ex_cfg_vr)\<lparr>env := Suc 0, rng := 2, steps_done := Suc 0\<rparr>)
       = Inr (True,
            \<lparr>cur_state = ex_state, info = ex_info, previous = Some (ex_state, 0, 0),
             reward_sum = 0, consecutive = 0\<rparr>,
            (ex_agent ex_cfg_vr)\<lparr>env := 2, rng := 4,
               memory := \<lparr>capacity = 1000000, items = [ex_delayed, ex_delayed]\<rparr>,
               steps_done := 2, reward_in_episode := [0]\<rparr>)
   \<and> next_state ex_delayed = Some ex_state"
proof -
  have "td_target ex_lib ex_cfg (Network_init ex_init False None) ex_transition = 297 / 100"
    by (simp add: td_target_def bootstrap_value_def ex_transition_def ex_forward ex_cfg_fields)
  then show ?thesis
    by (simp add: ex_episode ex_env_step ex_step1_vr) (simp add: ex_transition_def ex_delayed_def)
qed

text \<open>
  C4. An agent needs the next action exactly for the settings \<open>sf\<close>, \<open>sf+reward\<close>,
  \<open>virtual-reward-1\<close> and \<open>virtual-reward-5\<close> of \<open>use_aux\<close>, hence, among the six settings
  of the specification, exactly for \<open>sf\<close>, \<open>virtual-reward-1\<close> and \<open>virtual-reward-5\<close>; a
  step of the training loop does not change that. A step \<open>t\<close> that completes runs in this
  order: it selects its action, which stores nothing; when the next action is needed
  and \<open>0 < t\<close>, it then stores the transition of step \<open>t - 1\<close> with the action just selected
  as next action; it then steps the environment and, when the next action is not
  needed, stores its own transition with the next state observed; after the
  synchronization, which stores nothing, it stores its own transition when the next
  action is needed and the step ends the episode. Nothing else is stored: when the next
  action is needed, the transition of a step that does not end the episode is not in
  memory when the step completes, and when it is not needed, the transition of the step
  is stored by the environment phase of the step itself.
\<close>

theorem train_step_storage:
  "(Agent_init w cfg e g init_p init_t = Inr a0 \<longrightarrow>
      need_next a0
        = (arg_use_aux cfg = Some ''sf'' \<or> arg_use_aux cfg = Some ''sf+reward''
           \<or> arg_use_aux cfg = Some ''virtual-reward-1''
           \<or> arg_use_aux cfg = Some ''virtual-reward-5'')
      \<and> (arg_use_aux cfg \<in> set aux_variants \<longrightarrow>
           need_next a0
             = (arg_use_aux cfg = Some ''sf'' \<or> arg_use_aux cfg = Some ''virtual-reward-1''
                \<or> arg_use_aux cfg = Some ''virtual-reward-5'')))
   \<and> (train_step lib w cfg n v a = Inr (fin, v', a') \<longrightarrow>
        need_next a' = need_next a
        \<and> (\<exists>act sel a1 nxt rew dn info' a2 a3.
             select_action lib w cfg a (cur_state v) = (Inr act, sel) \<and> memory sel = memory a
             \<and> act_phase lib w cfg n v a = Inr (act, a1)
             \<and> env_phase lib w cfg v act a1 = Inr (nxt, rew, dn, info', a2)
             \<and> sync_phase cfg a2 = Inr a3
             \<and> end_phase lib w cfg n v act nxt rew dn info' a3 = Inr (fin, v', a')
             \<and> fin = (dn \<or> horizon cfg < int n)
             \<and> previous v' = Some (cur_state v, act, rew) \<and> cur_state v' = nxt \<and> info v' = info'
             \<and> (\<not> need_next a \<longrightarrow>
                  memory a1 = memory a
                  \<and> memory a2 = push (memory a)
                        \<lparr>state = cur_state v, action = act, next_state = Some nxt,
                         reward = rew, next_action = None, virtual_reward = None\<rparr>
                  \<and> memory a' = memory a2)
             \<and> (need_next a \<longrightarrow>
                  (if 0 < n
                   then \<exists>ps pa pr. previous v = Some (ps, pa, pr)
                          \<and> store_delayed lib w cfg sel ps pa (cur_state v) pr act (info v) = Inr a1
                          \<and> memory a1 = push (memory a)
                                \<lparr>state = ps, action = pa, next_state = Some (cur_state v),
                                 reward = pr, next_action = Some act,
                                 virtual_reward = virtual_reward_of cfg (info v)\<rparr>
                   else memory a1 = memory a)
                  \<and> memory a2 = memory a1 \<and> memory a3 = memory a1
                  \<and> memory a'
                      = (if fin
                         then push (memory a1)
                                \<lparr>state = cur_state v, action = act, next_state = Some nxt,
                                 reward = rew, next_action = Some act,
                                 virtual_reward = virtual_reward_of cfg info'\<rparr>
                         else memory a1))))"
proof (intro conjI impI)
  assume "Agent_init w cfg e g init_p init_t = Inr a0"
  then show "need_next a0
        = (arg_use_aux cfg = Some ''sf'' \<or> arg_use_aux cfg = Some ''sf+reward''
           \<or> arg_use_aux cfg = Some ''virtual-reward-1''
           \<or> arg_use_aux cfg = Some ''virtual-reward-5'')"
    by (auto simp: Agent_init_returns)
next
  assume "Agent_init w cfg e g init_p init_t = Inr a0" "arg_use_aux cfg \<in> set aux_variants"
  then show "need_next a0
        = (arg_use_aux cfg = Some ''sf'' \<or> arg_use_aux cfg = Some ''virtual-reward-1''
           \<or> arg_use_aux cfg = Some ''virtual-reward-5'')"
    by (auto simp: Agent_init_returns aux_variants_def)
next
  assume run: "train_step lib w cfg n v a = Inr (fin, v', a')"
  from train_step_memory [OF run] show "need_next a' = need_next a"
    by (rule conjunct1)
  from train_step_memory [OF run]
  show "\<exists>act sel a1 nxt rew dn info' a2 a3.
             select_action lib w cfg a (cur_state v) = (Inr act, sel) \<and> memory sel = memory a
             \<and> act_phase lib w cfg n v a = Inr (act, a1)
             \<and> env_phase lib w cfg v act a1 = Inr (nxt, rew, dn, info', a2)
             \<and> sync_phase cfg a2 = Inr a3
             \<and> end_phase lib w cfg n v act nxt rew dn info' a3 = Inr (fin, v', a')
             \<and> fin = (dn \<or> horizon cfg < int n)
             \<and> previous v' = Some (cur_state v, act, rew) \<and> cur_state v' = nxt \<and> info v' = info'
             \<and> (\<not> need_next a \<longrightarrow>
                  memory a1 = memory a
                  \<and> memory a2 = push (memory a)
                        \<lparr>state = cur_state v, action = act, next_state = Some nxt,
                         reward = rew, next_action = None, virtual_reward = None\<rparr>
                  \<and> memory a' = memory a2)
             \<and> (need_next a \<longrightarrow>
                  (if 0 < n
                   then \<exists>ps pa pr. previous v = Some (ps, pa, pr)
                          \<and> store_delayed lib w cfg sel ps pa (cur_state v) pr act (info v) = Inr a1
                          \<and> memory a1 = push (memory a)
                                \<lparr>state = ps, action = pa, next_state = Some (cur_state v),
                                 reward = pr, next_action = Some act,
                                 virtual_reward = virtual_reward_of cfg (info v)\<rparr>
                   else memory a1 = memory a)
                  \<and> memory a2 = memory a1 \<and> memory a3 = memory a1
                  \<and> memory a'
                      = (if fin
                         then push (memory a1)
                                \<lparr>state = cur_state v, action = act, next_state = Some nxt,
                                 reward = rew, next_action = Some act,
                                 virtual_reward = virtual_reward_of cfg info'\<rparr>
                         else memory a1))"
    by (rule conjunct2)
qed

text \<open>
  Without auxiliary task the first step of the run stores its transition; with
  \<open>virtual-reward-1\<close> the first step stores nothing and the second step, which ends the
  episode, stores the transition of the first step and then its own.
\<close>

theorem train_step_storage_witness:
  "arg_use_aux ex_cfg \<in> set aux_variants
   \<and> Agent_init ex_world ex_cfg 0 0 ex_init ex_init' = Inr (ex_agent ex_cfg)
   \<and> \<not> need_next (ex_agent ex_cfg)
   \<and> train_step ex_lib ex_world ex_cfg 0 ex_locals (ex_agent ex_cfg)
       = Inr (False,
            \<lparr>cur_state = ex_state, info = ex_info, previous = Some (ex_state, 0, 0),
             reward_sum = 0, consecutive = 0\<rparr>,
            (ex_agent ex_cfg)\<lparr>env := Suc 0, rng := 2,
               memory := \<lparr>capacity = 1000000, items = [ex_transition]\<rparr>, steps_done := Suc 0\<rparr>)
   \<and> push (memory (ex_agent ex_cfg)) ex_transition = \<lparr>capacity = 1000000, items = [ex_transition]\<rparr>
   \<and> arg_use_aux ex_cfg_vr \<in> set aux_variants
   \<and> need_next (ex_agent ex_cfg_vr)
   \<and> Agent_init ex_world ex_cfg_vr 0 0 ex_init ex_init' = Inr (ex_agent ex_cfg_vr)
   \<and> train_step ex_lib ex_world ex_cfg_vr 0 ex_locals (ex_agent ex_cfg_vr)
       = Inr (False,
            \<lparr>cur_state = ex_state, info = ex_info, previous = Some (ex_state, 0, 0),
             reward_sum = 0, consecutive = 0\<rparr>,
            (ex_agent ex_cfg_vr)\<lparr>env := Suc 0, rng := 2, steps_done := Suc 0\<rparr>)
   \<and> memory ((ex_agent ex_cfg_vr)\<lparr>env := Suc 0, rng := 2, steps_done := Suc 0\<rparr>)
       = memory (ex_agent ex_cfg_vr)
   \<and> train_step ex_lib ex_world ex_cfg_vr (Suc 0)
         \<lparr>cur_state = ex_state, info = ex_info, previous = Some (ex_state, 0, 0),
          reward_sum = 0, consecutive = 0\<rparr>
         ((ex_agent ex_cfg_vr)\<lparr>env := Suc 0, rng := 2, steps_done := Suc 0\<rparr>)
       = Inr (True,
            \<lparr>cur_state = ex_state, info = ex_info, previous = Some (ex_state, 0, 0),
             reward_sum = 0, consecutive = 0\<rparr>,
            (ex_agent ex_cfg_vr)\<lparr>env := 2, rng := 4,
               memory := \<lparr>capacity = 1000000, items = [ex_delayed, ex_delayed]\<rparr>,
               steps_done := 2, reward_in_episode := [0]\<rparr>)
   \<and> push (push (memory (ex_agent ex_cfg_vr)) ex_delayed) ex_delayed
       = \<lparr>capacity = 1000000, items = [ex_delayed, ex_delayed]\<rparr>"
proof -
  have step0_vr: "train_step ex_lib ex_world ex_cfg_vr 0 ex_locals (ex_agent ex_cfg_vr)
       = Inr (False,
            \<lparr>cur_state = ex_state, info = ex_info, previous = Some (ex_state, 0, 0),
             reward_sum = 0, consecutive = 0\<rparr>,
            (ex_agent ex_cfg_vr)\<lparr>env := Suc 0, rng := 2, steps_done := Suc 0\<rparr>)"
    by (rule ex_step0_need_next) (simp_all add: ex_cfg_vr_fields ex_agent_fields)
  have var: "arg_use_aux ex_cfg \<in> set aux_variants" "arg_use_aux ex_cfg_vr \<in> set aux_variants"
    by (simp_all add: aux_variants_def ex_cfg_fields ex_cfg_vr_fields)
  note now = train_step_storage
    [of ex_world ex_cfg 0 0 ex_init ex_init' "ex_agent ex_cfg" ex_lib 0 ex_locals
        "ex_agent ex_cfg" False
        "\<lparr>cur_state = ex_state, info = ex_info, previous = Some (ex_state, 0, 0),
             reward_sum = 0, consecutive = 0\<rparr>"
        "(ex_agent ex_cfg)\<lparr>env := Suc 0, rng := 2,
               memory := \<lparr>capacity = 1000000, items = [ex_transition]\<rparr>, steps_done := Suc 0\<rparr>"]
  note later = train_step_storage
    [of ex_world ex_cfg_vr 0 0 ex_init ex_init' "ex_agent ex_cfg_vr" ex_lib "Suc 0"
        "\<lparr>cur_state = ex_state, info = ex_info, previous = Some (ex_state, 0, 0),
             reward_sum = 0, consecutive = 0\<rparr>"
        "(ex_agent ex_cfg_vr)\<lparr>env := Suc 0, rng := 2, steps_done := Suc 0\<rparr>" True
        "\<lparr>cur_state = ex_state, info = ex_info, previous = Some (ex_state, 0, 0),
             reward_sum = 0, consecutive = 0\<rparr>"
        "(ex_agent ex_cfg_vr)\<lparr>env := 2, rng := 4,
               memory := \<lparr>capacity = 1000000, items = [ex_delayed, ex_delayed]\<rparr>,
               steps_done := 2, reward_in_episode := [0]\<rparr>"]
  from now [THEN conjunct1] var(1) ex_agent_init [of ex_cfg]
  have a: "\<not> need_next (ex_agent ex_cfg)"
    by (simp add: ex_cfg_fields)
  from later [THEN conjunct1] var(2) ex_agent_init [of ex_cfg_vr]
  have b: "need_next (ex_agent ex_cfg_vr)"
    by (simp add: ex_cfg_vr_fields)
  have c: "push (memory (ex_agent ex_cfg)) ex_transition = \<lparr>capacity = 1000000, items = [ex_transition]\<rparr>"
    "push (push (memory (ex_agent ex_cfg_vr)) ex_delayed) ex_delayed
       = \<lparr>capacity = 1000000, items = [ex_delayed, ex_delayed]\<rparr>"
    by (simp_all add: push_def ex_agent_fields)
  from a b c var ex_step0 step0_vr ex_step1_vr ex_agent_init [of ex_cfg] ex_agent_init [of ex_cfg_vr]
  show ?thesis
    by simp
qed

text \<open>
  The setting \<open>sf+reward\<close>, which \<open>Agent.__init__\<close> tests for and which is not among the
  six settings of the specification, delays the storage as well: the first step of the
  run leaves the memory empty.
\<close>

lemma sf_reward_delays:
  "arg_use_aux ex_cfg_sfr = Some ''sf+reward''
   \<and> arg_use_aux ex_cfg_sfr \<notin> set aux_variants
   \<and> Agent_init ex_world ex_cfg_sfr 0 0 ex_init ex_init' = Inr (ex_agent ex_cfg_sfr)
   \<and> train_step ex_lib ex_world ex_cfg_sfr 0 ex_locals (ex_agent ex_cfg_sfr)
       = Inr (False,
            \<lparr>cur_state = ex_state, info = ex_info, previous = Some (ex_state, 0, 0),
             reward_sum = 0, consecutive = 0\<rparr>,
            (ex_agent ex_cfg_sfr)\<lparr>env := Suc 0, rng := 2, steps_done := Suc 0\<rparr>)
   \<and> items (memory ((ex_agent ex_cfg_sfr)\<lparr>env := Suc 0, rng := 2, steps_done := Suc 0\<rparr>)) = []"
proof -
  have "train_step ex_lib ex_world ex_cfg_sfr 0 ex_locals (ex_agent ex_cfg_sfr)
       = Inr (False,
            \<lparr>cur_state = ex_state, info = ex_info, previous = Some (ex_state, 0, 0),
             reward_sum = 0, consecutive = 0\<rparr>,
            (ex_agent ex_cfg_sfr)\<lparr>env := Suc 0, rng := 2, steps_done := Suc 0\<rparr>)"
    by (rule ex_step0_need_next) (simp_all add: ex_cfg_sfr_fields ex_agent_fields)
  then show ?thesis
    by (simp add: ex_agent_init ex_cfg_sfr_fields ex_agent_fields aux_variants_def)
qed


subsection \<open>The soft update\<close>

text \<open>
  C7. On two networks of the same architecture the soft update returns, and replaces
  every parameter of the target network by \<open>tau\<close> times the policy parameter plus
  \<open>1 - tau\<close> times the old target parameter, keeping the keys. With the soft update
  configured, every step of the training loop that completes ends with the target
  network that the soft update returns on the policy network as it is after the
  optimization of the step and the target network as it was before the step. For a
  scalar parameter, policy value 1, target value 0 and \<open>tau = 0.1\<close>, one update gives 0.1
  and a second one 0.19.
\<close>

theorem soft_update_target_network:
  "(same_shape policy target \<longrightarrow>
      (\<exists>target'. soft_update tau_v policy target = Inr target'
         \<and> same_shape policy target'
         \<and> map fst (state_dict target') = map fst (state_dict target)
         \<and> (\<forall>k p t. map_of (state_dict policy) k = Some p \<longrightarrow> map_of (state_dict target) k = Some t
               \<longrightarrow> map_of (state_dict target') k = Some (soft_mix tau_v p t))))
   \<and> (soft_target_update cfg \<and> train_step lib w cfg n v a = Inr (fin, v', a') \<longrightarrow>
        (\<exists>act a1 nxt rew dn info' a2.
            act_phase lib w cfg n v a = Inr (act, a1)
            \<and> env_phase lib w cfg v act a1 = Inr (nxt, rew, dn, info', a2)
            \<and> soft_update (tau cfg) (policy_net a2) (target_net a) = Inr (target_net a')))
   \<and> soft_update (1 / 10) (scalar_net 1) (scalar_net 0) = Inr (scalar_net (1 / 10))
   \<and> soft_update (1 / 10) (scalar_net 1) (scalar_net (1 / 10)) = Inr (scalar_net (19 / 100))"
proof (intro conjI impI)
  assume "same_shape policy target"
  then show "\<exists>target'. soft_update tau_v policy target = Inr target'
         \<and> same_shape policy target'
         \<and> map fst (state_dict target') = map fst (state_dict target)
         \<and> (\<forall>k p t. map_of (state_dict policy) k = Some p \<longrightarrow> map_of (state_dict target) k = Some t
               \<longrightarrow> map_of (state_dict target') k = Some (soft_mix tau_v p t))"
    by (rule soft_update_same_shape)
next
  assume "soft_target_update cfg \<and> train_step lib w cfg n v a = Inr (fin, v', a')"
  then show "\<exists>act a1 nxt rew dn info' a2.
            act_phase lib w cfg n v a = Inr (act, a1)
            \<and> env_phase lib w cfg v act a1 = Inr (nxt, rew, dn, info', a2)
            \<and> soft_update (tau cfg) (policy_net a2) (target_net a) = Inr (target_net a')"
    using train_step_target_net [of lib w cfg n v a fin v' a'] by blast
next
  show "soft_update (1 / 10) (scalar_net 1) (scalar_net 0) = Inr (scalar_net (1 / 10))"
    by (simp add: soft_update_def state_dict_def scalar_net_def tensor_add_def tensor_scale_def
        load_state_dict_def ebind_def)
next
  show "soft_update (1 / 10) (scalar_net 1) (scalar_net (1 / 10)) = Inr (scalar_net (19 / 100))"
    by (simp add: soft_update_def state_dict_def scalar_net_def tensor_add_def tensor_scale_def
        load_state_dict_def ebind_def)
qed

theorem soft_update_target_network_witness:
  "same_shape (scalar_net 1) (scalar_net 0)
   \<and> map_of (state_dict (scalar_net (1 / 10))) ''theta''
       = Some (soft_mix (1 / 10) \<lparr>dims = [], vals = [1]\<rparr> \<lparr>dims = [], vals = [0]\<rparr>)
   \<and> soft_target_update ex_cfg_soft
   \<and> (\<exists>fin v' a'. train_step ex_lib ex_world ex_cfg_soft 0 ex_locals (ex_agent ex_cfg_soft)
          = Inr (fin, v', a')
        \<and> (\<exists>p. soft_update (tau ex_cfg_soft) p (target_net (ex_agent ex_cfg_soft))
              = Inr (target_net a')))"
proof -
  have shape: "same_shape (scalar_net 1) (scalar_net 0)"
    by (simp add: same_shape_def scalar_net_def)
  from ex_step0_soft obtain fin v' a' where
    run: "train_step ex_lib ex_world ex_cfg_soft 0 ex_locals (ex_agent ex_cfg_soft) = Inr (fin, v', a')"
    by blast
  note inst = soft_update_target_network
    [of "scalar_net 1" "scalar_net 0" "1 / 10" ex_cfg_soft ex_lib ex_world 0 ex_locals
       "ex_agent ex_cfg_soft" fin v' a']
  from inst shape have "map_of (state_dict (scalar_net (1 / 10))) ''theta''
       = Some (soft_mix (1 / 10) \<lparr>dims = [], vals = [1]\<rparr> \<lparr>dims = [], vals = [0]\<rparr>)"
    by (simp add: state_dict_def scalar_net_def soft_mix_def)
  moreover from inst run have "\<exists>p. soft_update (tau ex_cfg_soft) p (target_net (ex_agent ex_cfg_soft))
              = Inr (target_net a')"
    by (simp add: ex_cfg_soft_fields) blast
  ultimately show ?thesis
    using shape run by (simp add: ex_cfg_soft_fields)
qed

subsection \<open>The hard update\<close>

text \<open>
  C8, as amended. A hard update that returns leaves the target network with the
  parameters of the policy network under every key, and on two networks of the same
  architecture it returns with the very state dictionary of the policy network. With
  the soft update off, the end of episode \<open>i\<close> stops the training when the streak of
  successful episodes has reached \<open>consecutive_episodes\<close>, and then leaves the target
  network as it is; otherwise \<open>target_update\<close> is not 0 and the target network is
  hard-updated if \<open>i\<close> is a multiple of \<open>target_update\<close> and left as it is if not. No step
  within an episode changes the target network.
\<close>

theorem hard_update_target_network:
  "(hard_update policy target = Inr target' \<longrightarrow>
      map_of (state_dict target') = map_of (state_dict policy))
   \<and> (same_shape policy target \<longrightarrow>
        hard_update policy target = Inr (target\<lparr>params := params policy\<rparr>)
        \<and> state_dict (target\<lparr>params := params policy\<rparr>) = state_dict policy)
   \<and> (\<not> soft_target_update cfg \<and> episode_end cfg i c a = Inr (stop, a') \<longrightarrow>
        stop = (c = consecutive_episodes cfg)
        \<and> (stop \<longrightarrow> target_net a' = target_net a)
        \<and> (\<not> stop \<longrightarrow> target_update cfg \<noteq> 0
             \<and> (if int i mod target_update cfg = 0
                 then hard_update (policy_net a) (target_net a) = Inr (target_net a')
                 else target_net a' = target_net a)))
   \<and> (\<not> soft_target_update cfg \<and> train_step lib w cfg n v b = Inr (fin, v', b') \<longrightarrow>
        target_net b' = target_net b)"
proof (intro conjI impI)
  assume "hard_update policy target = Inr target'"
  then show "map_of (state_dict target') = map_of (state_dict policy)"
    by (auto simp: hard_update_def state_dict_def fun_eq_iff dest: load_state_dict_lookup)
next
  assume "same_shape policy target"
  then show "hard_update policy target = Inr (target\<lparr>params := params policy\<rparr>)"
    by (rule hard_update_same_shape)
next
  show "state_dict (target\<lparr>params := params policy\<rparr>) = state_dict policy"
    by (simp add: state_dict_def)
next
  assume h: "\<not> soft_target_update cfg \<and> episode_end cfg i c a = Inr (stop, a')"
  from episode_end_target_net [of cfg i c a stop a'] h
  show "stop = (c = consecutive_episodes cfg)"
    and "stop \<Longrightarrow> target_net a' = target_net a"
    and "\<not> stop \<Longrightarrow> target_update cfg \<noteq> 0"
    and "\<not> stop \<Longrightarrow> if int i mod target_update cfg = 0
                 then hard_update (policy_net a) (target_net a) = Inr (target_net a')
                 else target_net a' = target_net a"
    by blast+
next
  assume "\<not> soft_target_update cfg \<and> train_step lib w cfg n v b = Inr (fin, v', b')"
  then show "target_net b' = target_net b"
    using train_step_target_net [of lib w cfg n v b fin v' b'] by blast
qed

text \<open>
  At the end of episode 0 without a streak the target network of \<open>ex_trained\<close> receives
  the parameters of its policy network.
\<close>

theorem hard_update_target_network_witness:
  "\<not> soft_target_update ex_cfg
   \<and> same_shape (policy_net ex_trained) (target_net ex_trained)
   \<and> episode_end ex_cfg 0 0 ex_trained
       = Inr (False, Agent_save ex_cfg
                (ex_trained\<lparr>target_net := (target_net ex_trained)\<lparr>params := params (policy_net ex_trained)\<rparr>\<rparr>))
   \<and> hard_update (policy_net ex_trained) (target_net ex_trained)
       = Inr (target_net (Agent_save ex_cfg
                (ex_trained\<lparr>target_net := (target_net ex_trained)\<lparr>params := params (policy_net ex_trained)\<rparr>\<rparr>)))
   \<and> map_of (state_dict ((target_net ex_trained)\<lparr>params := params (policy_net ex_trained)\<rparr>))
       = map_of (state_dict (policy_net ex_trained))
   \<and> target_net ((ex_agent ex_cfg)\<lparr>env := Suc 0, rng := 2,
          memory := \<lparr>capacity = 1000000, items = [ex_transition]\<rparr>, steps_done := Suc 0\<rparr>)
       = target_net (ex_agent ex_cfg)"
proof -
  have nosoft: "\<not> soft_target_update ex_cfg"
    by (simp add: ex_cfg_fields)
  note inst = hard_update_target_network
    [of "policy_net ex_trained" "target_net ex_trained"
        "(target_net ex_trained)\<lparr>params := params (policy_net ex_trained)\<rparr>"
        ex_cfg 0 0 ex_trained False
        "Agent_save ex_cfg
           (ex_trained\<lparr>target_net := (target_net ex_trained)\<lparr>params := params (policy_net ex_trained)\<rparr>\<rparr>)"
        ex_lib ex_world 0 ex_locals "ex_agent ex_cfg" False
        "\<lparr>cur_state = ex_state, info = ex_info, previous = Some (ex_state, 0, 0),
             reward_sum = 0, consecutive = 0\<rparr>"
        "(ex_agent ex_cfg)\<lparr>env := Suc 0, rng := 2,
               memory := \<lparr>capacity = 1000000, items = [ex_transition]\<rparr>, steps_done := Suc 0\<rparr>"]
  from inst nosoft ex_trained_shape ex_episode_end_sync ex_step0 show ?thesis
    by (simp add: ex_cfg_fields Agent_save_def)
qed

text \<open>
  C8 as stated fails at the episode that completes the streak: episode 2, the third
  successful one in a row, is a multiple of \<open>target_update\<close>, the training stops before
  the synchronization, and the target network keeps parameters that differ from those of
  the policy network.
\<close>

theorem hard_update_skipped_counterexample:
  "\<not> soft_target_update ex_cfg
   \<and> (2 :: int) mod target_update ex_cfg = 0
   \<and> consecutive_episodes ex_cfg = 3
   \<and> episode_end ex_cfg 2 3 ex_trained = Inr (True, Agent_save ex_cfg ex_trained)
   \<and> target_net (Agent_save ex_cfg ex_trained) = target_net ex_trained
   \<and> state_dict (target_net ex_trained) \<noteq> state_dict (policy_net ex_trained)"
  using ex_trained_differs
  by (simp add: ex_episode_end_streak ex_cfg_fields Agent_save_def)

end
